theory Spec2Isabelle
  imports Complex_Main
begin

section \<open>Numbers, vectors and the random source\<close>

text \<open>
  The simulation computes with JavaScript numbers.  They are modelled as the real
  numbers: no rounding, no NaN and no infinities.  \<open>Math.floor\<close> and \<open>Math.ceil\<close> are
  \<open>floor\<close> and \<open>ceiling\<close>, \<open>Math.sqrt\<close> is \<open>sqrt\<close>.  Counters that the code only ever
  increments by one (ids) are natural numbers; counters that it also decrements are
  integers.

  \<open>Math.random()\<close> is an external source of numbers.  It is modelled as an infinite
  sequence that every call consumes one element of: a function that draws returns the
  value together with the rest of the sequence.
\<close>

type_synonym Vector2 = "real \<times> real"

type_synonym rng = "nat \<Rightarrow> real"

definition random :: "rng \<Rightarrow> real \<times> rng" where
  "random r = (r 0, \<lambda>n. r (Suc n))"

text \<open>The source that returns the same number at every call, for the example inputs.\<close>

definition constantSource :: "real \<Rightarrow> rng" where
  "constantSource u = (\<lambda>n. u)"


section \<open>utils/math.ts\<close>

definition magnitude :: "Vector2 \<Rightarrow> real" where
  "magnitude v = sqrt ((fst v)\<^sup>2 + (snd v)\<^sup>2)"

definition distance :: "real \<Rightarrow> real \<Rightarrow> real \<Rightarrow> real \<Rightarrow> real" where
  "distance x1 y1 x2 y2 =
     (let dx = x2 - x1; dy = y2 - y1 in sqrt (dx * dx + dy * dy))"


section \<open>simulation/config.ts\<close>

text \<open>
  \<open>CONFIG\<close> is a mutable object that the settings panel edits at run time, so every
  function that reads it takes the configuration as an argument.  The record holds the
  entries that the modelled functions read; \<open>DEFAULT_CONFIG\<close> gives them the values of
  the source.
\<close>

record Config =
  WORLD_WIDTH :: real
  WORLD_HEIGHT :: real
  SPATIAL_CELL_SIZE :: real
  INITIAL_CREATURE_COUNT :: nat
  MAX_CREATURES :: nat
  INITIAL_FOOD_COUNT :: nat
  CREATURE_BASE_SPEED :: real
  CREATURE_BASE_SIZE :: real
  CREATURE_MAX_SIZE :: real
  CREATURE_MIN_SIZE :: real
  CREATURE_BASE_ENERGY :: real
  CREATURE_MAX_ENERGY :: real
  CREATURE_ENERGY_DRAIN_BASE :: real
  CREATURE_VISION_BASE :: real
  CREATURE_VISION_MAX :: real
  REPRODUCTION_ENERGY_THRESHOLD :: real
  REPRODUCTION_ENERGY_COST :: real
  REPRODUCTION_COOLDOWN :: real
  OFFSPRING_MAX_SMALL :: nat
  OFFSPRING_MAX_MEDIUM :: nat
  OFFSPRING_MAX_LARGE :: nat
  ASEXUAL_SIZE_THRESHOLD :: real
  MUTATION_RATE :: real
  MUTATION_LARGE_CHANCE :: real
  MUTATION_LARGE_AMOUNT :: real
  TEMPERATURE_MIN :: real
  TEMPERATURE_MAX :: real
  TEMPERATURE_DEFAULT :: real
  EMIGRATION_EDGE_DISTANCE :: real
  EMIGRATION_ENERGY_THRESHOLD :: real
  EMIGRATION_CROWDING_THRESHOLD :: nat
  EMIGRATION_BASE_CHANCE :: real
  HERBIVORE_LIFESPAN_MULT :: real
  HERBIVORE_REPRO_COOLDOWN_MULT :: real
  HERBIVORE_REPRO_THRESHOLD_OFFSET :: real
  HERBIVORE_OFFSPRING_BONUS :: nat
  HERBIVORE_SPEED_SIZE_PENALTY :: real
  HERBIVORE_BIG_ENERGY_PENALTY :: real
  HERBIVORE_TINY_REPRO_MULT :: real
  HERBIVORE_SMALL_REPRO_MULT :: real
  HERBIVORE_LARGE_REPRO_MULT :: real
  CARNIVORE_LIFESPAN_MULT :: real
  CARNIVORE_REPRO_COOLDOWN_MULT :: real
  CARNIVORE_REPRO_THRESHOLD_OFFSET :: real
  CARNIVORE_OFFSPRING_BONUS :: nat
  CARNIVORE_SPEED_SIZE_PENALTY :: real
  OMNIVORE_LIFESPAN_MULT :: real
  OMNIVORE_REPRO_COOLDOWN_MULT :: real
  OMNIVORE_REPRO_THRESHOLD_OFFSET :: real
  OMNIVORE_SPEED_SIZE_PENALTY :: real
  OMNIVORE_ENERGY_DRAIN_MULT :: real
  OMNIVORE_BIG_ENERGY_PENALTY :: real

definition DEFAULT_CONFIG :: Config where
  "DEFAULT_CONFIG = \<lparr>
     WORLD_WIDTH = 2400,
     WORLD_HEIGHT = 1350,
     SPATIAL_CELL_SIZE = 50,
     INITIAL_CREATURE_COUNT = 300,
     MAX_CREATURES = 1500,
     INITIAL_FOOD_COUNT = 1200,
     CREATURE_BASE_SPEED = 100,
     CREATURE_BASE_SIZE = 10,
     CREATURE_MAX_SIZE = 32,
     CREATURE_MIN_SIZE = 3,
     CREATURE_BASE_ENERGY = 100,
     CREATURE_MAX_ENERGY = 150,
     CREATURE_ENERGY_DRAIN_BASE = 2,
     CREATURE_VISION_BASE = 80,
     CREATURE_VISION_MAX = 200,
     REPRODUCTION_ENERGY_THRESHOLD = 0.8,
     REPRODUCTION_ENERGY_COST = 0.35,
     REPRODUCTION_COOLDOWN = 4,
     OFFSPRING_MAX_SMALL = 6,
     OFFSPRING_MAX_MEDIUM = 4,
     OFFSPRING_MAX_LARGE = 2,
     ASEXUAL_SIZE_THRESHOLD = 0.5,
     MUTATION_RATE = 0.001,
     MUTATION_LARGE_CHANCE = 0.005,
     MUTATION_LARGE_AMOUNT = 0.01,
     TEMPERATURE_MIN = -20,
     TEMPERATURE_MAX = 50,
     TEMPERATURE_DEFAULT = 20,
     EMIGRATION_EDGE_DISTANCE = 30,
     EMIGRATION_ENERGY_THRESHOLD = 0.35,
     EMIGRATION_CROWDING_THRESHOLD = 8,
     EMIGRATION_BASE_CHANCE = 0.02,
     HERBIVORE_LIFESPAN_MULT = 0.9,
     HERBIVORE_REPRO_COOLDOWN_MULT = 0.15,
     HERBIVORE_REPRO_THRESHOLD_OFFSET = -0.3,
     HERBIVORE_OFFSPRING_BONUS = 4,
     HERBIVORE_SPEED_SIZE_PENALTY = 0.8,
     HERBIVORE_BIG_ENERGY_PENALTY = 1.0,
     HERBIVORE_TINY_REPRO_MULT = 0.1,
     HERBIVORE_SMALL_REPRO_MULT = 0.2,
     HERBIVORE_LARGE_REPRO_MULT = 0.5,
     CARNIVORE_LIFESPAN_MULT = 1.5,
     CARNIVORE_REPRO_COOLDOWN_MULT = 2.5,
     CARNIVORE_REPRO_THRESHOLD_OFFSET = 0.1,
     CARNIVORE_OFFSPRING_BONUS = 2,
     CARNIVORE_SPEED_SIZE_PENALTY = 0.0,
     OMNIVORE_LIFESPAN_MULT = 1.0,
     OMNIVORE_REPRO_COOLDOWN_MULT = 2.5,
     OMNIVORE_REPRO_THRESHOLD_OFFSET = 0.05,
     OMNIVORE_SPEED_SIZE_PENALTY = 0.3,
     OMNIVORE_ENERGY_DRAIN_MULT = 1.5,
     OMNIVORE_BIG_ENERGY_PENALTY = 1.5 \<rparr>"


section \<open>entities/genetics.ts\<close>

text \<open>
  The trait vector.  The field \<open>size\<close> of the source is \<open>sizeT\<close> here, since \<open>size\<close> is a
  constant of HOL.
\<close>

record Traits =
  speed :: real
  sizeT :: real
  visionRange :: real
  metabolism :: real
  heatTolerance :: real
  coldTolerance :: real
  aggression :: real
  camouflage :: real
  lifespan :: real
  reproductionRate :: real
  socialBehavior :: real
  dietPreference :: real
  strength :: real
  stamina :: real

text \<open>
  \<open>traitValues\<close> lists the fields in the order of \<open>Object.keys\<close> (the order in which the
  source's object literals write them); \<open>traitsOfList\<close> is the object literal built from
  fourteen values in that order.
\<close>

definition traitValues :: "Traits \<Rightarrow> real list" where
  "traitValues t =
     [speed t, sizeT t, visionRange t, metabolism t, heatTolerance t, coldTolerance t,
      aggression t, camouflage t, lifespan t, reproductionRate t, socialBehavior t,
      dietPreference t, strength t, stamina t]"

definition traitsOfList :: "real list \<Rightarrow> Traits" where
  "traitsOfList vs = \<lparr>
     speed = vs ! 0, sizeT = vs ! 1, visionRange = vs ! 2, metabolism = vs ! 3,
     heatTolerance = vs ! 4, coldTolerance = vs ! 5, aggression = vs ! 6,
     camouflage = vs ! 7, lifespan = vs ! 8, reproductionRate = vs ! 9,
     socialBehavior = vs ! 10, dietPreference = vs ! 11, strength = vs ! 12,
     stamina = vs ! 13 \<rparr>"

definition clamp01 :: "real \<Rightarrow> real" where
  "clamp01 v = max 0 (min 1 v)"

text \<open>
  \<open>TRAIT_RANGES\<close> gives every trait the range from 0 to 1, so \<open>randomTrait\<close> is
  \<open>0 + Math.random() * (1 - 0)\<close> for each name.
\<close>

definition randomTrait :: "rng \<Rightarrow> real \<times> rng" where
  "randomTrait r = (let (u, r1) = random r in (0 + u * (1 - 0), r1))"

fun randomTraitList :: "nat \<Rightarrow> rng \<Rightarrow> real list \<times> rng" where
  "randomTraitList 0 r = ([], r)"
| "randomTraitList (Suc n) r =
     (let (v, r1) = randomTrait r; (vs, r2) = randomTraitList n r1 in (v # vs, r2))"

definition generateRandomTraits :: "rng \<Rightarrow> Traits \<times> rng" where
  "generateRandomTraits r =
     (let (vs, r1) = randomTraitList 14 r in (traitsOfList vs, r1))"

definition generateHerbivoreTraits :: "rng \<Rightarrow> Traits \<times> rng" where
  "generateHerbivoreTraits r =
     (let (t, r1) = generateRandomTraits r;
          (u1, r2) = random r1;
          (u2, r3) = random r2;
          (u3, r4) = random r3;
          (u4, r5) = random r4
      in (t\<lparr> dietPreference := u1 * 0.3,
              aggression := u2 * 0.3,
              socialBehavior := 0.5 + u3 * 0.5,
              camouflage := 0.3 + u4 * 0.5 \<rparr>, r5))"

text \<open>
  \<open>mutateTrait\<close>: the optional rate is \<open>None\<close> for \<open>undefined\<close>, which the default
  parameter replaces by \<open>CONFIG.MUTATION_RATE\<close>.
\<close>

definition mutateTrait :: "Config \<Rightarrow> real \<Rightarrow> real option \<Rightarrow> rng \<Rightarrow> real \<times> rng" where
  "mutateTrait cfg v mutationRate r =
     (let rate = (case mutationRate of None \<Rightarrow> MUTATION_RATE cfg | Some m \<Rightarrow> m);
          (u1, r1) = random r
      in if u1 < MUTATION_LARGE_CHANCE cfg then
           (let (u2, r2) = random r1;
                direction = (if u2 < 0.5 then - 1 else 1);
                (u3, r3) = random r2
            in (clamp01 (v + direction * MUTATION_LARGE_AMOUNT cfg * u3), r3))
         else
           (let (u2, r2) = random r1;
                deviation = (u2 - 0.5) * 2 * rate
            in (clamp01 (v + deviation), r2)))"

text \<open>
  The object literals of \<open>mutateTraits\<close> and \<open>mutateTraitsWithStress\<close> call \<open>mutateTrait\<close>
  once for each field, in order; \<open>mutateEach\<close> is that sequence of calls on a list of
  (value, rate) pairs.
\<close>

fun mutateEach :: "Config \<Rightarrow> (real \<times> real option) list \<Rightarrow> rng \<Rightarrow> real list \<times> rng" where
  "mutateEach cfg [] r = ([], r)"
| "mutateEach cfg ((v, rate) # rest) r =
     (let (v', r1) = mutateTrait cfg v rate r;
          (vs', r2) = mutateEach cfg rest r1
      in (v' # vs', r2))"

definition mutateTraits :: "Config \<Rightarrow> Traits \<Rightarrow> real option \<Rightarrow> rng \<Rightarrow> Traits \<times> rng" where
  "mutateTraits cfg t mutationRate r =
     (let (vs, r1) = mutateEach cfg (map (\<lambda>v. (v, mutationRate)) (traitValues t)) r
      in (traitsOfList vs, r1))"

definition mutateTraitsWithStress ::
  "Config \<Rightarrow> Traits \<Rightarrow> real \<Rightarrow> real option \<Rightarrow> rng \<Rightarrow> Traits \<times> rng" where
  "mutateTraitsWithStress cfg t hungerStress mutationRate r =
     (let baseRate = (case mutationRate of None \<Rightarrow> MUTATION_RATE cfg | Some m \<Rightarrow> m);
          dietMutationBoost = 1 + hungerStress * 4;
          dietRate = baseRate * dietMutationBoost;
          (vs, r1) = mutateEach cfg
            [(speed t, Some baseRate),
             (sizeT t, Some baseRate),
             (visionRange t, Some baseRate),
             (metabolism t, Some (baseRate * (1 + hungerStress))),
             (heatTolerance t, Some baseRate),
             (coldTolerance t, Some baseRate),
             (aggression t, Some dietRate),
             (camouflage t, Some baseRate),
             (lifespan t, Some baseRate),
             (reproductionRate t, Some baseRate),
             (socialBehavior t, Some baseRate),
             (dietPreference t, Some dietRate),
             (strength t, Some dietRate),
             (stamina t, Some dietRate)] r
      in (traitsOfList vs, r1))"

text \<open>
  \<open>crossoverTraits\<close>: for each trait, in key order, one draw decides between the first
  parent's value, the second parent's value and their mean; then the child is mutated.
\<close>

fun crossEach :: "(real \<times> real) list \<Rightarrow> rng \<Rightarrow> real list \<times> rng" where
  "crossEach [] r = ([], r)"
| "crossEach ((a, b) # rest) r =
     (let (blendChance, r1) = random r;
          v = (if blendChance < 0.4 then a
               else if blendChance < 0.8 then b
               else (a + b) / 2);
          (vs, r2) = crossEach rest r1
      in (v # vs, r2))"

definition crossoverTraits ::
  "Config \<Rightarrow> Traits \<Rightarrow> Traits \<Rightarrow> real option \<Rightarrow> rng \<Rightarrow> Traits \<times> rng" where
  "crossoverTraits cfg parent1 parent2 mutationRate r =
     (let (vs, r1) = crossEach (zip (traitValues parent1) (traitValues parent2)) r;
          child = traitsOfList vs
      in mutateTraits cfg child mutationRate r1)"

definition getAttackDamage :: "Traits \<Rightarrow> real" where
  "getAttackDamage t = (let baseDamage = 15 in baseDamage + strength t * 35 + sizeT t * 10)"

definition getCreatureSize :: "Config \<Rightarrow> Traits \<Rightarrow> real" where
  "getCreatureSize cfg t =
     CREATURE_MIN_SIZE cfg + sizeT t * (CREATURE_MAX_SIZE cfg - CREATURE_MIN_SIZE cfg)"

text \<open>\<open>getCreatureSpeed\<close> as \<open>entities/genetics.ts\<close> defines it: one branch per diet type.\<close>

definition getCreatureSpeed :: "Config \<Rightarrow> Traits \<Rightarrow> real" where
  "getCreatureSpeed cfg t =
     (let baseSpeed = CREATURE_BASE_SPEED cfg * (0.5 + speed t);
          sizeModifier =
            (if dietPreference t > 0.65 then
               1.0 - sizeT t * CARNIVORE_SPEED_SIZE_PENALTY cfg
             else if dietPreference t < 0.35 then
               1.3 - sizeT t * HERBIVORE_SPEED_SIZE_PENALTY cfg
             else
               1.1 - sizeT t * OMNIVORE_SPEED_SIZE_PENALTY cfg)
      in baseSpeed * sizeModifier)"

definition getVisionRange :: "Config \<Rightarrow> Traits \<Rightarrow> real" where
  "getVisionRange cfg t = CREATURE_VISION_BASE cfg + visionRange t * CREATURE_VISION_MAX cfg"

definition getEnergyDrain :: "Config \<Rightarrow> Traits \<Rightarrow> real" where
  "getEnergyDrain cfg t =
     (let sizeModifier = 0.3 + sizeT t * 1.5;
          metabolismModifier = 1.5 - metabolism t;
          dietModifier =
            (if dietPreference t < 0.35 \<and> sizeT t > 0.5 then
               1 + (sizeT t - 0.5) * HERBIVORE_BIG_ENERGY_PENALTY cfg
             else if dietPreference t \<ge> 0.35 \<and> dietPreference t \<le> 0.65 then
               (if sizeT t > 0.4 then
                  OMNIVORE_ENERGY_DRAIN_MULT cfg
                    * (1 + (sizeT t - 0.4) * OMNIVORE_BIG_ENERGY_PENALTY cfg)
                else OMNIVORE_ENERGY_DRAIN_MULT cfg)
             else 1.0)
      in CREATURE_ENERGY_DRAIN_BASE cfg * sizeModifier * metabolismModifier * dietModifier)"

definition getMaxLifespan :: "Config \<Rightarrow> Traits \<Rightarrow> real" where
  "getMaxLifespan cfg t =
     (let baseLifespan0 = 30 + lifespan t * 60;
          sizeModifier = 0.7 + sizeT t * 0.6;
          baseLifespan1 = baseLifespan0 * sizeModifier
      in if dietPreference t > 0.65 then baseLifespan1 * CARNIVORE_LIFESPAN_MULT cfg
         else if dietPreference t < 0.35 then baseLifespan1 * HERBIVORE_LIFESPAN_MULT cfg
         else baseLifespan1 * OMNIVORE_LIFESPAN_MULT cfg)"

definition prefersAsexual :: "Config \<Rightarrow> Traits \<Rightarrow> bool" where
  "prefersAsexual cfg t =
     (if sizeT t > ASEXUAL_SIZE_THRESHOLD cfg then False
      else dietPreference t > 0.6 \<or> socialBehavior t < 0.3)"

definition getReproductionThreshold :: "Config \<Rightarrow> Traits \<Rightarrow> real" where
  "getReproductionThreshold cfg t =
     (let threshold0 = REPRODUCTION_ENERGY_THRESHOLD cfg - reproductionRate t * 0.2;
          threshold =
            (if dietPreference t > 0.65 then threshold0 + CARNIVORE_REPRO_THRESHOLD_OFFSET cfg
             else if dietPreference t < 0.35 then
               threshold0 + HERBIVORE_REPRO_THRESHOLD_OFFSET cfg
             else threshold0 + OMNIVORE_REPRO_THRESHOLD_OFFSET cfg)
      in min 0.95 (max 0.5 threshold))"

definition getMaxOffspringCount :: "Config \<Rightarrow> Traits \<Rightarrow> nat" where
  "getMaxOffspringCount cfg t =
     (if sizeT t < 0.3 then OFFSPRING_MAX_SMALL cfg
      else if sizeT t < 0.6 then OFFSPRING_MAX_MEDIUM cfg
      else OFFSPRING_MAX_LARGE cfg)"

text \<open>
  \<open>getTraitColor\<close> returns the string \<open>rgb(r, g, b)\<close>; the model keeps the three
  channels.
\<close>

definition getTraitColor :: "Traits \<Rightarrow> int \<times> int \<times> int" where
  "getTraitColor t =
     (\<lfloor>((aggression t + dietPreference t + strength t) / 3) * 200 + 55\<rfloor>,
      \<lfloor>((metabolism t + camouflage t) / 2) * 200 + 55\<rfloor>,
      \<lfloor>((coldTolerance t + socialBehavior t) / 2) * 200 + 55\<rfloor>)"


section \<open>The continuous diet scaling helpers (second definition of the genetics module)\<close>

text \<open>
  The repository holds a second text of the genetics module, whose \<open>getCreatureSpeed\<close>
  interpolates between the three diet values instead of branching.  Its functions carry
  the suffix \<open>_interp\<close> where the name is already taken by the definitions above.
\<close>

definition interpolateDietValue :: "real \<Rightarrow> real \<Rightarrow> real \<Rightarrow> real \<Rightarrow> real" where
  "interpolateDietValue dietPref herbValue omniValue carnValue =
     (if dietPref \<le> 0.5 then
        (let t = dietPref / 0.5 in herbValue + (omniValue - herbValue) * t)
      else
        (let t = (dietPref - 0.5) / 0.5 in omniValue + (carnValue - omniValue) * t))"

definition getSpeedSizePenalty :: "Config \<Rightarrow> real \<Rightarrow> real" where
  "getSpeedSizePenalty cfg dietPref =
     interpolateDietValue dietPref
       (HERBIVORE_SPEED_SIZE_PENALTY cfg)
       (OMNIVORE_SPEED_SIZE_PENALTY cfg)
       (CARNIVORE_SPEED_SIZE_PENALTY cfg)"

definition getCreatureSpeed_interp :: "Config \<Rightarrow> Traits \<Rightarrow> real" where
  "getCreatureSpeed_interp cfg t =
     (let baseSpeed = CREATURE_BASE_SPEED cfg * (0.5 + speed t);
          sizePenalty = getSpeedSizePenalty cfg (dietPreference t);
          baseModifier = interpolateDietValue (dietPreference t) 1.3 1.1 1.0;
          sizeModifier = baseModifier - sizeT t * sizePenalty
      in baseSpeed * sizeModifier)"


section \<open>entities/species.ts\<close>

definition PREFIXES :: "string list" where
  "PREFIXES =
     [''Aero'', ''Aqua'', ''Brio'', ''Chromo'', ''Deco'', ''Echo'', ''Ferro'', ''Gyro'',
      ''Helio'', ''Ignis'', ''Juno'', ''Krypto'', ''Luna'', ''Magna'', ''Necto'', ''Omni'',
      ''Proto'', ''Quasi'', ''Rubi'', ''Stella'', ''Terra'', ''Ultra'', ''Velo'', ''Xeno'',
      ''Zephyr'']"

definition ROOTS :: "string list" where
  "ROOTS =
     [''poda'', ''derm'', ''vora'', ''morph'', ''genic'', ''trix'', ''saurus'', ''dont'',
      ''phage'', ''zoon'', ''cyte'', ''blast'', ''plax'', ''carpa'', ''thrix'', ''nema'',
      ''ptera'', ''lepis'', ''branchia'', ''cera'', ''opus'', ''mys'', ''lith'', ''stoma'']"

definition SUFFIXES :: "string list" where
  "SUFFIXES =
     [''us'', ''is'', ''um'', ''ia'', ''or'', ''ax'', ''ex'', ''ix'', ''ox'', ''a'', ''i'',
      ''ae'', ''ensis'', ''oides'']"

text \<open>
  The values that the name expression of \<open>generateSpeciesName\<close> can produce: a string,
  \<open>undefined\<close> (the read of an index outside a table) and the number \<open>NaN\<close>.  \<open>jsAdd\<close> is
  the operator \<open>+\<close> on them: it concatenates when one side is a string, printing the
  other side, and it is the number \<open>NaN\<close> when neither side is a string.
\<close>

datatype JsValue = JsString string | JsUndefined | JsNaN

fun jsAdd :: "JsValue \<Rightarrow> JsValue \<Rightarrow> JsValue" where
  "jsAdd (JsString a) (JsString b) = JsString (a @ b)"
| "jsAdd (JsString a) JsUndefined = JsString (a @ ''undefined'')"
| "jsAdd (JsString a) JsNaN = JsString (a @ ''NaN'')"
| "jsAdd JsUndefined (JsString b) = JsString (''undefined'' @ b)"
| "jsAdd JsNaN (JsString b) = JsString (''NaN'' @ b)"
| "jsAdd JsUndefined JsUndefined = JsNaN"
| "jsAdd JsUndefined JsNaN = JsNaN"
| "jsAdd JsNaN JsUndefined = JsNaN"
| "jsAdd JsNaN JsNaN = JsNaN"

record Species =
  sp_id :: nat
  sp_name :: JsValue
  prototypeTraits :: Traits
  population :: int
  sp_totalBirths :: nat
  sp_totalDeaths :: nat
  sp_generation :: nat
  sp_createdAt :: real
  sp_color :: "int \<times> int \<times> int"

text \<open>
  \<open>namePart\<close> is \<open>TABLE[Math.floor(v * TABLE.length / 2) % TABLE.length]\<close>.  The remainder
  of JavaScript takes the sign of the dividend, and an index outside the table reads
  \<open>undefined\<close>.  \<open>generateSpeciesName\<close> adds the three parts from left to right.
\<close>

definition namePart :: "string list \<Rightarrow> real \<Rightarrow> JsValue" where
  "namePart table v =
     (let n = int (length table);
          q = \<lfloor>v * real (length table) / 2\<rfloor>;
          i = (if 0 \<le> q then q mod n else - ((- q) mod n))
      in if 0 \<le> i \<and> i < n then JsString (table ! nat i) else JsUndefined)"

definition generateSpeciesName :: "Traits \<Rightarrow> JsValue" where
  "generateSpeciesName t =
     jsAdd
       (jsAdd (namePart PREFIXES (speed t + visionRange t))
          (namePart ROOTS (dietPreference t + aggression t)))
       (namePart SUFFIXES (sizeT t + metabolism t))"

definition geneticDistance :: "Traits \<Rightarrow> Traits \<Rightarrow> real" where
  "geneticDistance traits1 traits2 =
     (let sumSquared =
            foldl (\<lambda>acc (a, b). acc + (a - b) * (a - b)) 0
              (zip (traitValues traits1) (traitValues traits2))
      in sqrt (sumSquared / real (length (traitValues traits1))))"

definition SPECIES_THRESHOLD :: real where
  "SPECIES_THRESHOLD = 0.15"

text \<open>
  The registry.  \<open>species\<close> is the \<open>Map\<close> from id to species, as the list of its values in
  insertion order (the order in which \<open>values()\<close> iterates); \<open>creatureSpecies\<close> is the
  \<open>Map\<close> from creature id to species id.  The module variable \<open>nextSpeciesId\<close> is a field
  of the record, since the registry is the only object that uses it.
\<close>

record SpeciesRegistry =
  species :: "Species list"
  creatureSpecies :: "nat \<rightharpoonup> nat"
  nextSpeciesId :: nat

definition newSpeciesRegistry :: SpeciesRegistry where
  "newSpeciesRegistry = \<lparr> species = [], creatureSpecies = Map.empty, nextSpeciesId = 1 \<rparr>"

text \<open>\<open>Map.get\<close>, \<open>Map.set\<close> and the update of a stored species object through its reference.\<close>

definition speciesGet :: "Species list \<Rightarrow> nat \<Rightarrow> Species option" where
  "speciesGet ss i = find (\<lambda>s. sp_id s = i) ss"

definition speciesSet :: "Species list \<Rightarrow> Species \<Rightarrow> Species list" where
  "speciesSet ss s =
     (if sp_id s \<in> set (map sp_id ss)
      then map (\<lambda>s'. if sp_id s' = sp_id s then s else s') ss
      else ss @ [s])"

fun findMatchingLoop ::
  "Traits \<Rightarrow> Species list \<Rightarrow> (Species \<times> real) option \<Rightarrow> (Species \<times> real) option" where
  "findMatchingLoop t [] best = best"
| "findMatchingLoop t (s # rest) best =
     (if population s = 0 then findMatchingLoop t rest best
      else
        (let d = geneticDistance t (prototypeTraits s)
         in if d < SPECIES_THRESHOLD \<and> (case best of None \<Rightarrow> True | Some (_, bestDistance) \<Rightarrow> d < bestDistance)
            then findMatchingLoop t rest (Some (s, d))
            else findMatchingLoop t rest best))"

text \<open>\<open>bestDistance\<close> starts at \<open>Infinity\<close>: no best match yet, so any distance is smaller.\<close>

definition findMatchingSpecies :: "SpeciesRegistry \<Rightarrow> Traits \<Rightarrow> Species option" where
  "findMatchingSpecies reg t = map_option fst (findMatchingLoop t (species reg) None)"

definition createSpecies :: "Traits \<Rightarrow> real \<Rightarrow> SpeciesRegistry \<Rightarrow> Species \<times> SpeciesRegistry" where
  "createSpecies t createdAt reg =
     (let i = nextSpeciesId reg;
          s = \<lparr> sp_id = i,
                sp_name = generateSpeciesName t,
                prototypeTraits = t,
                population = 0,
                sp_totalBirths = 0,
                sp_totalDeaths = 0,
                sp_generation = 0,
                sp_createdAt = createdAt,
                sp_color = getTraitColor t \<rparr>
      in (s, reg\<lparr> nextSpeciesId := i + 1, species := speciesSet (species reg) s \<rparr>))"

definition assignSpecies ::
  "nat \<Rightarrow> Traits \<Rightarrow> nat \<Rightarrow> real \<Rightarrow> SpeciesRegistry \<Rightarrow> Species \<times> SpeciesRegistry" where
  "assignSpecies creatureId t gen currentTime reg =
     (let (s0, reg1) =
            (case findMatchingSpecies reg t of
               Some s \<Rightarrow> (s, reg)
             | None \<Rightarrow> createSpecies t currentTime reg);
          s1 = s0\<lparr> population := population s0 + 1,
                   sp_totalBirths := sp_totalBirths s0 + 1 \<rparr>;
          s2 = (if gen > sp_generation s1 then s1\<lparr> sp_generation := gen \<rparr> else s1);
          weight = 1 / real_of_int (population s2);
          s3 = s2\<lparr> prototypeTraits :=
                     traitsOfList
                       (map (\<lambda>(p, v). p * (1 - weight) + v * weight)
                          (zip (traitValues (prototypeTraits s2)) (traitValues t))) \<rparr>
      in (s3, reg1\<lparr> species := speciesSet (species reg1) s3,
                     creatureSpecies := (creatureSpecies reg1)(creatureId \<mapsto> sp_id s3) \<rparr>))"

definition getCreatureSpecies :: "SpeciesRegistry \<Rightarrow> nat \<Rightarrow> Species option" where
  "getCreatureSpecies reg creatureId =
     (case creatureSpecies reg creatureId of
        None \<Rightarrow> None
      | Some speciesId \<Rightarrow> speciesGet (species reg) speciesId)"

definition areSameSpecies :: "SpeciesRegistry \<Rightarrow> nat \<Rightarrow> nat \<Rightarrow> bool" where
  "areSameSpecies reg creatureId1 creatureId2 =
     (creatureSpecies reg creatureId1 \<noteq> None
        \<and> creatureSpecies reg creatureId1 = creatureSpecies reg creatureId2)"

definition recordDeath :: "nat \<Rightarrow> SpeciesRegistry \<Rightarrow> SpeciesRegistry" where
  "recordDeath creatureId reg =
     (case creatureSpecies reg creatureId of
        None \<Rightarrow> reg
      | Some speciesId \<Rightarrow>
          reg\<lparr> species :=
                 (case speciesGet (species reg) speciesId of
                    None \<Rightarrow> species reg
                  | Some s \<Rightarrow>
                      speciesSet (species reg)
                        (s\<lparr> population := population s - 1,
                            sp_totalDeaths := sp_totalDeaths s + 1 \<rparr>)),
               creatureSpecies := (creatureSpecies reg)(creatureId := None) \<rparr>)"

definition getActiveSpecies :: "SpeciesRegistry \<Rightarrow> Species list" where
  "getActiveSpecies reg = filter (\<lambda>s. population s > 0) (species reg)"

definition registryReset :: "SpeciesRegistry \<Rightarrow> SpeciesRegistry" where
  "registryReset reg = reg\<lparr> species := [], creatureSpecies := Map.empty, nextSpeciesId := 1 \<rparr>"


section \<open>entities/creature.ts\<close>

text \<open>
  The module variables \<open>nextCreatureId\<close>, \<open>nextFoodId\<close> and \<open>nextCorpseId\<close>, the singleton
  \<open>speciesRegistry\<close> and the random source are the state of the process.  A function
  that reads or writes one of them takes the record and returns it.
\<close>

record Globals =
  nextCreatureId :: nat
  nextFoodId :: nat
  nextCorpseId :: nat
  speciesRegistry :: SpeciesRegistry
  randoms :: rng

definition draw :: "Globals \<Rightarrow> real \<times> Globals" where
  "draw g = (let (u, r1) = random (randoms g) in (u, g\<lparr> randoms := r1 \<rparr>))"

datatype CreatureState = Wandering | SeekingFood | SeekingMate | Hunting | Fleeing

text \<open>
  The fields of the class.  \<open>cid\<close> is \<open>id\<close>; \<open>c_color\<close>, \<open>c_size\<close>, \<open>c_speed\<close>,
  \<open>c_visionRange\<close>, \<open>c_energyDrain\<close>, \<open>c_maxLifespan\<close> and \<open>c_attackDamage\<close> are the cached
  values \<open>_color\<close>, \<open>_size\<close>, ... that the constructor computes and the getters return.
\<close>

record Creature =
  cid :: nat
  position :: Vector2
  velocity :: Vector2
  traits :: Traits
  energy :: real
  age :: real
  generation :: nat
  lastReproduction :: real
  c_color :: "int \<times> int \<times> int"
  c_size :: real
  c_speed :: real
  c_visionRange :: real
  c_energyDrain :: real
  c_maxLifespan :: real
  c_attackDamage :: real
  isAlive :: bool
  target :: "Vector2 option"
  state :: CreatureState
  hungerStress :: real
  speciesId :: "nat option"

text \<open>
  The constructor.  The optional \<open>traits\<close> argument is \<open>None\<close> when the caller leaves it
  out; callers that leave \<open>generation\<close> out pass its default 0.
\<close>

definition newCreature ::
  "Config \<Rightarrow> real \<Rightarrow> real \<Rightarrow> Traits option \<Rightarrow> nat \<Rightarrow> Globals \<Rightarrow> Creature \<times> Globals" where
  "newCreature cfg x y traitsOpt gen g =
     (let i = nextCreatureId g;
          g1 = g\<lparr> nextCreatureId := i + 1 \<rparr>;
          (t, g2) =
            (case traitsOpt of
               Some t \<Rightarrow> (t, g1)
             | None \<Rightarrow>
                 (let (t, r1) = generateRandomTraits (randoms g1)
                  in (t, g1\<lparr> randoms := r1 \<rparr>)));
          spd = getCreatureSpeed cfg t;
          (u, g3) = draw g2;
          angle = u * pi * 2
      in (\<lparr> cid = i,
            position = (x, y),
            velocity = (cos angle * spd * 0.5, sin angle * spd * 0.5),
            traits = t,
            energy = CREATURE_BASE_ENERGY cfg,
            age = 0,
            generation = gen,
            lastReproduction = 0,
            c_color = getTraitColor t,
            c_size = getCreatureSize cfg t,
            c_speed = spd,
            c_visionRange = getVisionRange cfg t,
            c_energyDrain = getEnergyDrain cfg t,
            c_maxLifespan = getMaxLifespan cfg t,
            c_attackDamage = getAttackDamage t,
            isAlive = True,
            target = None,
            state = Wandering,
            hungerStress = 0,
            speciesId = None \<rparr>, g3))"

definition maxEnergy :: "Config \<Rightarrow> Creature \<Rightarrow> real" where
  "maxEnergy cfg c = CREATURE_MAX_ENERGY cfg * (0.7 + sizeT (traits c) * 0.6)"

definition energyPercent :: "Config \<Rightarrow> Creature \<Rightarrow> real" where
  "energyPercent cfg c = energy c / maxEnergy cfg c"

definition isHerbivore :: "Creature \<Rightarrow> bool" where
  "isHerbivore c = (dietPreference (traits c) < 0.35)"

definition isCarnivore :: "Creature \<Rightarrow> bool" where
  "isCarnivore c = (dietPreference (traits c) > 0.65)"

definition isOmnivore :: "Creature \<Rightarrow> bool" where
  "isOmnivore c = (\<not> isHerbivore c \<and> \<not> isCarnivore c)"

definition die :: "Creature \<Rightarrow> Globals \<Rightarrow> Creature \<times> Globals" where
  "die c g =
     (c\<lparr> isAlive := False, energy := 0 \<rparr>,
      g\<lparr> speciesRegistry := recordDeath (cid c) (speciesRegistry g) \<rparr>)"

definition bounce :: "real \<Rightarrow> real \<Rightarrow> real \<Rightarrow> real \<Rightarrow> real \<times> real" where
  "bounce p v lo hi =
     (if p < lo then (lo, v * (- 1))
      else if p > hi then (hi, v * (- 1))
      else (p, v))"

text \<open>
  \<open>update\<close>, in three definitions: \<open>updateEnergy\<close> is the first part of the method (age,
  energy drain, movement and hunting cost, hunger stress), \<open>updatePosition\<close> is its last
  part (position and walls), and \<open>update\<close> joins them with the guard on \<open>isAlive\<close> and the
  death check in between.  The successive assignments to \<open>this.energy\<close> are the values
  \<open>energy1\<close>, \<open>energy2\<close> and \<open>energy3\<close>.
\<close>

definition updateEnergy :: "Config \<Rightarrow> real \<Rightarrow> Creature \<Rightarrow> Creature" where
  "updateEnergy cfg deltaTime c =
     (let age1 = age c + deltaTime;
          metabolismEfficiency =
            (if isHerbivore c then 0.8 else if isCarnivore c then 0.85 else 1.0);
          energy1 = energy c - c_energyDrain c * deltaTime * metabolismEfficiency;
          speedRatio = magnitude (velocity c) / c_speed c;
          movementCost =
            (if isCarnivore c then 0.3 else if isHerbivore c then 0.35 else 0.4);
          energy2 = energy1 - speedRatio * deltaTime * movementCost;
          energy3 =
            (if state c = Hunting \<and> (isCarnivore c \<or> isOmnivore c) then
               (let huntingCost = (if isCarnivore c then 0.8 else 0.5)
                in energy2 - deltaTime * huntingCost)
             else energy2);
          c1 = c\<lparr> age := age1, energy := energy3 \<rparr>;
          hungerStress1 =
            (if energyPercent cfg c1 < 0.5 then
               (let stressIncrease = (0.5 - energyPercent cfg c1) * 2 * deltaTime * 0.1
                in min 1 (hungerStress c1 + stressIncrease))
             else if energyPercent cfg c1 > 0.7 then
               max 0 (hungerStress c1 - deltaTime * 0.02)
             else hungerStress c1)
      in c1\<lparr> hungerStress := hungerStress1 \<rparr>)"

definition updatePosition :: "Config \<Rightarrow> real \<Rightarrow> Creature \<Rightarrow> Creature" where
  "updatePosition cfg deltaTime c =
     (let px = fst (position c) + fst (velocity c) * deltaTime;
          py = snd (position c) + snd (velocity c) * deltaTime;
          (px', vx') = bounce px (fst (velocity c)) (c_size c) (WORLD_WIDTH cfg - c_size c);
          (py', vy') = bounce py (snd (velocity c)) (c_size c) (WORLD_HEIGHT cfg - c_size c)
      in c\<lparr> position := (px', py'), velocity := (vx', vy') \<rparr>)"

definition update :: "Config \<Rightarrow> real \<Rightarrow> real \<Rightarrow> Creature \<Rightarrow> Globals \<Rightarrow> Creature \<times> Globals" where
  "update cfg deltaTime currentTime c g =
     (if \<not> isAlive c then (c, g)
      else
        (let c5 = updateEnergy cfg deltaTime c
         in if energy c5 \<le> 0 \<or> age c5 \<ge> c_maxLifespan c5 then die c5 g
            else (updatePosition cfg deltaTime c5, g)))"

definition clampVelocity :: "Vector2 \<Rightarrow> real \<Rightarrow> Vector2" where
  "clampVelocity v maxSpeed =
     (let spd = magnitude v
      in if spd \<le> maxSpeed then v
         else (let scale = maxSpeed / spd in (fst v * scale, snd v * scale)))"

definition seekTarget :: "Vector2 \<Rightarrow> real \<Rightarrow> Creature \<Rightarrow> Creature" where
  "seekTarget tgt deltaTime c =
     (let dx = fst tgt - fst (position c);
          dy = snd tgt - snd (position c);
          dist = distance (fst (position c)) (snd (position c)) (fst tgt) (snd tgt)
      in if dist > 1 then
           (let dirX = dx / dist;
                dirY = dy / dist;
                acceleration = c_speed c * 2;
                v = (fst (velocity c) + dirX * acceleration * deltaTime,
                     snd (velocity c) + dirY * acceleration * deltaTime)
            in c\<lparr> velocity := clampVelocity v (c_speed c) \<rparr>)
         else c)"

definition huntTarget :: "Vector2 \<Rightarrow> real \<Rightarrow> Creature \<Rightarrow> Creature" where
  "huntTarget tgt deltaTime c =
     (let dx = fst tgt - fst (position c);
          dy = snd tgt - snd (position c);
          dist = distance (fst (position c)) (snd (position c)) (fst tgt) (snd tgt)
      in if dist > 1 then
           (let dirX = dx / dist;
                dirY = dy / dist;
                acceleration = c_speed c * 3;
                v = (fst (velocity c) + dirX * acceleration * deltaTime,
                     snd (velocity c) + dirY * acceleration * deltaTime);
                huntSpeedMultiplier = 1.3 + stamina (traits c) * 0.4;
                huntSpeed = c_speed c * huntSpeedMultiplier
            in c\<lparr> velocity := clampVelocity v huntSpeed \<rparr>)
         else c)"

definition wander :: "real \<Rightarrow> Creature \<Rightarrow> Globals \<Rightarrow> Creature \<times> Globals" where
  "wander deltaTime c g =
     (let (u1, g1) = draw g;
          (v1, g2) =
            (if u1 < 0.02 then
               (let (u2, g2) = draw g1;
                    angle = u2 * pi * 2;
                    wanderSpeed = c_speed c * 0.4
                in ((fst (velocity c) + cos angle * wanderSpeed * 0.3,
                     snd (velocity c) + sin angle * wanderSpeed * 0.3), g2))
             else (velocity c, g1));
          maxWanderSpeed = c_speed c * 0.5;
          clamped = clampVelocity v1 maxWanderSpeed
      in (c\<lparr> velocity := (fst clamped * 0.99, snd clamped * 0.99) \<rparr>, g2))"

definition fleeFrom :: "Vector2 \<Rightarrow> real \<Rightarrow> Creature \<Rightarrow> Creature" where
  "fleeFrom threat deltaTime c =
     (let dx = fst (position c) - fst threat;
          dy = snd (position c) - snd threat;
          dist = distance (fst threat) (snd threat) (fst (position c)) (snd (position c))
      in if dist > 0 then
           (let dirX = dx / dist;
                dirY = dy / dist;
                acceleration = c_speed c * 3;
                v = (fst (velocity c) + dirX * acceleration * deltaTime,
                     snd (velocity c) + dirY * acceleration * deltaTime);
                fleeSpeed = c_speed c * 1.2
            in c\<lparr> velocity := clampVelocity v fleeSpeed \<rparr>)
         else c)"

definition eat :: "Config \<Rightarrow> real \<Rightarrow> Creature \<Rightarrow> Creature" where
  "eat cfg foodEnergy c = c\<lparr> energy := min (maxEnergy cfg c) (energy c + foodEnergy) \<rparr>"

definition takeDamage :: "real \<Rightarrow> Creature \<Rightarrow> Globals \<Rightarrow> Creature \<times> Globals" where
  "takeDamage amount c g =
     (let c1 = c\<lparr> energy := energy c - amount \<rparr>
      in if energy c1 \<le> 0 then die c1 g else (c1, g))"

definition getReproductionCooldown :: "Config \<Rightarrow> Creature \<Rightarrow> real" where
  "getReproductionCooldown cfg c =
     (let cooldownMultiplier =
            (if isCarnivore c then CARNIVORE_REPRO_COOLDOWN_MULT cfg
             else if isOmnivore c then OMNIVORE_REPRO_COOLDOWN_MULT cfg
             else HERBIVORE_REPRO_COOLDOWN_MULT cfg);
          sizeModifier = 0.5 + sizeT (traits c);
          herbivoreReproModifier =
            (if isHerbivore c then
               (if sizeT (traits c) < 0.3 then HERBIVORE_TINY_REPRO_MULT cfg
                else if sizeT (traits c) < 0.5 then HERBIVORE_SMALL_REPRO_MULT cfg
                else HERBIVORE_LARGE_REPRO_MULT cfg)
             else 1.0)
      in REPRODUCTION_COOLDOWN cfg * cooldownMultiplier * sizeModifier
           * herbivoreReproModifier)"

definition canReproduce :: "Config \<Rightarrow> real \<Rightarrow> Creature \<Rightarrow> bool" where
  "canReproduce cfg currentTime c =
     (if \<not> isAlive c then False
      else
        (let threshold = getReproductionThreshold cfg (traits c);
             cooldown = getReproductionCooldown cfg c;
             cooldownPassed = (currentTime - lastReproduction c > cooldown)
         in energyPercent cfg c \<ge> threshold \<and> cooldownPassed))"

text \<open>
  \<open>reproduceAsexual\<close> returns the parent as the call leaves it, the offspring (\<open>None\<close> for
  \<open>null\<close>) and the process state.
\<close>

definition reproduceAsexual ::
  "Config \<Rightarrow> real \<Rightarrow> real option \<Rightarrow> Creature \<Rightarrow> Globals
     \<Rightarrow> Creature \<times> Creature option \<times> Globals" where
  "reproduceAsexual cfg currentTime mutationRate c g =
     (if \<not> canReproduce cfg currentTime c then (c, None, g)
      else
        (let cost = energy c * REPRODUCTION_ENERGY_COST cfg;
             c1 = c\<lparr> energy := energy c - cost, lastReproduction := currentTime \<rparr>;
             (offspringTraits, r1) =
               (if hungerStress c1 > 0.1
                then mutateTraitsWithStress cfg (traits c1) (hungerStress c1) mutationRate
                       (randoms g)
                else mutateTraits cfg (traits c1) mutationRate (randoms g));
             g1 = g\<lparr> randoms := r1 \<rparr>;
             c2 = c1\<lparr> hungerStress := hungerStress c1 * 0.5 \<rparr>;
             offset = c_size c2 * 2;
             (u, g2) = draw g1;
             angle = u * pi * 2;
             (offspring, g3) =
               newCreature cfg
                 (fst (position c2) + cos angle * offset)
                 (snd (position c2) + sin angle * offset)
                 (Some offspringTraits) (generation c2 + 1) g2
         in (c2, Some (offspring\<lparr> lastReproduction := currentTime \<rparr>), g3)))"

text \<open>
  \<open>reproduceSexual\<close>: the loop that creates the offspring, for the indices \<open>i\<close> of the
  list, and the method.  The method changes both parents, so it returns both; the two are
  different objects at every call of the source.
\<close>

fun makeChildren ::
  "Config \<Rightarrow> Creature \<Rightarrow> Creature \<Rightarrow> real \<Rightarrow> real option \<Rightarrow> real \<Rightarrow> real \<Rightarrow> real \<Rightarrow> nat
     \<Rightarrow> int \<Rightarrow> nat list \<Rightarrow> Globals \<Rightarrow> Creature list \<times> Globals" where
  "makeChildren cfg c partner currentTime mutationRate combinedStress midX midY
     nextGeneration offspringCount [] g = ([], g)"
| "makeChildren cfg c partner currentTime mutationRate combinedStress midX midY
     nextGeneration offspringCount (i # rest) g =
     (let (offspringTraits, r1) =
            (if combinedStress > 0.1 then
               (let (crossedTraits, r0) =
                      crossoverTraits cfg (traits c) (traits partner) (Some 0) (randoms g)
                in mutateTraitsWithStress cfg crossedTraits combinedStress mutationRate r0)
             else crossoverTraits cfg (traits c) (traits partner) mutationRate (randoms g));
          g1 = g\<lparr> randoms := r1 \<rparr>;
          (u, g2) = draw g1;
          angle = (pi * 2 * real i) / real_of_int offspringCount + u * 0.5;
          offset = c_size c * 2;
          (child, g3) =
            newCreature cfg (midX + cos angle * offset) (midY + sin angle * offset)
              (Some offspringTraits) nextGeneration g2;
          (children, g4) =
            makeChildren cfg c partner currentTime mutationRate combinedStress midX midY
              nextGeneration offspringCount rest g3
      in (child\<lparr> lastReproduction := currentTime \<rparr> # children, g4))"

definition reproduceSexual ::
  "Config \<Rightarrow> real \<Rightarrow> real option \<Rightarrow> Creature \<Rightarrow> Creature \<Rightarrow> Globals
     \<Rightarrow> Creature \<times> Creature \<times> Creature list \<times> Globals" where
  "reproduceSexual cfg currentTime mutationRate c partner g =
     (if \<not> canReproduce cfg currentTime c \<or> \<not> canReproduce cfg currentTime partner
      then (c, partner, [], g)
      else
        (let avgSize = (sizeT (traits c) + sizeT (traits partner)) / 2;
             baseMaxOffspring = getMaxOffspringCount cfg ((traits c)\<lparr> sizeT := avgSize \<rparr>);
             herbivoreBonus =
               (if isHerbivore c \<and> isHerbivore partner
                then HERBIVORE_OFFSPRING_BONUS cfg else 0);
             carnivoreBonus =
               (if isCarnivore c \<and> isCarnivore partner
                then CARNIVORE_OFFSPRING_BONUS cfg else 0);
             maxOffspring = baseMaxOffspring + herbivoreBonus + carnivoreBonus;
             (u, g1) = draw g;
             offspringCount = \<lfloor>u * real maxOffspring\<rfloor> + 1;
             baseCost = REPRODUCTION_ENERGY_COST cfg * 0.6;
             costMultiplier = 1 + (real_of_int offspringCount - 1) * 0.3;
             cost1 = energy c * baseCost * costMultiplier;
             cost2 = energy partner * baseCost * costMultiplier;
             combinedStress = max (hungerStress c) (hungerStress partner);
             c1 = c\<lparr> energy := energy c - cost1,
                      lastReproduction := currentTime,
                      hungerStress := hungerStress c * 0.5 \<rparr>;
             p1 = partner\<lparr> energy := energy partner - cost2,
                            lastReproduction := currentTime,
                            hungerStress := hungerStress partner * 0.5 \<rparr>;
             midX = (fst (position c1) + fst (position p1)) / 2;
             midY = (snd (position c1) + snd (position p1)) / 2;
             nextGeneration = max (generation c1) (generation p1) + 1;
             (offspring, g2) =
               makeChildren cfg c1 p1 currentTime mutationRate combinedStress midX midY
                 nextGeneration offspringCount [0 ..< nat offspringCount] g1
         in (c1, p1, offspring, g2)))"

definition canHunt :: "Config \<Rightarrow> Creature \<Rightarrow> Creature \<Rightarrow> bool" where
  "canHunt cfg c tgt =
     (if \<not> isCarnivore c \<and> \<not> isOmnivore c then False
      else if cid tgt = cid c then False
      else
        (let minWorthwhileSize = (if energyPercent cfg c < 0.4 then 0.15 else 0.25)
         in if c_size tgt < c_size c * minWorthwhileSize then False
            else if isCarnivore tgt
                    \<and> (let isNearDeath = (energyPercent cfg c < 0.2);
                            isMuchStronger =
                              (strength (traits c) > strength (traits tgt) * 1.5);
                            isMuchBigger = (c_size c > c_size tgt * 1.5)
                        in \<not> isNearDeath \<or> (\<not> isMuchStronger \<and> \<not> isMuchBigger))
            then False
            else if isOmnivore tgt
                    \<and> (let isHungry = (energyPercent cfg c < 0.5);
                            isStronger = (strength (traits c) > strength (traits tgt) * 1.2);
                            isBigger = (c_size c > c_size tgt * 1.1)
                        in \<not> isHungry \<or> (\<not> isStronger \<and> \<not> isBigger))
            then False
            else if c_size tgt > c_size c * 1.5
            then aggression (traits c) > 0.8 \<and> strength (traits c) > 0.7
            else
              (let sizeAdvantage = (c_size c > c_size tgt * 0.8);
                   aggressionAdvantage = (aggression (traits c) > 0.6);
                   strengthAdvantage =
                     (strength (traits c) > strength (traits tgt) * 1.2)
               in sizeAdvantage \<or> aggressionAdvantage \<or> strengthAdvantage)))"


section \<open>entities/food.ts\<close>

datatype FoodSize = Small | Medium | Large

text \<open>\<open>FOOD_SIZE_DATA\<close>: energy, visual size and weight of each size.\<close>

definition foodEnergy :: "FoodSize \<Rightarrow> real" where
  "foodEnergy fs = (case fs of Small \<Rightarrow> 15 | Medium \<Rightarrow> 40 | Large \<Rightarrow> 120)"

definition foodVisualSize :: "FoodSize \<Rightarrow> real" where
  "foodVisualSize fs = (case fs of Small \<Rightarrow> 4 | Medium \<Rightarrow> 8 | Large \<Rightarrow> 20)"

definition foodWeight :: "FoodSize \<Rightarrow> real" where
  "foodWeight fs = (case fs of Small \<Rightarrow> 0.6 | Medium \<Rightarrow> 0.35 | Large \<Rightarrow> 0.05)"

record Food =
  f_id :: nat
  f_position :: Vector2
  f_maxEnergy :: real
  f_energy :: real
  f_size :: real
  foodSize :: FoodSize
  f_isConsumed :: bool

definition getRandomFoodSize :: "Globals \<Rightarrow> FoodSize \<times> Globals" where
  "getRandomFoodSize g =
     (let (roll, g1) = draw g
      in if roll < foodWeight Small then (Small, g1)
         else if roll < foodWeight Small + foodWeight Medium then (Medium, g1)
         else (Large, g1))"

definition newFood :: "real \<Rightarrow> real \<Rightarrow> FoodSize option \<Rightarrow> Globals \<Rightarrow> Food \<times> Globals" where
  "newFood x y foodSizeOpt g =
     (let i = nextFoodId g;
          g1 = g\<lparr> nextFoodId := i + 1 \<rparr>;
          (fs, g2) = (case foodSizeOpt of Some fs \<Rightarrow> (fs, g1) | None \<Rightarrow> getRandomFoodSize g1)
      in (\<lparr> f_id = i,
            f_position = (x, y),
            f_maxEnergy = foodEnergy fs,
            f_energy = foodEnergy fs,
            f_size = foodVisualSize fs,
            foodSize = fs,
            f_isConsumed = False \<rparr>, g2))"

definition spawnRandomFood :: "Config \<Rightarrow> Globals \<Rightarrow> Food \<times> Globals" where
  "spawnRandomFood cfg g =
     (let padding = 10;
          (u1, g1) = draw g;
          x = padding + u1 * (WORLD_WIDTH cfg - padding * 2);
          (u2, g2) = draw g1;
          y = padding + u2 * (WORLD_HEIGHT cfg - padding * 2)
      in newFood x y None g2)"


section \<open>entities/corpse.ts\<close>

definition CORPSE_DECAY_TIME :: real where
  "CORPSE_DECAY_TIME = 30"

record Corpse =
  co_id :: nat
  co_position :: Vector2
  co_energy :: real
  co_maxEnergy :: real
  co_size :: real
  createdAt :: real
  co_isConsumed :: bool

definition newCorpse ::
  "real \<Rightarrow> real \<Rightarrow> real \<Rightarrow> real \<Rightarrow> real \<Rightarrow> Globals \<Rightarrow> Corpse \<times> Globals" where
  "newCorpse x y e sz created g =
     (let i = nextCorpseId g
      in (\<lparr> co_id = i,
            co_position = (x, y),
            co_energy = e,
            co_maxEnergy = e,
            co_size = sz,
            createdAt = created,
            co_isConsumed = False \<rparr>, g\<lparr> nextCorpseId := i + 1 \<rparr>))"

definition isDecayed :: "Corpse \<Rightarrow> real \<Rightarrow> bool" where
  "isDecayed c currentTime = (currentTime - createdAt c > CORPSE_DECAY_TIME)"

definition createCorpse ::
  "real \<Rightarrow> real \<Rightarrow> real \<Rightarrow> real \<Rightarrow> real \<Rightarrow> Globals \<Rightarrow> Corpse \<times> Globals" where
  "createCorpse x y creatureEnergy creatureSize currentTime g =
     (let corpseEnergy = creatureEnergy * 0.6
      in newCorpse x y corpseEnergy creatureSize currentTime g)"


section \<open>simulation/world.ts: the spatial hash\<close>

text \<open>
  \<open>SpatialHash<T>\<close> is generic in the entity type, of which it only reads the position:
  the functions take the position getter as an argument.  A key of the grid is the
  string \<open>col,row\<close> of two integers, modelled as the pair of the integers.
\<close>

record 'a SpatialHash =
  cellSize :: real
  grid :: "int \<times> int \<rightharpoonup> 'a list"

definition newSpatialHash :: "real \<Rightarrow> 'a SpatialHash" where
  "newSpatialHash cs = \<lparr> cellSize = cs, grid = Map.empty \<rparr>"

definition getKey :: "'a SpatialHash \<Rightarrow> real \<Rightarrow> real \<Rightarrow> int \<times> int" where
  "getKey h x y = (let col = \<lfloor>x / cellSize h\<rfloor>; row = \<lfloor>y / cellSize h\<rfloor> in (col, row))"

definition hashClear :: "'a SpatialHash \<Rightarrow> 'a SpatialHash" where
  "hashClear h = h\<lparr> grid := Map.empty \<rparr>"

definition hashInsert :: "('a \<Rightarrow> Vector2) \<Rightarrow> 'a \<Rightarrow> 'a SpatialHash \<Rightarrow> 'a SpatialHash" where
  "hashInsert pos entity h =
     (let key = getKey h (fst (pos entity)) (snd (pos entity))
      in case grid h key of
           Some cell \<Rightarrow> h\<lparr> grid := (grid h)(key \<mapsto> cell @ [entity]) \<rparr>
         | None \<Rightarrow> h\<lparr> grid := (grid h)(key \<mapsto> [entity]) \<rparr>)"

definition getNearby :: "'a SpatialHash \<Rightarrow> real \<Rightarrow> real \<Rightarrow> real \<Rightarrow> 'a list" where
  "getNearby h x y radius =
     (let cellRadius = \<lceil>radius / cellSize h\<rceil> + 1;
          centerCol = \<lfloor>x / cellSize h\<rfloor>;
          centerRow = \<lfloor>y / cellSize h\<rfloor>
      in concat (map (\<lambda>dc.
           concat (map (\<lambda>dr.
             (let col = centerCol + dc;
                  row = centerRow + dr
              in if col < 0 \<or> row < 0 then []
                 else (case grid h (col, row) of Some cell \<Rightarrow> cell | None \<Rightarrow> [])))
             [- cellRadius .. cellRadius]))
           [- cellRadius .. cellRadius]))"


section \<open>simulation/world.ts: the world\<close>

record TemperatureZone =
  z_x :: real
  z_y :: real
  z_radius :: real
  z_temperature :: real
  z_createdAt :: real
  isRandom :: bool

text \<open>
  The three hashes hold references to the objects of the three collections.  A reference
  is the id of the object; \<open>getCreaturesNear\<close> resolves it in the creature list.  A
  creature that is referenced by the hash and no longer in the list was removed by
  \<open>cleanup\<close>: it is dead, and the source's filter on \<open>isAlive\<close> drops it as the failed
  lookup does here.  (The source's \<open>initialize\<close> empties the list and leaves the hashes as
  they are until \<open>updateSpatialHashes\<close> runs; the objects of a population discarded that
  way are not part of the model.)
\<close>

record World =
  creatures :: "Creature list"
  food :: "Food list"
  corpses :: "Corpse list"
  creatureHash :: "nat SpatialHash"
  foodHash :: "nat SpatialHash"
  corpseHash :: "nat SpatialHash"
  globalTemperature :: real
  temperatureZones :: "TemperatureZone list"
  foodAbundance :: real
  mutationRate :: real
  randomZonesEnabled :: bool
  foodSpawnAccumulator :: real
  zoneSpawnAccumulator :: real
  migrationAccumulator :: real
  simulationTime :: real
  totalBirths :: nat
  totalDeaths :: int
  generationMax :: nat

definition newWorld :: "Config \<Rightarrow> World" where
  "newWorld cfg = \<lparr>
     creatures = [],
     food = [],
     corpses = [],
     creatureHash = newSpatialHash (SPATIAL_CELL_SIZE cfg),
     foodHash = newSpatialHash (SPATIAL_CELL_SIZE cfg),
     corpseHash = newSpatialHash (SPATIAL_CELL_SIZE cfg),
     globalTemperature = TEMPERATURE_DEFAULT cfg,
     temperatureZones = [],
     foodAbundance = 1,
     mutationRate = MUTATION_RATE cfg,
     randomZonesEnabled = False,
     foodSpawnAccumulator = 0,
     zoneSpawnAccumulator = 0,
     migrationAccumulator = 0,
     simulationTime = 0,
     totalBirths = 0,
     totalDeaths = 0,
     generationMax = 0 \<rparr>"

text \<open>
  \<open>initialize\<close>: the body of the loop that spawns one founder, the loop, the loop that
  spawns the initial food, and the method.  \<open>None\<close> for the count is the default
  \<open>CONFIG.INITIAL_CREATURE_COUNT\<close>.
\<close>

fun jitterEach :: "real list \<Rightarrow> Globals \<Rightarrow> real list \<times> Globals" where
  "jitterEach [] g = ([], g)"
| "jitterEach (v # rest) g =
     (let (u, g1) = draw g;
          v' = max 0 (min 1 (v + (u - 0.5) * 0.15));
          (vs, g2) = jitterEach rest g1
      in (v' # vs, g2))"

definition spawnFounder :: "Config \<Rightarrow> World \<times> Globals \<Rightarrow> World \<times> Globals" where
  "spawnFounder cfg wg =
     (let (w, g) = wg;
          (u1, g1) = draw g;
          x = CREATURE_BASE_SIZE cfg + u1 * (WORLD_WIDTH cfg - CREATURE_BASE_SIZE cfg * 2);
          (u2, g2) = draw g1;
          y = CREATURE_BASE_SIZE cfg + u2 * (WORLD_HEIGHT cfg - CREATURE_BASE_SIZE cfg * 2);
          (t0, r3) = generateHerbivoreTraits (randoms g2);
          g3 = g2\<lparr> randoms := r3 \<rparr>;
          (vs, g4) = jitterEach (traitValues t0) g3;
          t1 = traitsOfList vs;
          t2 = t1\<lparr> dietPreference := min (dietPreference t1) 0.34 \<rparr>;
          (u3, g5) = draw g4;
          t3 = t2\<lparr> sizeT := 0.05 + u3 * 0.2 \<rparr>;
          (creature, g6) = newCreature cfg x y (Some t3) 0 g5;
          (sp, reg) = assignSpecies (cid creature) (traits creature) (generation creature)
                        (simulationTime w) (speciesRegistry g6);
          creature' = creature\<lparr> speciesId := Some (sp_id sp) \<rparr>
      in (w\<lparr> creatures := creatures w @ [creature'] \<rparr>, g6\<lparr> speciesRegistry := reg \<rparr>))"

definition spawnInitialFood :: "Config \<Rightarrow> World \<times> Globals \<Rightarrow> World \<times> Globals" where
  "spawnInitialFood cfg wg =
     (let (w, g) = wg;
          (f, g1) = spawnRandomFood cfg g
      in (w\<lparr> food := food w @ [f] \<rparr>, g1))"

definition initialize :: "Config \<Rightarrow> nat option \<Rightarrow> World \<Rightarrow> Globals \<Rightarrow> World \<times> Globals" where
  "initialize cfg countOpt w g =
     (let creatureCount =
            (case countOpt of None \<Rightarrow> INITIAL_CREATURE_COUNT cfg | Some n \<Rightarrow> n);
          w1 = w\<lparr> creatures := [], food := [], corpses := [], totalBirths := 0,
                  totalDeaths := 0, generationMax := 0, simulationTime := 0 \<rparr>;
          g1 = g\<lparr> speciesRegistry := registryReset (speciesRegistry g) \<rparr>;
          wg2 = ((spawnFounder cfg) ^^ creatureCount) (w1, g1)
      in ((spawnInitialFood cfg) ^^ (INITIAL_FOOD_COUNT cfg)) wg2)"

definition updateSpatialHashes :: "World \<Rightarrow> World" where
  "updateSpatialHashes w =
     w\<lparr> creatureHash :=
           foldl (\<lambda>h c. if isAlive c then hashInsert (\<lambda>_. position c) (cid c) h else h)
             (hashClear (creatureHash w)) (creatures w),
         foodHash :=
           foldl (\<lambda>h f. if \<not> f_isConsumed f then hashInsert (\<lambda>_. f_position f) (f_id f) h
                         else h)
             (hashClear (foodHash w)) (food w),
         corpseHash :=
           foldl (\<lambda>h c. if \<not> co_isConsumed c
                         then hashInsert (\<lambda>_. co_position c) (co_id c) h else h)
             (hashClear (corpseHash w)) (corpses w) \<rparr>"

definition getCreaturesNear :: "World \<Rightarrow> real \<Rightarrow> real \<Rightarrow> real \<Rightarrow> Creature list" where
  "getCreaturesNear w x y radius =
     filter isAlive
       (List.map_filter (\<lambda>i. find (\<lambda>c. cid c = i) (creatures w))
          (getNearby (creatureHash w) x y radius))"

definition getTemperatureAt :: "World \<Rightarrow> real \<Rightarrow> real \<Rightarrow> real" where
  "getTemperatureAt w x y =
     foldl (\<lambda>temp zone.
              (let dist = distance x y (z_x zone) (z_y zone)
               in if dist < z_radius zone then
                    (let influence = 1 - dist / z_radius zone
                     in temp + z_temperature zone * influence)
                  else temp))
       (globalTemperature w) (temperatureZones w)"

definition getTemperatureDamage :: "World \<Rightarrow> Creature \<Rightarrow> real" where
  "getTemperatureDamage w c =
     (let temp = getTemperatureAt w (fst (position c)) (snd (position c))
      in if temp > 30 then
           (let excess = temp - 30;
                tolerance = heatTolerance (traits c)
            in max 0 (excess * (1 - tolerance) * 0.5))
         else if temp < 10 then
           (let deficit = 10 - temp;
                tolerance = coldTolerance (traits c)
            in max 0 (deficit * (1 - tolerance) * 0.5))
         else 0)"

definition addCreature :: "Config \<Rightarrow> Creature \<Rightarrow> World \<Rightarrow> Globals \<Rightarrow> World \<times> Globals" where
  "addCreature cfg creature w g =
     (if length (creatures w) < MAX_CREATURES cfg then
        (let (sp, reg) = assignSpecies (cid creature) (traits creature) (generation creature)
                           (simulationTime w) (speciesRegistry g);
             creature' = creature\<lparr> speciesId := Some (sp_id sp) \<rparr>
         in (w\<lparr> creatures := creatures w @ [creature'],
                totalBirths := totalBirths w + 1,
                generationMax :=
                  (if generation creature' > generationMax w then generation creature'
                   else generationMax w) \<rparr>,
             g\<lparr> speciesRegistry := reg \<rparr>))
      else (w, g))"

definition updateTime :: "real \<Rightarrow> World \<Rightarrow> World" where
  "updateTime deltaTime w = w\<lparr> simulationTime := simulationTime w + deltaTime \<rparr>"

text \<open>
  \<open>cleanup\<close>: the body of the loop that creates the corpses, for one creature, and the
  method.
\<close>

definition corpseStep ::
  "World \<Rightarrow> Corpse list \<times> Globals \<Rightarrow> Creature \<Rightarrow> Corpse list \<times> Globals" where
  "corpseStep w acc creature =
     (let (cs, g) = acc
      in if \<not> isAlive creature \<and> energy creature > 5 then
           (if length cs < 500 then
              (let (corpse, g1) =
                     createCorpse (fst (position creature)) (snd (position creature))
                       (energy creature) (c_size creature) (simulationTime w) g
               in (cs @ [corpse], g1))
            else (cs, g))
         else (cs, g))"

definition cleanup :: "World \<Rightarrow> Globals \<Rightarrow> World \<times> Globals" where
  "cleanup w g =
     (let (cs, g1) = foldl (corpseStep w) (corpses w, g) (creatures w);
          deadCreatures = length (filter (\<lambda>c. \<not> isAlive c) (creatures w))
      in (w\<lparr> totalDeaths := totalDeaths w + int deadCreatures,
             creatures := filter isAlive (creatures w),
             food := filter (\<lambda>f. \<not> f_isConsumed f) (food w),
             corpses :=
               filter (\<lambda>c. \<not> co_isConsumed c \<and> \<not> isDecayed c (simulationTime w)) cs \<rparr>,
          g1))"

definition addTemperatureZone :: "real \<Rightarrow> real \<Rightarrow> real \<Rightarrow> real \<Rightarrow> World \<Rightarrow> World" where
  "addTemperatureZone x y radius temperature w =
     w\<lparr> temperatureZones :=
           temperatureZones w
             @ [\<lparr> z_x = x, z_y = y, z_radius = radius, z_temperature = temperature,
                  z_createdAt = simulationTime w, isRandom = False \<rparr>] \<rparr>"

definition clearTemperatureZones :: "bool \<Rightarrow> World \<Rightarrow> World" where
  "clearTemperatureZones includeRandom w =
     (if includeRandom then w\<lparr> temperatureZones := [] \<rparr>
      else w\<lparr> temperatureZones := filter isRandom (temperatureZones w) \<rparr>)"

definition setRandomZonesEnabled_world :: "bool \<Rightarrow> World \<Rightarrow> World" where
  "setRandomZonesEnabled_world enabled w =
     (let w1 = w\<lparr> randomZonesEnabled := enabled \<rparr>
      in if \<not> enabled
         then w1\<lparr> temperatureZones := filter (\<lambda>z. \<not> isRandom z) (temperatureZones w1) \<rparr>
         else w1)"

text \<open>
  \<open>processEmigration\<close>: the body of the loop, for the creature at index \<open>i\<close> of the list,
  and the method.  \<open>Math.random()\<close> is called only when \<open>emigrationChance > 0\<close>.
\<close>

definition emigrationStep :: "Config \<Rightarrow> real \<Rightarrow> World \<times> Globals \<Rightarrow> nat \<Rightarrow> World \<times> Globals" where
  "emigrationStep cfg deltaTime wg i =
     (let (w, g) = wg;
          creature = creatures w ! i
      in if \<not> isAlive creature then (w, g)
         else
           (let nearLeft = (fst (position creature) < EMIGRATION_EDGE_DISTANCE cfg);
                nearRight = (fst (position creature)
                               > WORLD_WIDTH cfg - EMIGRATION_EDGE_DISTANCE cfg);
                nearTop = (snd (position creature) < EMIGRATION_EDGE_DISTANCE cfg);
                nearBottom = (snd (position creature)
                                > WORLD_HEIGHT cfg - EMIGRATION_EDGE_DISTANCE cfg)
            in if \<not> nearLeft \<and> \<not> nearRight \<and> \<not> nearTop \<and> \<not> nearBottom then (w, g)
               else
                 (let isLowEnergy =
                        (energyPercent cfg creature < EMIGRATION_ENERGY_THRESHOLD cfg);
                      isFleeing = (state creature = Fleeing);
                      isStarving = (energyPercent cfg creature < 0.2);
                      nearby = getCreaturesNear w (fst (position creature))
                                 (snd (position creature)) (c_visionRange creature);
                      isCrowded = (length nearby > EMIGRATION_CROWDING_THRESHOLD cfg);
                      hasNearbyPrey =
                        list_ex (\<lambda>other. isAlive other \<and> cid other \<noteq> cid creature
                                   \<and> \<not> isCarnivore other \<and> canHunt cfg creature other)
                          nearby
                  in if (isCarnivore creature \<or> isOmnivore creature) \<and> hasNearbyPrey
                     then (w, g)
                     else
                       (let emigrationChance =
                              (if isStarving then EMIGRATION_BASE_CHANCE cfg * 5
                               else if isFleeing then EMIGRATION_BASE_CHANCE cfg * 3
                               else if isLowEnergy \<and> isCrowded
                               then EMIGRATION_BASE_CHANCE cfg * 2
                               else if isLowEnergy then EMIGRATION_BASE_CHANCE cfg
                               else 0)
                        in if emigrationChance > 0 then
                             (let (u, g1) = draw g
                              in if u < emigrationChance * deltaTime then
                                   (let (creature', g2) = die creature g1
                                    in (w\<lparr> creatures := (creatures w)[i := creature'],
                                           totalDeaths := max 0 (totalDeaths w - 1) \<rparr>,
                                        g2))
                                 else (w, g1))
                           else (w, g)))))"

definition processEmigration :: "Config \<Rightarrow> real \<Rightarrow> World \<Rightarrow> Globals \<Rightarrow> World \<times> Globals" where
  "processEmigration cfg deltaTime w g =
     foldl (emigrationStep cfg deltaTime) (w, g) [0 ..< length (creatures w)]"


section \<open>simulation/engine.ts\<close>

text \<open>
  The engine: the world, the run state and the speed multiplier.  The handles of the
  browser's scheduler (\<open>animationFrameId\<close>, \<open>lastTime\<close>, \<open>statsInterval\<close>, \<open>callbacks\<close>) are
  left out.
\<close>

datatype SimulationState = Stopped | Running | Paused

record SimulationEngine =
  world :: World
  engineState :: SimulationState
  engineSpeed :: real

definition newSimulationEngine :: "Config \<Rightarrow> SimulationEngine" where
  "newSimulationEngine cfg = \<lparr> world = newWorld cfg, engineState = Stopped, engineSpeed = 1 \<rparr>"

definition setTemperature :: "Config \<Rightarrow> real \<Rightarrow> SimulationEngine \<Rightarrow> SimulationEngine" where
  "setTemperature cfg temp e =
     e\<lparr> world := (world e)\<lparr> globalTemperature :=
          max (TEMPERATURE_MIN cfg) (min (TEMPERATURE_MAX cfg) temp) \<rparr> \<rparr>"

definition setFoodAbundance :: "real \<Rightarrow> SimulationEngine \<Rightarrow> SimulationEngine" where
  "setFoodAbundance multiplier e =
     e\<lparr> world := (world e)\<lparr> foodAbundance := max 0 (min 3 multiplier) \<rparr> \<rparr>"

definition setMutationRate :: "real \<Rightarrow> SimulationEngine \<Rightarrow> SimulationEngine" where
  "setMutationRate rate e =
     e\<lparr> world := (world e)\<lparr> mutationRate := max 0 (min 0.3 rate) \<rparr> \<rparr>"

definition setSpeed :: "real \<Rightarrow> SimulationEngine \<Rightarrow> SimulationEngine" where
  "setSpeed spd e = e\<lparr> engineSpeed := max 0.1 (min 10 spd) \<rparr>"

definition addHeatZone :: "real \<Rightarrow> real \<Rightarrow> real \<Rightarrow> SimulationEngine \<Rightarrow> SimulationEngine" where
  "addHeatZone x y radius e = e\<lparr> world := addTemperatureZone x y radius 30 (world e) \<rparr>"

definition addColdZone :: "real \<Rightarrow> real \<Rightarrow> real \<Rightarrow> SimulationEngine \<Rightarrow> SimulationEngine" where
  "addColdZone x y radius e = e\<lparr> world := addTemperatureZone x y radius (- 30) (world e) \<rparr>"


section \<open>Initial state of the process and example inputs\<close>

text \<open>
  The state of the process when the modules are loaded: the id counters at 0, an empty
  registry whose next species id is 1, and a given random source.
\<close>

definition initialGlobals :: "rng \<Rightarrow> Globals" where
  "initialGlobals rnd = \<lparr>
     nextCreatureId = 0,
     nextFoodId = 0,
     nextCorpseId = 0,
     speciesRegistry = newSpeciesRegistry,
     randoms = rnd \<rparr>"

text \<open>The invariant of the trait vector: each of the fourteen fields lies in [0, 1].\<close>

definition in01 :: "Traits \<Rightarrow> bool" where
  "in01 t = list_all (\<lambda>v. 0 \<le> v \<and> v \<le> 1) (traitValues t)"

text \<open>
  Example inputs.  \<open>uniformTraits\<close> is a trait vector with the same value in every field;
  \<open>exampleOmnivore\<close> and \<open>exampleHerbivore\<close> are two of them.

  \<open>agedCreature\<close> is a new creature whose age is set beyond its maximal lifespan of 60
  seconds and whose energy is set to 1000, as the repository's test of death by old age
  sets them.

  \<open>starvingAtEdge\<close> is a new world with one herbivore, added by \<open>addCreature\<close> at 10
  pixels of the left edge, that has since taken 85 points of damage and is left with 15
  of its 123 points of energy; no creature has died yet.  \<open>starvingCreature\<close> is that
  creature.
\<close>

definition uniformTraits :: "real \<Rightarrow> Traits" where
  "uniformTraits v = traitsOfList (replicate 14 v)"

definition exampleOmnivore :: Traits where
  "exampleOmnivore = uniformTraits 0.5"

definition exampleHerbivore :: Traits where
  "exampleHerbivore = uniformTraits 0.2"

definition agedCreature :: Creature where
  "agedCreature =
     (fst (newCreature DEFAULT_CONFIG 100 100 (Some exampleOmnivore) 0
             (initialGlobals (constantSource 0))))\<lparr> age := 61, energy := 1000 \<rparr>"

definition starvingCreature :: Creature where
  "starvingCreature =
     (fst (newCreature DEFAULT_CONFIG 10 100 (Some exampleHerbivore) 0
             (initialGlobals (constantSource 0))))\<lparr> speciesId := Some 1, energy := 15 \<rparr>"

definition starvingAtEdge :: "World \<times> Globals" where
  "starvingAtEdge =
     (let (c, g1) = newCreature DEFAULT_CONFIG 10 100 (Some exampleHerbivore) 0
                      (initialGlobals (constantSource 0));
          (w1, g2) = addCreature DEFAULT_CONFIG c (newWorld DEFAULT_CONFIG) g1;
          (c', g3) = takeDamage 85 (creatures w1 ! 0) g2
      in (w1\<lparr> creatures := (creatures w1)[0 := c'] \<rparr>, g3))"


section \<open>Sequences of calls on one creature\<close>

text \<open>
  The methods of \<open>Creature\<close> that change the object, as a datatype of calls.
  \<open>CallReproduceSexual\<close> is \<open>this.reproduceSexual(partner)\<close> seen from \<open>this\<close>, and
  \<open>CalledAsPartner\<close> is \<open>other.reproduceSexual(this)\<close> seen from the partner, which the
  method changes too.  \<open>applyCall\<close> gives the creature after the call.
\<close>

datatype CreatureCall =
    CallUpdate real real
  | CallSeekTarget Vector2 real
  | CallHuntTarget Vector2 real
  | CallWander real
  | CallFleeFrom Vector2 real
  | CallEat real
  | CallTakeDamage real
  | CallReproduceAsexual real "real option"
  | CallReproduceSexual real "real option" Creature
  | CalledAsPartner real "real option" Creature
  | CallDie

fun applyCall :: "Config \<Rightarrow> CreatureCall \<Rightarrow> Creature \<Rightarrow> Globals \<Rightarrow> Creature \<times> Globals" where
  "applyCall cfg (CallUpdate deltaTime currentTime) c g = update cfg deltaTime currentTime c g"
| "applyCall cfg (CallSeekTarget tgt deltaTime) c g = (seekTarget tgt deltaTime c, g)"
| "applyCall cfg (CallHuntTarget tgt deltaTime) c g = (huntTarget tgt deltaTime c, g)"
| "applyCall cfg (CallWander deltaTime) c g = wander deltaTime c g"
| "applyCall cfg (CallFleeFrom threat deltaTime) c g = (fleeFrom threat deltaTime c, g)"
| "applyCall cfg (CallEat amount) c g = (eat cfg amount c, g)"
| "applyCall cfg (CallTakeDamage amount) c g = takeDamage amount c g"
| "applyCall cfg (CallReproduceAsexual currentTime rate) c g =
     (let (c', offspring, g') = reproduceAsexual cfg currentTime rate c g in (c', g'))"
| "applyCall cfg (CallReproduceSexual currentTime rate partner) c g =
     (let (c', partner', offspring, g') = reproduceSexual cfg currentTime rate c partner g
      in (c', g'))"
| "applyCall cfg (CalledAsPartner currentTime rate other) c g =
     (let (other', c', offspring, g') = reproduceSexual cfg currentTime rate other c g
      in (c', g'))"
| "applyCall cfg CallDie c g = die c g"

text \<open>
  The calls as the simulation makes them: \<open>updateCreatureBehaviors\<close> and
  \<open>handleCollisions\<close> feed living creatures only (each \<open>eat\<close> is behind a check of
  \<open>isAlive\<close>), and every amount of damage that they compute is non-negative.
  \<open>applyCalls\<close> runs a list of calls and is \<open>None\<close> when one of them is not of that kind.
\<close>

definition callInSimulation :: "Creature \<Rightarrow> CreatureCall \<Rightarrow> bool" where
  "callInSimulation c call =
     (case call of
        CallEat amount \<Rightarrow> isAlive c
      | CallTakeDamage amount \<Rightarrow> 0 \<le> amount
      | _ \<Rightarrow> True)"

fun applyCalls ::
  "Config \<Rightarrow> CreatureCall list \<Rightarrow> Creature \<Rightarrow> Globals \<Rightarrow> (Creature \<times> Globals) option" where
  "applyCalls cfg [] c g = Some (c, g)"
| "applyCalls cfg (call # rest) c g =
     (if callInSimulation c call
      then (let (c', g') = applyCall cfg call c g in applyCalls cfg rest c' g')
      else None)"


section \<open>Sequences of operations on the world\<close>

text \<open>
  The operations that change the world and the registry, as a datatype: \<open>initialize\<close>;
  \<open>addCreature\<close> of any creature; the constructor followed by \<open>addCreature\<close> of the
  creature that it has made; a call of a method of the creature at an index of the list
  (its \<open>update\<close>, \<open>takeDamage\<close> and \<open>die\<close> are the deaths of the simulation); the two
  reproductions as \<open>updateCreatureBehaviors\<close> runs them, \<open>reproduceAsexual\<close> of the creature
  at an index and \<open>reproduceSexual\<close> of the creatures at two different indices, each
  followed by \<open>addCreature\<close> of every offspring; \<open>processEmigration\<close>; \<open>cleanup\<close>;
  \<open>updateSpatialHashes\<close>; \<open>updateTime\<close>; and the assignment \<open>this.world = new World()\<close> of
  the engine's \<open>stop()\<close> and \<open>reset()\<close>, which leaves the registry as it is.  An operation
  at an index outside the list does nothing.  \<open>runWorld\<close> applies a list of operations in
  turn.
\<close>

datatype WorldOp =
    OpInitialize "nat option"
  | OpAddCreature Creature
  | OpAddNew real real "Traits option" nat
  | OpCall nat CreatureCall
  | OpReproduceAsexual nat real "real option"
  | OpReproduceSexual nat nat real "real option"
  | OpProcessEmigration real
  | OpCleanup
  | OpUpdateSpatialHashes
  | OpUpdateTime real
  | OpNewWorld

definition addCreatures :: "Config \<Rightarrow> Creature list \<Rightarrow> World \<times> Globals \<Rightarrow> World \<times> Globals" where
  "addCreatures cfg children wg =
     foldl (\<lambda>s child. addCreature cfg child (fst s) (snd s)) wg children"

fun applyWorldOp :: "Config \<Rightarrow> WorldOp \<Rightarrow> World \<times> Globals \<Rightarrow> World \<times> Globals" where
  "applyWorldOp cfg (OpInitialize countOpt) (w, g) = initialize cfg countOpt w g"
| "applyWorldOp cfg (OpAddCreature c) (w, g) = addCreature cfg c w g"
| "applyWorldOp cfg (OpAddNew x y traitsOpt gen) (w, g) =
     (let (c, g1) = newCreature cfg x y traitsOpt gen g in addCreature cfg c w g1)"
| "applyWorldOp cfg (OpCall i call) (w, g) =
     (if i < length (creatures w) then
        (let (c', g') = applyCall cfg call (creatures w ! i) g
         in (w\<lparr> creatures := (creatures w)[i := c'] \<rparr>, g'))
      else (w, g))"
| "applyWorldOp cfg (OpReproduceAsexual i currentTime rate) (w, g) =
     (if i < length (creatures w) then
        (let (c', offspring, g') = reproduceAsexual cfg currentTime rate (creatures w ! i) g;
             w1 = w\<lparr> creatures := (creatures w)[i := c'] \<rparr>
         in case offspring of
              None \<Rightarrow> (w1, g')
            | Some child \<Rightarrow> addCreature cfg child w1 g')
      else (w, g))"
| "applyWorldOp cfg (OpReproduceSexual i j currentTime rate) (w, g) =
     (if i < length (creatures w) \<and> j < length (creatures w) \<and> i \<noteq> j then
        (let (c', partner', offspring, g') =
               reproduceSexual cfg currentTime rate (creatures w ! i) (creatures w ! j) g;
             w1 = w\<lparr> creatures := (creatures w)[i := c', j := partner'] \<rparr>
         in addCreatures cfg offspring (w1, g'))
      else (w, g))"
| "applyWorldOp cfg (OpProcessEmigration deltaTime) (w, g) =
     processEmigration cfg deltaTime w g"
| "applyWorldOp cfg OpCleanup (w, g) = cleanup w g"
| "applyWorldOp cfg OpUpdateSpatialHashes (w, g) = (updateSpatialHashes w, g)"
| "applyWorldOp cfg (OpUpdateTime deltaTime) (w, g) = (updateTime deltaTime w, g)"
| "applyWorldOp cfg OpNewWorld (w, g) = (newWorld cfg, g)"

definition runWorld :: "Config \<Rightarrow> WorldOp list \<Rightarrow> World \<times> Globals \<Rightarrow> World \<times> Globals" where
  "runWorld cfg ops wg = foldl (\<lambda>s op. applyWorldOp cfg op s) wg ops"

text \<open>
  The operations as the simulation makes them.  \<open>updateCreatureBehaviors\<close> gives to
  \<open>addCreature\<close> the offspring of a reproduction: a living creature that the constructor
  has made (so its id is below the next creature id) and that is not in the list of the
  world.  The replacement of the world by a new one is not an operation of a run: it
  leaves the registry with the populations of the old world until the next \<open>initialize\<close>,
  which resets the registry and is where a run starts.  \<open>runSimulation\<close> runs a list of
  operations and is \<open>None\<close> when one of them is not of that kind.
\<close>

definition opInSimulation :: "World \<times> Globals \<Rightarrow> WorldOp \<Rightarrow> bool" where
  "opInSimulation wg op =
     (case op of
        OpAddCreature c \<Rightarrow>
          isAlive c \<and> cid c < nextCreatureId (snd wg)
          \<and> cid c \<notin> set (map cid (creatures (fst wg)))
      | OpNewWorld \<Rightarrow> False
      | _ \<Rightarrow> True)"

fun runSimulation ::
  "Config \<Rightarrow> WorldOp list \<Rightarrow> World \<times> Globals \<Rightarrow> (World \<times> Globals) option" where
  "runSimulation cfg [] wg = Some wg"
| "runSimulation cfg (op # rest) wg =
     (if opInSimulation wg op then runSimulation cfg rest (applyWorldOp cfg op wg) else None)"

text \<open>
  The two sides of the species accounting: the sum of \<open>population\<close> over the active
  species (those with \<open>population > 0\<close>), and the number of creatures of the world that
  are alive and have a species id.
\<close>

definition activePopulation :: "SpeciesRegistry \<Rightarrow> int" where
  "activePopulation reg = sum_list (map population (getActiveSpecies reg))"

definition aliveWithSpecies :: "World \<Rightarrow> nat" where
  "aliveWithSpecies w =
     length (filter (\<lambda>c. isAlive c \<and> speciesId c \<noteq> None) (creatures w))"

text \<open>
  The invariant behind the accounting, on the creature list, the registry and the next
  creature id: creature ids are distinct and below the next id; species ids are distinct
  and below the next species id; a living creature carries the species id that the
  registry maps its id to, and that species is in the registry; the registry maps no
  dead creature of the list; and the population of each species is the number of living
  creatures of the list that carry its id.  \<open>popOf\<close> is the population of the species
  with a given id, 0 when there is none.
\<close>

definition popOf :: "SpeciesRegistry \<Rightarrow> nat \<Rightarrow> int" where
  "popOf reg i = (case speciesGet (species reg) i of Some s \<Rightarrow> population s | None \<Rightarrow> 0)"

definition speciesIds :: "SpeciesRegistry \<Rightarrow> nat list" where
  "speciesIds reg = map sp_id (species reg)"

definition membersOf :: "Creature list \<Rightarrow> nat \<Rightarrow> nat" where
  "membersOf cs i = length (filter (\<lambda>c. isAlive c \<and> speciesId c = Some i) cs)"

definition accInv :: "Creature list \<Rightarrow> SpeciesRegistry \<Rightarrow> nat \<Rightarrow> bool" where
  "accInv cs reg n =
     (distinct (map cid cs)
      \<and> list_all (\<lambda>c. cid c < n) cs
      \<and> distinct (speciesIds reg)
      \<and> list_all (\<lambda>i. i < nextSpeciesId reg) (speciesIds reg)
      \<and> list_all (\<lambda>c. if isAlive c
                       then speciesId c = creatureSpecies reg (cid c)
                            \<and> list_ex (\<lambda>i. speciesId c = Some i) (speciesIds reg)
                       else creatureSpecies reg (cid c) = None) cs
      \<and> list_all (\<lambda>i. popOf reg i = int (membersOf cs i)) (speciesIds reg))"

definition accountingInv :: "World \<times> Globals \<Rightarrow> bool" where
  "accountingInv wg =
     accInv (creatures (fst wg)) (speciesRegistry (snd wg)) (nextCreatureId (snd wg))"

text \<open>
  Two states of the process with the same registry, the second with a next creature id
  that is not smaller.
\<close>

definition sameRegistry :: "Globals \<Rightarrow> Globals \<Rightarrow> bool" where
  "sameRegistry g g' =
     (speciesRegistry g' = speciesRegistry g \<and> nextCreatureId g \<le> nextCreatureId g')"


text \<open>
  The hash that holds a list of entities: a new hash of the given cell size, and one
  \<open>insert\<close> for each entity in turn.  \<open>inCell\<close> says that a cell of the grid holds an
  entity.
\<close>

definition buildHash :: "('a \<Rightarrow> Vector2) \<Rightarrow> real \<Rightarrow> 'a list \<Rightarrow> 'a SpatialHash" where
  "buildHash pos cs es = foldl (\<lambda>h e. hashInsert pos e h) (newSpatialHash cs) es"

definition inCell :: "'a SpatialHash \<Rightarrow> 'a \<Rightarrow> int \<times> int \<Rightarrow> bool" where
  "inCell h e k = (case grid h k of Some cell \<Rightarrow> e \<in> set cell | None \<Rightarrow> False)"


section \<open>Properties: genetics\<close>

lemma clamp01_bounds: "0 \<le> clamp01 v \<and> clamp01 v \<le> 1"
  by (simp add: clamp01_def)

lemma mutateTrait_bounds:
  "0 \<le> fst (mutateTrait cfg v rate r) \<and> fst (mutateTrait cfg v rate r) \<le> 1"
  by (simp add: mutateTrait_def Let_def split_def clamp01_bounds)

lemma mutateEach_bounds:
  "list_all (\<lambda>v. 0 \<le> v \<and> v \<le> 1) (fst (mutateEach cfg xs r))
   \<and> length (fst (mutateEach cfg xs r)) = length xs"
proof (induction xs arbitrary: r)
  case Nil
  then show ?case by simp
next
  case (Cons p xs)
  obtain v rate where p: "p = (v, rate)" by (cases p)
  show ?case
    using Cons.IH mutateTrait_bounds [of cfg v rate r]
    by (simp add: p Let_def split_def)
qed

lemma in01_traitsOfList:
  assumes "length vs = 14" and "list_all (\<lambda>v. 0 \<le> v \<and> v \<le> 1) vs"
  shows "in01 (traitsOfList vs)"
proof -
  have "\<And>i. i < 14 \<Longrightarrow> 0 \<le> vs ! i \<and> vs ! i \<le> 1"
    using assms by (simp add: list_all_length)
  then show ?thesis
    by (simp add: in01_def traitValues_def traitsOfList_def)
qed

lemma mutateTraits_in01: "in01 (fst (mutateTraits cfg t rate r))"
  unfolding mutateTraits_def Let_def split_def fst_conv
  by (rule in01_traitsOfList)
     (simp_all add: mutateEach_bounds traitValues_def del: mutateEach.simps)

lemma mutateTraitsWithStress_in01:
  "in01 (fst (mutateTraitsWithStress cfg t stress rate r))"
  unfolding mutateTraitsWithStress_def Let_def split_def fst_conv
  by (rule in01_traitsOfList) (simp_all add: mutateEach_bounds del: mutateEach.simps)

lemma crossoverTraits_in01: "in01 (fst (crossoverTraits cfg t1 t2 rate r))"
  by (simp add: crossoverTraits_def split_def Let_def mutateTraits_in01)

lemma in01_uniformTraits: "0 \<le> v \<Longrightarrow> v \<le> 1 \<Longrightarrow> in01 (uniformTraits v)"
  by (simp add: uniformTraits_def in01_traitsOfList list_all_length)

lemma uniformTraits_simps:
  "speed (uniformTraits v) = v"
  "sizeT (uniformTraits v) = v"
  "dietPreference (uniformTraits v) = v"
  by (simp_all add: uniformTraits_def traitsOfList_def numeral_eq_Suc)

text \<open>
  C7 (trait closure).  For every trait vector whose fourteen fields lie in [0, 1], every
  mutation rate (given or left to the default), every stress value, every configuration
  and every sequence of random draws, each field of the vector that \<open>mutateTraits\<close>,
  \<open>mutateTraitsWithStress\<close> and \<open>crossoverTraits\<close> (with a second parent in [0, 1], in
  either role) return lies in [0, 1].  The last step of each operation is \<open>clamp01\<close>.
\<close>

theorem trait_closure:
  "in01 t \<Longrightarrow>
     in01 (fst (mutateTraits cfg t rate r))
     \<and> in01 (fst (mutateTraitsWithStress cfg t stress rate r))
     \<and> (in01 t2 \<longrightarrow> in01 (fst (crossoverTraits cfg t t2 rate r))
                    \<and> in01 (fst (crossoverTraits cfg t2 t rate r)))"
  by (simp add: mutateTraits_in01 mutateTraitsWithStress_in01 crossoverTraits_in01)

theorem trait_closure_witness:
  "in01 (uniformTraits 1) \<and> in01 (uniformTraits 0)
   \<and> in01 (fst (mutateTraits DEFAULT_CONFIG (uniformTraits 1) (Some 0.3) (constantSource 0.9)))
   \<and> in01 (fst (mutateTraitsWithStress DEFAULT_CONFIG (uniformTraits 1) 1 (Some 0.3)
                  (constantSource 0.9)))
   \<and> in01 (fst (crossoverTraits DEFAULT_CONFIG (uniformTraits 1) (uniformTraits 0)
                  (Some 0.3) (constantSource 0.9)))"
proof -
  have h1: "in01 (uniformTraits 1)" and h0: "in01 (uniformTraits 0)"
    by (simp_all add: in01_uniformTraits)
  show ?thesis
    using h1 h0
      trait_closure [OF h1, of DEFAULT_CONFIG "Some 0.3" "constantSource 0.9" 1 "uniformTraits 0"]
    by simp
qed


section \<open>Properties: values of the default configuration and of the example inputs\<close>

lemma uniformTraits_eq:
  "uniformTraits v = \<lparr> speed = v, sizeT = v, visionRange = v, metabolism = v,
     heatTolerance = v, coldTolerance = v, aggression = v, camouflage = v, lifespan = v,
     reproductionRate = v, socialBehavior = v, dietPreference = v, strength = v,
     stamina = v \<rparr>"
  by (simp add: uniformTraits_def traitsOfList_def numeral_eq_Suc)

lemma DEFAULT_CONFIG_simps:
  "WORLD_WIDTH DEFAULT_CONFIG = 2400"
  "WORLD_HEIGHT DEFAULT_CONFIG = 1350"
  "SPATIAL_CELL_SIZE DEFAULT_CONFIG = 50"
  "MAX_CREATURES DEFAULT_CONFIG = 1500"
  "CREATURE_BASE_SPEED DEFAULT_CONFIG = 100"
  "CREATURE_MAX_SIZE DEFAULT_CONFIG = 32"
  "CREATURE_MIN_SIZE DEFAULT_CONFIG = 3"
  "CREATURE_BASE_ENERGY DEFAULT_CONFIG = 100"
  "CREATURE_MAX_ENERGY DEFAULT_CONFIG = 150"
  "CREATURE_ENERGY_DRAIN_BASE DEFAULT_CONFIG = 2"
  "CREATURE_VISION_BASE DEFAULT_CONFIG = 80"
  "CREATURE_VISION_MAX DEFAULT_CONFIG = 200"
  "TEMPERATURE_DEFAULT DEFAULT_CONFIG = 20"
  "MUTATION_RATE DEFAULT_CONFIG = 0.001"
  "EMIGRATION_EDGE_DISTANCE DEFAULT_CONFIG = 30"
  "EMIGRATION_ENERGY_THRESHOLD DEFAULT_CONFIG = 0.35"
  "EMIGRATION_CROWDING_THRESHOLD DEFAULT_CONFIG = 8"
  "EMIGRATION_BASE_CHANCE DEFAULT_CONFIG = 0.02"
  "HERBIVORE_LIFESPAN_MULT DEFAULT_CONFIG = 0.9"
  "HERBIVORE_SPEED_SIZE_PENALTY DEFAULT_CONFIG = 0.8"
  "HERBIVORE_BIG_ENERGY_PENALTY DEFAULT_CONFIG = 1.0"
  "CARNIVORE_LIFESPAN_MULT DEFAULT_CONFIG = 1.5"
  "CARNIVORE_SPEED_SIZE_PENALTY DEFAULT_CONFIG = 0.0"
  "OMNIVORE_LIFESPAN_MULT DEFAULT_CONFIG = 1.0"
  "OMNIVORE_SPEED_SIZE_PENALTY DEFAULT_CONFIG = 0.3"
  "OMNIVORE_ENERGY_DRAIN_MULT DEFAULT_CONFIG = 1.5"
  "OMNIVORE_BIG_ENERGY_PENALTY DEFAULT_CONFIG = 1.5"
  by (simp_all add: DEFAULT_CONFIG_def)

lemma exampleOmnivore_values:
  "getCreatureSpeed DEFAULT_CONFIG exampleOmnivore = 95"
  "getEnergyDrain DEFAULT_CONFIG exampleOmnivore = 3.6225"
  "getMaxLifespan DEFAULT_CONFIG exampleOmnivore = 60"
  "getCreatureSize DEFAULT_CONFIG exampleOmnivore = 17.5"
  "dietPreference exampleOmnivore = 0.5"
  "sizeT exampleOmnivore = 0.5"
  by (simp_all add: exampleOmnivore_def uniformTraits_eq getMaxLifespan_def
      getEnergyDrain_def getCreatureSpeed_def getCreatureSize_def DEFAULT_CONFIG_simps)

lemma exampleHerbivore_values:
  "getVisionRange DEFAULT_CONFIG exampleHerbivore = 120"
  "dietPreference exampleHerbivore = 0.2"
  "sizeT exampleHerbivore = 0.2"
  by (simp_all add: exampleHerbivore_def uniformTraits_eq getVisionRange_def
      DEFAULT_CONFIG_simps)

lemma newCreature_fields:
  "energy (fst (newCreature cfg x y (Some t) gen g)) = CREATURE_BASE_ENERGY cfg"
  "traits (fst (newCreature cfg x y (Some t) gen g)) = t"
  "isAlive (fst (newCreature cfg x y (Some t) gen g))"
  "cid (fst (newCreature cfg x y (Some t) gen g)) = nextCreatureId g"
  "speciesId (fst (newCreature cfg x y (Some t) gen g)) = None"
  "position (fst (newCreature cfg x y (Some t) gen g)) = (x, y)"
  "age (fst (newCreature cfg x y (Some t) gen g)) = 0"
  "c_maxLifespan (fst (newCreature cfg x y (Some t) gen g)) = getMaxLifespan cfg t"
  "c_size (fst (newCreature cfg x y (Some t) gen g)) = getCreatureSize cfg t"
  "c_speed (fst (newCreature cfg x y (Some t) gen g)) = getCreatureSpeed cfg t"
  "c_energyDrain (fst (newCreature cfg x y (Some t) gen g)) = getEnergyDrain cfg t"
  "state (fst (newCreature cfg x y (Some t) gen g)) = Wandering"
  "hungerStress (fst (newCreature cfg x y (Some t) gen g)) = 0"
  "c_visionRange (fst (newCreature cfg x y (Some t) gen g)) = getVisionRange cfg t"
  "generation (fst (newCreature cfg x y (Some t) gen g)) = gen"
  "velocity (fst (newCreature cfg x y (Some t) gen g))
     = (cos (randoms g 0 * pi * 2) * getCreatureSpeed cfg t * 0.5,
        sin (randoms g 0 * pi * 2) * getCreatureSpeed cfg t * 0.5)"
  by (simp_all add: newCreature_def Let_def split_def draw_def random_def)

lemma newCreature_globals:
  "snd (newCreature cfg x y (Some t) gen g)
     = g\<lparr> nextCreatureId := nextCreatureId g + 1, randoms := (\<lambda>n. randoms g (Suc n)) \<rparr>"
  by (simp add: newCreature_def Let_def split_def draw_def random_def)

lemma agedCreature_fields:
  "isAlive agedCreature" "energy agedCreature = 1000" "age agedCreature = 61"
  "c_maxLifespan agedCreature = 60" "c_energyDrain agedCreature = 3.6225"
  "c_speed agedCreature = 95" "velocity agedCreature = (47.5, 0)"
  "position agedCreature = (100, 100)" "c_size agedCreature = 17.5"
  "traits agedCreature = exampleOmnivore" "state agedCreature = Wandering"
  "hungerStress agedCreature = 0" "cid agedCreature = 0"
  by (simp_all add: agedCreature_def newCreature_fields exampleOmnivore_values
      initialGlobals_def constantSource_def)

lemma magnitude_x: "magnitude (a, 0) = \<bar>a\<bar>"
  by (simp add: magnitude_def)

lemma updateEnergy_frame:
  "cid (updateEnergy cfg dt c) = cid c"
  "isAlive (updateEnergy cfg dt c) = isAlive c"
  "speciesId (updateEnergy cfg dt c) = speciesId c"
  "age (updateEnergy cfg dt c) = age c + dt"
  "c_maxLifespan (updateEnergy cfg dt c) = c_maxLifespan c"
  by (simp_all add: updateEnergy_def Let_def)

lemma updatePosition_frame:
  "cid (updatePosition cfg dt c) = cid c"
  "isAlive (updatePosition cfg dt c) = isAlive c"
  "speciesId (updatePosition cfg dt c) = speciesId c"
  "energy (updatePosition cfg dt c) = energy c"
  by (simp_all add: updatePosition_def Let_def split_def)


section \<open>Properties: speed as a function of the diet\<close>

lemma interpolateDietValue_closed_form:
  "interpolateDietValue d h o' c
     = h + (o' - h) * (2 * min d 0.5) + (c - o') * (2 * (max d 0.5 - 0.5))"
  by (simp add: interpolateDietValue_def Let_def min_def max_def algebra_simps)

lemma interpolateDietValue_continuous:
  "continuous_on S (\<lambda>d. interpolateDietValue d h o' c)"
  unfolding interpolateDietValue_closed_form
  by (intro continuous_intros)

lemma getSpeedSizePenalty_continuous: "continuous_on S (\<lambda>d. getSpeedSizePenalty cfg d)"
  unfolding getSpeedSizePenalty_def by (rule interpolateDietValue_continuous)

lemma getCreatureSpeed_interp_continuous:
  "continuous_on S (\<lambda>d. getCreatureSpeed_interp cfg (t\<lparr> dietPreference := d \<rparr>))"
  unfolding getCreatureSpeed_interp_def getSpeedSizePenalty_def Let_def
  by (simp, intro continuous_intros interpolateDietValue_continuous)

lemma continuous_one_sided_limits:
  fixes f :: "real \<Rightarrow> real"
  assumes "continuous_on UNIV f"
  shows "(f \<longlongrightarrow> f b) (at_left b) \<and> (f \<longlongrightarrow> f b) (at_right b)"
proof -
  have "(f \<longlongrightarrow> f b) (at b within UNIV)"
    using assms by (simp add: continuous_on_def)
  then show ?thesis
    by (auto intro: tendsto_within_subset)
qed

lemma getCreatureSpeed_interp_values:
  "getCreatureSpeed_interp DEFAULT_CONFIG ((uniformTraits 0)\<lparr> dietPreference := d \<rparr>)
     = 50 * interpolateDietValue d 1.3 1.1 1.0"
  by (simp add: getCreatureSpeed_interp_def Let_def uniformTraits_simps DEFAULT_CONFIG_def)

lemma getCreatureSpeed_branch_values:
  "getCreatureSpeed DEFAULT_CONFIG ((uniformTraits 0)\<lparr> dietPreference := d \<rparr>)
     = (if d > 0.65 then 50 else if d < 0.35 then 65 else 55)"
  by (simp add: getCreatureSpeed_def Let_def uniformTraits_simps DEFAULT_CONFIG_def)

text \<open>
  C2, as stated, fails for the \<open>getCreatureSpeed\<close> of \<open>entities/genetics.ts\<close>, which the
  creature's constructor calls: it selects the size modifier by the diet type, one
  formula for each of the three types.  With the default configuration and the traits
  speed = 0 and size = 0 it returns 65 at diet preference 0.34 and 55 at 0.35, and it is
  not continuous on [0, 1].
\<close>

theorem getCreatureSpeed_jump_at_diet_boundary:
  "getCreatureSpeed DEFAULT_CONFIG ((uniformTraits 0)\<lparr> dietPreference := 0.34 \<rparr>) = 65
   \<and> getCreatureSpeed DEFAULT_CONFIG ((uniformTraits 0)\<lparr> dietPreference := 0.35 \<rparr>) = 55
   \<and> \<not> continuous_on {0..1}
         (\<lambda>d. getCreatureSpeed DEFAULT_CONFIG ((uniformTraits 0)\<lparr> dietPreference := d \<rparr>))"
proof -
  let ?f = "\<lambda>d. getCreatureSpeed DEFAULT_CONFIG ((uniformTraits 0)\<lparr> dietPreference := d \<rparr>)"
  have below: "\<And>d. d < 0.35 \<Longrightarrow> ?f d = 65"
    by (simp add: getCreatureSpeed_branch_values)
  have "\<not> continuous_on {0..1} ?f"
  proof
    assume "continuous_on {0..1} ?f"
    then have "(?f \<longlongrightarrow> ?f 0.35) (at 0.35 within {0..1})"
      by (simp add: continuous_on_def)
    then have "eventually (\<lambda>x. dist (?f x) (?f 0.35) < 1) (at 0.35 within {0..1})"
      by (simp add: tendsto_iff)
    then obtain \<delta> where \<delta>: "\<delta> > 0"
      and close: "\<And>x'. x' \<in> {0..1} \<Longrightarrow> x' \<noteq> 0.35 \<Longrightarrow> dist x' (0.35::real) < \<delta>
                    \<Longrightarrow> dist (?f x') (?f 0.35) < 1"
      unfolding eventually_at by blast
    define x' where "x' = max 0 (0.35 - \<delta> / 2)"
    have "x' \<in> {0..1}" and "x' < 0.35" and "dist x' (0.35::real) < \<delta>"
      using \<delta> by (auto simp: x'_def dist_real_def max_def)
    then have "dist (?f x') (?f 0.35) < 1" and "?f x' = 65"
      using close [of x'] below by auto
    then show False by (simp add: getCreatureSpeed_branch_values dist_real_def)
  qed
  then show ?thesis by (simp add: getCreatureSpeed_branch_values)
qed

text \<open>
  C2, amended.  The \<open>getCreatureSpeed\<close> of the genetics text that defines
  \<open>interpolateDietValue\<close> is continuous in \<open>dietPreference\<close> on [0, 1], for every
  configuration and every value of the other traits; and at every point \<open>b\<close>, so at the
  diet boundaries 0.35 and 0.65, the base multiplier, the size penalty and the speed
  have a limit from the left and a limit from the right that are both the value at \<open>b\<close>.
  (The \<open>getCreatureSpeed\<close> of \<open>entities/genetics.ts\<close> is the three-way branch of the
  statement above.)
\<close>

theorem getCreatureSpeed_interp_continuous_in_diet:
  "continuous_on {0..1} (\<lambda>d. getCreatureSpeed_interp cfg (t\<lparr> dietPreference := d \<rparr>))
   \<and> ((\<lambda>d. interpolateDietValue d 1.3 1.1 1.0) \<longlongrightarrow> interpolateDietValue b 1.3 1.1 1.0)
         (at_left b)
   \<and> ((\<lambda>d. interpolateDietValue d 1.3 1.1 1.0) \<longlongrightarrow> interpolateDietValue b 1.3 1.1 1.0)
         (at_right b)
   \<and> ((\<lambda>d. getSpeedSizePenalty cfg d) \<longlongrightarrow> getSpeedSizePenalty cfg b) (at_left b)
   \<and> ((\<lambda>d. getSpeedSizePenalty cfg d) \<longlongrightarrow> getSpeedSizePenalty cfg b) (at_right b)
   \<and> ((\<lambda>d. getCreatureSpeed_interp cfg (t\<lparr> dietPreference := d \<rparr>))
         \<longlongrightarrow> getCreatureSpeed_interp cfg (t\<lparr> dietPreference := b \<rparr>)) (at_left b)
   \<and> ((\<lambda>d. getCreatureSpeed_interp cfg (t\<lparr> dietPreference := d \<rparr>))
         \<longlongrightarrow> getCreatureSpeed_interp cfg (t\<lparr> dietPreference := b \<rparr>)) (at_right b)"
  using continuous_one_sided_limits [OF interpolateDietValue_continuous, of "1.3" "1.1" "1.0" b]
    continuous_one_sided_limits [OF getSpeedSizePenalty_continuous, of cfg b]
    continuous_one_sided_limits [OF getCreatureSpeed_interp_continuous, of cfg t b]
    getCreatureSpeed_interp_continuous [of "{0..1}" cfg t]
  by simp

theorem getCreatureSpeed_interp_continuous_in_diet_witness:
  "getCreatureSpeed_interp DEFAULT_CONFIG ((uniformTraits 0)\<lparr> dietPreference := 0.34 \<rparr>) = 58.2
   \<and> getCreatureSpeed_interp DEFAULT_CONFIG ((uniformTraits 0)\<lparr> dietPreference := 0.35 \<rparr>) = 58
   \<and> getCreatureSpeed_interp DEFAULT_CONFIG ((uniformTraits 0)\<lparr> dietPreference := 0.65 \<rparr>) = 53.5
   \<and> continuous_on {0..1}
        (\<lambda>d. getCreatureSpeed_interp DEFAULT_CONFIG ((uniformTraits 0)\<lparr> dietPreference := d \<rparr>))
   \<and> ((\<lambda>d. getCreatureSpeed_interp DEFAULT_CONFIG ((uniformTraits 0)\<lparr> dietPreference := d \<rparr>))
         \<longlongrightarrow> 58) (at_left 0.35)
   \<and> ((\<lambda>d. getCreatureSpeed_interp DEFAULT_CONFIG ((uniformTraits 0)\<lparr> dietPreference := d \<rparr>))
         \<longlongrightarrow> 58) (at_right 0.35)
   \<and> ((\<lambda>d. getCreatureSpeed_interp DEFAULT_CONFIG ((uniformTraits 0)\<lparr> dietPreference := d \<rparr>))
         \<longlongrightarrow> 53.5) (at_left 0.65)
   \<and> ((\<lambda>d. getCreatureSpeed_interp DEFAULT_CONFIG ((uniformTraits 0)\<lparr> dietPreference := d \<rparr>))
         \<longlongrightarrow> 53.5) (at_right 0.65)"
proof -
  have v: "getCreatureSpeed_interp DEFAULT_CONFIG ((uniformTraits 0)\<lparr> dietPreference := 0.34 \<rparr>)
             = 58.2"
    "getCreatureSpeed_interp DEFAULT_CONFIG ((uniformTraits 0)\<lparr> dietPreference := 0.35 \<rparr>) = 58"
    "getCreatureSpeed_interp DEFAULT_CONFIG ((uniformTraits 0)\<lparr> dietPreference := 0.65 \<rparr>) = 53.5"
    by (simp_all add: getCreatureSpeed_interp_values interpolateDietValue_def Let_def)
  show ?thesis
    using getCreatureSpeed_interp_continuous_in_diet [of DEFAULT_CONFIG "uniformTraits 0" "0.35"]
      getCreatureSpeed_interp_continuous_in_diet [of DEFAULT_CONFIG "uniformTraits 0" "0.65"]
    unfolding v
    by (simp add: v)
qed


section \<open>Properties: creature energy\<close>

text \<open>
  C6 (energy bound).  For every creature and every amount \<open>x \<ge> 0\<close>, \<open>eat(x)\<close> leaves the
  energy at most \<open>maxEnergy\<close>; a creature with energy 100 and \<open>maxEnergy\<close> 150 that is fed
  \<open>eat(70)\<close> ends at exactly 150; and \<open>takeDamage(x)\<close> with \<open>x\<close> at least the energy leaves
  the creature with \<open>isAlive = false\<close> and energy 0.
\<close>

theorem eat_takeDamage_energy_bound:
  "(0 \<le> x \<longrightarrow> energy (eat cfg x c) \<le> maxEnergy cfg (eat cfg x c))
   \<and> (energy c = 100 \<and> maxEnergy cfg c = 150 \<longrightarrow> energy (eat cfg 70 c) = 150)
   \<and> (0 \<le> x \<and> energy c \<le> x \<longrightarrow>
        \<not> isAlive (fst (takeDamage x c g)) \<and> energy (fst (takeDamage x c g)) = 0)"
  by (simp add: eat_def maxEnergy_def takeDamage_def die_def)

theorem eat_takeDamage_energy_bound_witness:
  "(let c = fst (newCreature DEFAULT_CONFIG 0 0 (Some (uniformTraits 0.5)) 0
                   (initialGlobals (constantSource 0)));
        g = initialGlobals (constantSource 0)
    in (0::real) \<le> 70 \<and> energy c = 100 \<and> maxEnergy DEFAULT_CONFIG c = 150
       \<and> energy (eat DEFAULT_CONFIG 70 c) = 150
       \<and> energy c \<le> 120
       \<and> \<not> isAlive (fst (takeDamage 120 c g)) \<and> energy (fst (takeDamage 120 c g)) = 0)"
  using eat_takeDamage_energy_bound [of 70 DEFAULT_CONFIG
      "fst (newCreature DEFAULT_CONFIG 0 0 (Some (uniformTraits 0.5)) 0
              (initialGlobals (constantSource 0)))"]
    eat_takeDamage_energy_bound [of 120 DEFAULT_CONFIG
      "fst (newCreature DEFAULT_CONFIG 0 0 (Some (uniformTraits 0.5)) 0
              (initialGlobals (constantSource 0)))"
      "initialGlobals (constantSource 0)"]
  by (simp add: newCreature_fields maxEnergy_def uniformTraits_simps DEFAULT_CONFIG_def)


section \<open>Properties: spatial hash\<close>

lemma hashInsert_cellSize: "cellSize (hashInsert pos e h) = cellSize h"
  by (simp add: hashInsert_def Let_def split: option.splits)

lemma hashInsert_inCell_new:
  "inCell (hashInsert pos e h) e (getKey h (fst (pos e)) (snd (pos e)))"
  by (simp add: hashInsert_def inCell_def Let_def split: option.splits)

lemma hashInsert_inCell_old: "inCell h e' k \<Longrightarrow> inCell (hashInsert pos e h) e' k"
  by (auto simp: hashInsert_def inCell_def Let_def split: option.splits)

lemma getKey_cellSize: "cellSize h' = cellSize h \<Longrightarrow> getKey h' x y = getKey h x y"
  by (simp add: getKey_def)

lemma foldl_hashInsert_cellSize:
  "cellSize (foldl (\<lambda>h e. hashInsert pos e h) h0 es) = cellSize h0"
  by (induction es arbitrary: h0) (simp_all add: hashInsert_cellSize)

lemma foldl_hashInsert_keeps:
  "inCell h0 e k \<Longrightarrow> inCell (foldl (\<lambda>h e. hashInsert pos e h) h0 es) e k"
  by (induction es arbitrary: h0) (simp_all add: hashInsert_inCell_old)

lemma foldl_hashInsert_inCell:
  "e \<in> set es \<Longrightarrow>
     inCell (foldl (\<lambda>h e. hashInsert pos e h) h0 es) e
       (getKey h0 (fst (pos e)) (snd (pos e)))"
proof (induction es arbitrary: h0)
  case Nil
  then show ?case by simp
next
  case (Cons a es)
  show ?case
  proof (cases "e = a")
    case True
    then show ?thesis
      using foldl_hashInsert_keeps [OF hashInsert_inCell_new [of pos a h0]] by simp
  next
    case False
    then have "e \<in> set es" using Cons.prems by simp
    from Cons.IH [OF this, of "hashInsert pos a h0"]
    show ?thesis
      by (simp add: getKey_cellSize [OF hashInsert_cellSize])
  qed
qed

lemma in_concat_map:
  "x \<in> set xs \<Longrightarrow> e \<in> set (f x) \<Longrightarrow> e \<in> set (concat (map f xs))"
  by auto

lemma getNearby_covers:
  assumes "inCell h e (col, row)" and "0 \<le> col" and "0 \<le> row"
    and "\<bar>col - \<lfloor>x / cellSize h\<rfloor>\<bar> \<le> \<lceil>r / cellSize h\<rceil> + 1"
    and "\<bar>row - \<lfloor>y / cellSize h\<rfloor>\<bar> \<le> \<lceil>r / cellSize h\<rceil> + 1"
  shows "e \<in> set (getNearby h x y r)"
proof -
  let ?R = "\<lceil>r / cellSize h\<rceil> + 1"
  let ?dc = "col - \<lfloor>x / cellSize h\<rfloor>" and ?dr = "row - \<lfloor>y / cellSize h\<rfloor>"
  have dc: "?dc \<in> set [- ?R .. ?R]" and dr: "?dr \<in> set [- ?R .. ?R]"
    using assms(4,5) by auto
  have cell: "e \<in> set (case grid h (col, row) of Some cell \<Rightarrow> cell | None \<Rightarrow> [])"
    using assms(1) by (simp add: inCell_def split: option.splits)
  show ?thesis
    unfolding getNearby_def Let_def
    apply (rule in_concat_map [OF dc])
    apply (rule in_concat_map [OF dr])
    using cell assms(2,3) by simp
qed

lemma abs_le_distance:
  "\<bar>ex - x\<bar> \<le> distance x y ex ey" "\<bar>ey - y\<bar> \<le> distance x y ex ey"
proof -
  have "sqrt ((ex - x)\<^sup>2) \<le> sqrt ((ex - x)\<^sup>2 + (ey - y)\<^sup>2)"
    by (rule real_sqrt_le_mono) simp
  then show "\<bar>ex - x\<bar> \<le> distance x y ex ey"
    by (simp add: distance_def Let_def power2_eq_square)
  have "sqrt ((ey - y)\<^sup>2) \<le> sqrt ((ex - x)\<^sup>2 + (ey - y)\<^sup>2)"
    by (rule real_sqrt_le_mono) simp
  then show "\<bar>ey - y\<bar> \<le> distance x y ex ey"
    by (simp add: distance_def Let_def power2_eq_square)
qed

lemma cell_offset_bound:
  fixes cs :: real
  assumes "0 < cs" and "\<bar>a - b\<bar> \<le> r"
  shows "\<bar>\<lfloor>a / cs\<rfloor> - \<lfloor>b / cs\<rfloor>\<bar> \<le> \<lceil>r / cs\<rceil> + 1"
proof -
  have d: "\<bar>a / cs - b / cs\<bar> \<le> r / cs"
    using assms by (simp add: diff_divide_distrib [symmetric] abs_divide divide_right_mono)
  have "real_of_int \<lfloor>a / cs\<rfloor> \<le> a / cs" "a / cs < real_of_int \<lfloor>a / cs\<rfloor> + 1"
       "real_of_int \<lfloor>b / cs\<rfloor> \<le> b / cs" "b / cs < real_of_int \<lfloor>b / cs\<rfloor> + 1"
       "r / cs \<le> real_of_int \<lceil>r / cs\<rceil>"
    by linarith+
  with d have "\<bar>real_of_int \<lfloor>a / cs\<rfloor> - real_of_int \<lfloor>b / cs\<rfloor>\<bar>
                 < real_of_int \<lceil>r / cs\<rceil> + 1"
    by linarith
  then have "\<bar>\<lfloor>a / cs\<rfloor> - \<lfloor>b / cs\<rfloor>\<bar> < \<lceil>r / cs\<rceil> + 1"
    by linarith
  then show ?thesis by simp
qed

lemma upto_m2_2: "[- 2 .. (2::int)] = [- 2, - 1, 0, 1, 2]"
  by (simp add: upto.simps)

text \<open>
  C4, as stated, fails: \<open>getNearby\<close> skips every cell with a negative column or row
  ("outside world bounds"), so an entity at a negative coordinate is never returned.  An
  entity inserted at (-1, -1) is at distance \<open>sqrt 2\<close> of the point (0, 0) and is not in
  \<open>getNearby(0, 0, 50)\<close>.
\<close>

theorem getNearby_misses_negative_cell:
  "distance 0 0 (- 1) (- 1) \<le> 50
   \<and> (1::nat, (- 1::real, - 1::real))
       \<notin> set (getNearby (buildHash snd 50 [(1::nat, (- 1::real, - 1::real))]) 0 0 50)"
proof -
  have "sqrt (2::real) \<le> 50" by (rule real_le_lsqrt) simp_all
  then show ?thesis
    by (simp add: Let_def distance_def buildHash_def hashInsert_def newSpatialHash_def
        getKey_def getNearby_def upto_m2_2)
qed

text \<open>
  C4, amended.  For a hash of positive cell size, every list of inserted entities, every
  query point (x, y) and every radius r: \<open>getNearby(x, y, r)\<close> returns every inserted
  entity whose coordinates are both non-negative and whose Euclidean distance to (x, y)
  is at most r.  (The query point itself may be anywhere.)
\<close>

theorem getNearby_sound_nonnegative:
  assumes "0 < cs" and "e \<in> set es"
    and "0 \<le> fst (pos e)" and "0 \<le> snd (pos e)"
    and "distance x y (fst (pos e)) (snd (pos e)) \<le> r"
  shows "e \<in> set (getNearby (buildHash pos cs es) x y r)"
proof -
  let ?h = "buildHash pos cs es"
  have cs: "cellSize ?h = cs"
    by (simp add: buildHash_def foldl_hashInsert_cellSize newSpatialHash_def)
  have cell: "inCell ?h e (\<lfloor>fst (pos e) / cs\<rfloor>, \<lfloor>snd (pos e) / cs\<rfloor>)"
    using foldl_hashInsert_inCell [OF assms(2), of pos "newSpatialHash cs"]
    by (simp add: buildHash_def getKey_def newSpatialHash_def)
  have nonneg: "0 \<le> \<lfloor>fst (pos e) / cs\<rfloor>" "0 \<le> \<lfloor>snd (pos e) / cs\<rfloor>"
    using assms(1,3,4) by simp_all
  have dx: "\<bar>fst (pos e) - x\<bar> \<le> r" and dy: "\<bar>snd (pos e) - y\<bar> \<le> r"
    using abs_le_distance [where ex = "fst (pos e)" and x = x and y = y
        and ey = "snd (pos e)"] assms(5)
    by linarith+
  show ?thesis
    using cell nonneg cell_offset_bound [OF assms(1) dx] cell_offset_bound [OF assms(1) dy]
    by (intro getNearby_covers) (simp_all add: cs)
qed

theorem getNearby_sound_nonnegative_witness:
  "(let es = [(1::nat, (10::real, 10::real)), (2, (130, 100))];
        e = (2::nat, (130::real, 100::real))
    in (0::real) < 50 \<and> e \<in> set es \<and> 0 \<le> fst (snd e) \<and> 0 \<le> snd (snd e)
       \<and> distance 100 100 (fst (snd e)) (snd (snd e)) \<le> 50
       \<and> e \<in> set (getNearby (buildHash snd 50 es) 100 100 50))"
proof -
  have s: "sqrt (900::real) = 30" using real_sqrt_abs [of "30::real"] by simp
  have d: "distance 100 100 130 100 \<le> 50" by (simp add: distance_def s)
  show ?thesis
    using d getNearby_sound_nonnegative [of 50 "(2::nat, (130::real, 100::real))"
        "[(1::nat, (10::real, 10::real)), (2, (130, 100))]" snd 100 100 50]
    by (simp add: Let_def)
qed


section \<open>Properties: temperature\<close>

text \<open>
  C8.  With global temperature 20 and a single zone of delta +30, \<open>getTemperatureAt\<close>
  returns 20 plus \<open>30 * (1 - dist / radius)\<close> at the points whose distance to the centre
  is strictly less than the radius, and 20 elsewhere.  So it returns 50 at the centre
  (of a zone of positive radius: a zone of radius 0 has no point strictly inside) and 20
  at every point at distance exactly the radius.
\<close>

theorem getTemperatureAt_single_zone:
  assumes "temperatureZones w = [z]" and "globalTemperature w = 20"
    and "z_temperature z = 30"
  shows "getTemperatureAt w x y
           = 20 + (if distance x y (z_x z) (z_y z) < z_radius z
                   then 30 * (1 - distance x y (z_x z) (z_y z) / z_radius z) else 0)
         \<and> (0 < z_radius z \<longrightarrow> getTemperatureAt w (z_x z) (z_y z) = 50)
         \<and> (distance x y (z_x z) (z_y z) = z_radius z \<longrightarrow> getTemperatureAt w x y = 20)"
  using assms by (simp add: getTemperatureAt_def distance_def Let_def)

theorem getTemperatureAt_single_zone_witness:
  "(let w = world (addHeatZone 100 100 100 (newSimulationEngine DEFAULT_CONFIG));
        z = hd (temperatureZones w)
    in temperatureZones w = [z] \<and> globalTemperature w = 20 \<and> z_temperature z = 30
       \<and> 0 < z_radius z \<and> getTemperatureAt w 100 100 = 50
       \<and> distance 200 100 (z_x z) (z_y z) = z_radius z \<and> getTemperatureAt w 200 100 = 20
       \<and> getTemperatureAt w 150 100 = 35)"
proof -
  define w where "w = world (addHeatZone 100 100 100 (newSimulationEngine DEFAULT_CONFIG))"
  define z where "z = hd (temperatureZones w)"
  have zs: "temperatureZones w = [z]" and gt: "globalTemperature w = 20"
    and zt: "z_temperature z = 30" and zr: "z_radius z = 100"
    and zx: "z_x z = 100" and zy: "z_y z = 100"
    by (simp_all add: z_def w_def addHeatZone_def addTemperatureZone_def
        newSimulationEngine_def newWorld_def DEFAULT_CONFIG_def)
  have s1: "sqrt (10000::real) = 100" using real_sqrt_abs [of "100::real"] by simp
  have s2: "sqrt (2500::real) = 50" using real_sqrt_abs [of "50::real"] by simp
  have d1: "distance 200 100 (z_x z) (z_y z) = 100" by (simp add: distance_def zx zy s1)
  have d2: "distance 150 100 (z_x z) (z_y z) = 50" by (simp add: distance_def zx zy s2)
  show ?thesis
    using getTemperatureAt_single_zone [OF zs gt zt, of 200 100]
      getTemperatureAt_single_zone [OF zs gt zt, of 150 100]
      zs gt zt zr zx zy d1 d2
    unfolding Let_def w_def [symmetric] z_def [symmetric]
    by simp
qed


section \<open>Properties: engine setters\<close>

text \<open>
  C9.  For every real input the setters clamp and never reject (they are total functions
  with no error result): \<open>setSpeed\<close> stores a value in [0.1, 10], \<open>setTemperature\<close> one in
  [\<open>TEMPERATURE_MIN\<close>, \<open>TEMPERATURE_MAX\<close>], \<open>setFoodAbundance\<close> one in [0, 3] and
  \<open>setMutationRate\<close> one in [0, 0.3]; an input in the range is stored as it is, an input
  below the range is replaced by the lower bound and one above by the upper bound.  The
  configuration is any one whose temperature bounds are in order, as the default's are.
\<close>

theorem engine_setters_clamp:
  assumes "TEMPERATURE_MIN cfg \<le> TEMPERATURE_MAX cfg"
  shows
  "engineSpeed (setSpeed v e) = (if v < 0.1 then 0.1 else if 10 < v then 10 else v)
   \<and> 0.1 \<le> engineSpeed (setSpeed v e) \<and> engineSpeed (setSpeed v e) \<le> 10
   \<and> globalTemperature (world (setTemperature cfg v e))
       = (if v < TEMPERATURE_MIN cfg then TEMPERATURE_MIN cfg
          else if TEMPERATURE_MAX cfg < v then TEMPERATURE_MAX cfg else v)
   \<and> TEMPERATURE_MIN cfg \<le> globalTemperature (world (setTemperature cfg v e))
   \<and> globalTemperature (world (setTemperature cfg v e)) \<le> TEMPERATURE_MAX cfg
   \<and> foodAbundance (world (setFoodAbundance v e))
       = (if v < 0 then 0 else if 3 < v then 3 else v)
   \<and> 0 \<le> foodAbundance (world (setFoodAbundance v e))
   \<and> foodAbundance (world (setFoodAbundance v e)) \<le> 3
   \<and> mutationRate (world (setMutationRate v e))
       = (if v < 0 then 0 else if 0.3 < v then 0.3 else v)
   \<and> 0 \<le> mutationRate (world (setMutationRate v e))
   \<and> mutationRate (world (setMutationRate v e)) \<le> 0.3"
  using assms
  by (auto simp: setSpeed_def setTemperature_def setFoodAbundance_def setMutationRate_def)

theorem engine_setters_clamp_witness:
  "TEMPERATURE_MIN DEFAULT_CONFIG \<le> TEMPERATURE_MAX DEFAULT_CONFIG
   \<and> engineSpeed (setSpeed 15 (newSimulationEngine DEFAULT_CONFIG)) = 10
   \<and> globalTemperature
       (world (setTemperature DEFAULT_CONFIG 15 (newSimulationEngine DEFAULT_CONFIG))) = 15
   \<and> foodAbundance (world (setFoodAbundance 15 (newSimulationEngine DEFAULT_CONFIG))) = 3
   \<and> mutationRate (world (setMutationRate 15 (newSimulationEngine DEFAULT_CONFIG))) = 0.3"
proof -
  have h: "TEMPERATURE_MIN DEFAULT_CONFIG \<le> TEMPERATURE_MAX DEFAULT_CONFIG"
    by (simp add: DEFAULT_CONFIG_def)
  show ?thesis
    using h engine_setters_clamp [OF h, of 15 "newSimulationEngine DEFAULT_CONFIG"]
    by (simp add: DEFAULT_CONFIG_def)
qed


section \<open>Properties: death, corpses and the death counter\<close>

lemma die_result: "\<not> isAlive (fst (die c g))" "energy (fst (die c g)) = 0"
  by (simp_all add: die_def)

lemma update_cases:
  "update cfg dt t c g = (c, g)
   \<or> update cfg dt t c g = die (updateEnergy cfg dt c) g
   \<or> (isAlive c \<and> update cfg dt t c g = (updatePosition cfg dt (updateEnergy cfg dt c), g))"
  by (simp add: update_def Let_def)

lemma takeDamage_cases:
  "takeDamage a c g = die (c\<lparr> energy := energy c - a \<rparr>) g
   \<or> (0 < energy c - a \<and> takeDamage a c g = (c\<lparr> energy := energy c - a \<rparr>, g))"
  by (simp add: takeDamage_def Let_def)

lemma update_death_by_age:
  "isAlive c \<Longrightarrow> c_maxLifespan c \<le> age c + dt \<Longrightarrow>
     update cfg dt t c g = die (updateEnergy cfg dt c) g"
  by (simp add: update_def Let_def updateEnergy_frame)

lemma agedCreature_energy_step:
  "energy (updateEnergy DEFAULT_CONFIG 0.1 agedCreature) = 999.61775"
  by (simp add: updateEnergy_def Let_def agedCreature_fields isHerbivore_def isCarnivore_def
      isOmnivore_def exampleOmnivore_values magnitude_x energyPercent_def maxEnergy_def
      DEFAULT_CONFIG_simps)

lemma corpseStep_skips:
  "isAlive c \<or> energy c \<le> 5 \<Longrightarrow> corpseStep w acc c = acc"
  by (auto simp: corpseStep_def split_def)

lemma cleanup_corpses_of_dead_without_energy:
  assumes "\<forall>c \<in> set (creatures w). isAlive c \<or> energy c \<le> 5"
  shows "corpses (fst (cleanup w g))
           = filter (\<lambda>c. \<not> co_isConsumed c \<and> \<not> isDecayed c (simulationTime w)) (corpses w)"
proof -
  have "(\<forall>c \<in> set cs. isAlive c \<or> energy c \<le> 5) \<Longrightarrow> foldl (corpseStep w) acc cs = acc"
    for cs acc
    by (induction cs arbitrary: acc) (simp_all add: corpseStep_skips)
  with assms show ?thesis
    by (simp add: cleanup_def Let_def split_def)
qed

text \<open>
  C1.  The claim is that a creature that dies with more than 5 points of energy leaves a
  corpse with 60% of that energy at the next \<open>cleanup()\<close>.  \<open>die()\<close> sets the energy to 0
  before \<open>cleanup()\<close> reads it, so the condition \<open>energy > 5\<close> of \<open>cleanup()\<close> is false for
  the creature.  \<open>agedCreature\<close> is alive with energy 1000 and beyond its lifespan; its
  next \<open>update(0.1, 0)\<close> brings the energy to 999.61775 and then calls \<open>die()\<close>; the
  \<open>cleanup()\<close> of a world that holds it creates no corpse.
\<close>

theorem no_corpse_after_death_of_old_age:
  "isAlive agedCreature
   \<and> energy (updateEnergy DEFAULT_CONFIG 0.1 agedCreature) = 999.61775
   \<and> \<not> isAlive (fst (update DEFAULT_CONFIG 0.1 0 agedCreature
                         (initialGlobals (constantSource 0))))
   \<and> energy (fst (update DEFAULT_CONFIG 0.1 0 agedCreature
                     (initialGlobals (constantSource 0)))) = 0
   \<and> corpses (fst (cleanup
        ((newWorld DEFAULT_CONFIG)\<lparr> creatures :=
            [fst (update DEFAULT_CONFIG 0.1 0 agedCreature
                    (initialGlobals (constantSource 0)))] \<rparr>)
        (snd (update DEFAULT_CONFIG 0.1 0 agedCreature
                (initialGlobals (constantSource 0)))))) = []"
proof -
  define c' where
    "c' = fst (update DEFAULT_CONFIG 0.1 0 agedCreature (initialGlobals (constantSource 0)))"
  have dead: "\<not> isAlive c'" "energy c' = 0"
    by (simp_all add: c'_def update_death_by_age agedCreature_fields die_def)
  have "corpses (fst (cleanup ((newWorld DEFAULT_CONFIG)\<lparr> creatures := [c'] \<rparr>) g)) = []"
    for g
    by (simp add: cleanup_corpses_of_dead_without_energy dead newWorld_def)
  then show ?thesis
    using dead agedCreature_energy_step
    by (simp add: c'_def [symmetric] agedCreature_fields)
qed

lemma getNearby_empty: "grid h = Map.empty \<Longrightarrow> getNearby h x y r = []"
  unfolding getNearby_def Let_def by auto

lemma getCreaturesNear_empty:
  "grid (creatureHash w) = Map.empty \<Longrightarrow> getCreaturesNear w x y r = []"
  by (simp add: getCreaturesNear_def getNearby_empty List.map_filter_simps)

lemma assignSpecies_first:
  "species reg = [] \<Longrightarrow>
     sp_id (fst (assignSpecies i t gen now reg)) = nextSpeciesId reg"
  by (simp add: assignSpecies_def findMatchingSpecies_def createSpecies_def Let_def
      split_def)

lemma addCreature_new_world:
  "species (speciesRegistry g) = [] \<Longrightarrow> 0 < MAX_CREATURES cfg \<Longrightarrow>
     creatures (fst (addCreature cfg c (newWorld cfg) g))
       = [c\<lparr> speciesId := Some (nextSpeciesId (speciesRegistry g)) \<rparr>]
     \<and> totalDeaths (fst (addCreature cfg c (newWorld cfg) g)) = 0
     \<and> creatureHash (fst (addCreature cfg c (newWorld cfg) g))
         = newSpatialHash (SPATIAL_CELL_SIZE cfg)
     \<and> randoms (snd (addCreature cfg c (newWorld cfg) g)) = randoms g"
  by (simp add: addCreature_def Let_def split_def newWorld_def assignSpecies_first)

lemma starvingCreature_fields:
  "isAlive starvingCreature" "energy starvingCreature = 15"
  "position starvingCreature = (10, 100)" "traits starvingCreature = exampleHerbivore"
  "state starvingCreature = Wandering" "c_visionRange starvingCreature = 120"
  "cid starvingCreature = 0"
  by (simp_all add: starvingCreature_def newCreature_fields exampleHerbivore_values
      initialGlobals_def)

lemma starvingAtEdge_fields:
  "creatures (fst starvingAtEdge) = [starvingCreature]"
  "totalDeaths (fst starvingAtEdge) = 0"
  "creatureHash (fst starvingAtEdge) = newSpatialHash 50"
  "randoms (snd starvingAtEdge) = constantSource 0"
proof -
  let ?g0 = "initialGlobals (constantSource 0)"
  let ?c = "fst (newCreature DEFAULT_CONFIG 10 100 (Some exampleHerbivore) 0 ?g0)"
  let ?g1 = "snd (newCreature DEFAULT_CONFIG 10 100 (Some exampleHerbivore) 0 ?g0)"
  have g1: "species (speciesRegistry ?g1) = []" "nextSpeciesId (speciesRegistry ?g1) = 1"
    "randoms ?g1 = constantSource 0"
    by (simp_all add: newCreature_globals initialGlobals_def newSpeciesRegistry_def
        constantSource_def)
  note ac = addCreature_new_world [OF g1(1), of DEFAULT_CONFIG ?c,
      simplified DEFAULT_CONFIG_simps g1]
  have td: "takeDamage 85 (?c\<lparr> speciesId := Some (Suc 0) \<rparr>) g = (starvingCreature, g)"
    for g
    by (simp add: takeDamage_def Let_def newCreature_fields DEFAULT_CONFIG_simps
        starvingCreature_def)
  show "creatures (fst starvingAtEdge) = [starvingCreature]"
    "totalDeaths (fst starvingAtEdge) = 0"
    "creatureHash (fst starvingAtEdge) = newSpatialHash 50"
    "randoms (snd starvingAtEdge) = constantSource 0"
    using ac by (simp_all add: starvingAtEdge_def split_def Let_def td)
qed

lemma starving_step:
  "emigrationStep DEFAULT_CONFIG 1 starvingAtEdge 0
     = ((fst starvingAtEdge)\<lparr> creatures := [fst (die starvingCreature (snd starvingAtEdge))],
                                totalDeaths := 0 \<rparr>,
        snd (die starvingCreature (snd starvingAtEdge)))"
proof -
  have near: "getCreaturesNear (fst starvingAtEdge) x y r = []" for x y r
    by (simp add: getCreaturesNear_empty starvingAtEdge_fields newSpatialHash_def)
  have pct: "energyPercent DEFAULT_CONFIG starvingCreature = 15 / 123"
    by (simp add: energyPercent_def maxEnergy_def starvingCreature_fields
        exampleHerbivore_values DEFAULT_CONFIG_simps)
  have herb: "\<not> isCarnivore starvingCreature" "\<not> isOmnivore starvingCreature"
    by (simp_all add: isCarnivore_def isOmnivore_def isHerbivore_def starvingCreature_fields
        exampleHerbivore_values)
  have dr: "draw (snd starvingAtEdge) = (0, snd starvingAtEdge)"
    by (simp add: draw_def random_def starvingAtEdge_fields constantSource_def)
  show ?thesis
    apply (subst surjective_pairing [of starvingAtEdge])
    unfolding emigrationStep_def
    by (simp add: Let_def starvingAtEdge_fields starvingCreature_fields near pct herb dr
        DEFAULT_CONFIG_simps split_def del: surjective_pairing prod.collapse)
qed

text \<open>
  C3.  The claim is that an emigrant leaves \<open>totalDeaths\<close> unchanged once \<open>cleanup()\<close> has
  run, for every prior value of the counter, 0 included.  \<open>processEmigration\<close> takes 1
  off the counter at the moment of the emigration, but not below 0
  (\<open>Math.max(0, totalDeaths - 1)\<close>), and \<open>cleanup()\<close> then adds every dead creature, the
  emigrant among them.  In \<open>starvingAtEdge\<close> the counter is 0 and the only creature
  emigrates: the counter is 0 after \<open>processEmigration(1)\<close> and 1 after \<open>cleanup()\<close>.
\<close>

theorem emigrant_counted_as_death_at_zero:
  "totalDeaths (fst starvingAtEdge) = 0
   \<and> map isAlive (creatures (fst starvingAtEdge)) = [True]
   \<and> map isAlive (creatures (fst (processEmigration DEFAULT_CONFIG 1
                                     (fst starvingAtEdge) (snd starvingAtEdge)))) = [False]
   \<and> totalDeaths (fst (processEmigration DEFAULT_CONFIG 1
                          (fst starvingAtEdge) (snd starvingAtEdge))) = 0
   \<and> totalDeaths (fst (cleanup
        (fst (processEmigration DEFAULT_CONFIG 1 (fst starvingAtEdge) (snd starvingAtEdge)))
        (snd (processEmigration DEFAULT_CONFIG 1 (fst starvingAtEdge)
                (snd starvingAtEdge))))) = 1"
proof -
  have pe: "processEmigration DEFAULT_CONFIG 1 (fst starvingAtEdge) (snd starvingAtEdge)
              = emigrationStep DEFAULT_CONFIG 1 starvingAtEdge 0"
    by (simp add: processEmigration_def starvingAtEdge_fields)
  show ?thesis
    unfolding pe starving_step
    by (simp add: starvingAtEdge_fields starvingCreature_fields die_result cleanup_def
        Let_def split_def)
qed


section \<open>Properties: a dead creature has no energy\<close>


lemma movement_frame:
  "isAlive (seekTarget tgt dt c) = isAlive c" "energy (seekTarget tgt dt c) = energy c"
  "isAlive (huntTarget tgt dt c) = isAlive c" "energy (huntTarget tgt dt c) = energy c"
  "isAlive (fleeFrom tgt dt c) = isAlive c" "energy (fleeFrom tgt dt c) = energy c"
  "isAlive (fst (wander dt c g)) = isAlive c" "energy (fst (wander dt c g)) = energy c"
  by (simp_all add: seekTarget_def huntTarget_def fleeFrom_def wander_def Let_def split_def)

lemma reproduceAsexual_frame:
  "isAlive (fst (reproduceAsexual cfg t rate c g)) = isAlive c"
  "\<not> isAlive c \<Longrightarrow> fst (reproduceAsexual cfg t rate c g) = c"
  by (simp_all add: reproduceAsexual_def Let_def split_def canReproduce_def)

lemma reproduceSexual_frame:
  "isAlive (fst (reproduceSexual cfg t rate c p g)) = isAlive c"
  "\<not> isAlive c \<Longrightarrow> fst (reproduceSexual cfg t rate c p g) = c"
  "isAlive (fst (snd (reproduceSexual cfg t rate c p g))) = isAlive p"
  "\<not> isAlive p \<Longrightarrow> fst (snd (reproduceSexual cfg t rate c p g)) = p"
  by (simp_all add: reproduceSexual_def Let_def split_def canReproduce_def)

lemma applyCall_keeps_dead_at_zero:
  assumes "\<not> isAlive c \<longrightarrow> energy c = 0" and "callInSimulation c call"
  shows "\<not> isAlive (fst (applyCall cfg call c g)) \<longrightarrow> energy (fst (applyCall cfg call c g)) = 0"
proof (cases call)
  case (CallUpdate dt t)
  then show ?thesis
    using assms(1) update_cases [where cfg = cfg and dt = dt and t = t and c = c and g = g]
    by (auto simp: die_result updatePosition_frame updateEnergy_frame)
next
  case (CallTakeDamage a)
  then show ?thesis
    using assms takeDamage_cases [where a = a and c = c and g = g]
    by (auto simp: die_result callInSimulation_def)
next
  case (CallEat a)
  then show ?thesis using assms by (simp add: callInSimulation_def eat_def)
next
  case (CallReproduceAsexual t rate)
  then show ?thesis
    using assms(1) reproduceAsexual_frame [where cfg = cfg and t = t and rate = rate and c = c and g = g] by (auto simp: split_def Let_def)
next
  case (CallReproduceSexual t rate p)
  then show ?thesis
    using assms(1) reproduceSexual_frame(1,2) [where cfg = cfg and t = t and rate = rate and c = c and p = p and g = g] by (auto simp: split_def Let_def)
next
  case (CalledAsPartner t rate p)
  then show ?thesis
    using assms(1) reproduceSexual_frame(3,4) [where cfg = cfg and t = t and rate = rate and c = p and p = c and g = g] by (auto simp: split_def Let_def)
qed (use assms(1) in \<open>simp_all add: movement_frame die_result\<close>)

lemma applyCall_death_leaves_zero:
  "isAlive c \<Longrightarrow> \<not> isAlive (fst (applyCall cfg call c g)) \<Longrightarrow>
     energy (fst (applyCall cfg call c g)) = 0"
proof (cases call)
  case (CallUpdate dt t)
  assume "isAlive c" "\<not> isAlive (fst (applyCall cfg call c g))"
  then show ?thesis
    using CallUpdate update_cases [where cfg = cfg and dt = dt and t = t and c = c and g = g]
    by (auto simp: die_result updatePosition_frame updateEnergy_frame)
next
  case (CallTakeDamage a)
  assume "isAlive c" "\<not> isAlive (fst (applyCall cfg call c g))"
  then show ?thesis
    using CallTakeDamage takeDamage_cases [where a = a and c = c and g = g] by (auto simp: die_result)
next
  case (CallReproduceAsexual t rate)
  assume "isAlive c" "\<not> isAlive (fst (applyCall cfg call c g))"
  then show ?thesis
    using CallReproduceAsexual reproduceAsexual_frame(1) [where cfg = cfg and t = t and rate = rate and c = c and g = g] by (simp add: split_def Let_def)
next
  case (CallReproduceSexual t rate p)
  assume "isAlive c" "\<not> isAlive (fst (applyCall cfg call c g))"
  then show ?thesis
    using CallReproduceSexual reproduceSexual_frame(1) [where cfg = cfg and t = t and rate = rate and c = c and p = p and g = g] by (simp add: split_def Let_def)
next
  case (CalledAsPartner t rate p)
  assume "isAlive c" "\<not> isAlive (fst (applyCall cfg call c g))"
  then show ?thesis
    using CalledAsPartner reproduceSexual_frame(3) [where cfg = cfg and t = t and rate = rate and c = p and p = c and g = g] by (simp add: split_def Let_def)
qed (simp_all add: movement_frame die_result eat_def)

lemma applyCalls_keeps_dead_at_zero:
  "\<not> isAlive c \<longrightarrow> energy c = 0 \<Longrightarrow> applyCalls cfg calls c g = Some (c', g') \<Longrightarrow>
     \<not> isAlive c' \<longrightarrow> energy c' = 0"
proof (induction calls arbitrary: c g)
  case Nil
  then show ?case by simp
next
  case (Cons call calls)
  from Cons.prems(2) have ok: "callInSimulation c call"
    and rest: "applyCalls cfg calls (fst (applyCall cfg call c g)) (snd (applyCall cfg call c g))
                 = Some (c', g')"
    by (simp_all add: split_def Let_def split: if_splits)
  show ?case
    using Cons.IH [OF applyCall_keeps_dead_at_zero [OF Cons.prems(1) ok] rest] .
qed

lemma newCreature_alive: "isAlive (fst (newCreature cfg x y topt gen g))"
  by (simp add: newCreature_def Let_def split_def split: option.splits)

lemma emigrationStep_cases:
  "emigrationStep cfg dt (w, g) i = (w, g)
   \<or> emigrationStep cfg dt (w, g) i = (w, snd (draw g))
   \<or> (isAlive (creatures w ! i)
       \<and> emigrationStep cfg dt (w, g) i
           = (w\<lparr> creatures := (creatures w)[i := fst (die (creatures w ! i) (snd (draw g)))],
                 totalDeaths := max 0 (totalDeaths w - 1) \<rparr>,
              snd (die (creatures w ! i) (snd (draw g)))))"
  unfolding emigrationStep_def
  by (simp only: Let_def split_def fst_conv snd_conv
        if_split [where P = "\<lambda>x. x = _ \<or> x = _ \<or> _ \<and> x = _"])
     blast

lemma emigrationStep_creature:
  "i < length (creatures w) \<Longrightarrow>
     creatures (fst (emigrationStep cfg dt (w, g) i)) ! i = creatures w ! i
     \<or> creatures (fst (emigrationStep cfg dt (w, g) i)) ! i
         = fst (die (creatures w ! i) (snd (draw g)))"
  using emigrationStep_cases [of cfg dt w g i] by auto

text \<open>
  C10, as stated, fails: \<open>eat\<close> does not look at \<open>isAlive\<close>, so a call of \<open>eat\<close> on a dead
  creature gives it energy again.  A new creature after \<open>die()\<close> and \<open>eat(10)\<close> is dead
  with energy 10.
\<close>

theorem dead_creature_fed_has_energy:
  "\<not> isAlive (eat DEFAULT_CONFIG 10
       (fst (die (fst (newCreature DEFAULT_CONFIG 0 0 (Some exampleOmnivore) 0
                         (initialGlobals (constantSource 0))))
               (snd (newCreature DEFAULT_CONFIG 0 0 (Some exampleOmnivore) 0
                       (initialGlobals (constantSource 0)))))))
   \<and> energy (eat DEFAULT_CONFIG 10
       (fst (die (fst (newCreature DEFAULT_CONFIG 0 0 (Some exampleOmnivore) 0
                         (initialGlobals (constantSource 0))))
               (snd (newCreature DEFAULT_CONFIG 0 0 (Some exampleOmnivore) 0
                       (initialGlobals (constantSource 0))))))) = 10"
  by (simp add: eat_def die_def maxEnergy_def newCreature_fields exampleOmnivore_values
      DEFAULT_CONFIG_simps)

text \<open>
  C10, amended.  (1) In every state that a new creature reaches through calls of its
  methods, where \<open>eat\<close> is called on a living creature only and the amounts of
  \<open>takeDamage\<close> are non-negative (the calls that the simulation makes), a dead creature
  has energy exactly 0, and the loop of \<open>cleanup()\<close> that creates the corpses skips it.
  (2) Whatever method call turns a living creature into a dead one leaves its energy at
  0: \<open>die()\<close> is the only place that clears \<open>isAlive\<close>, and it sets the energy to 0.
  (3) A step of \<open>processEmigration\<close> leaves the creature as it is or leaves it dead with
  energy 0.
\<close>

theorem dead_creature_has_no_energy:
  "(applyCalls cfg calls (fst (newCreature cfg x y topt gen g0))
        (snd (newCreature cfg x y topt gen g0)) = Some (c, g)
      \<longrightarrow> \<not> isAlive c \<longrightarrow> energy c = 0 \<and> corpseStep w acc c = acc)
   \<and> (isAlive c0 \<and> \<not> isAlive (fst (applyCall cfg call c0 g1))
      \<longrightarrow> energy (fst (applyCall cfg call c0 g1)) = 0)
   \<and> (i < length (creatures w)
      \<longrightarrow> creatures (fst (emigrationStep cfg dt (w, g2) i)) ! i = creatures w ! i
          \<or> (\<not> isAlive (creatures (fst (emigrationStep cfg dt (w, g2) i)) ! i)
              \<and> energy (creatures (fst (emigrationStep cfg dt (w, g2) i)) ! i) = 0))"
proof (intro conjI impI)
  assume run: "applyCalls cfg calls (fst (newCreature cfg x y topt gen g0))
        (snd (newCreature cfg x y topt gen g0)) = Some (c, g)" and dead: "\<not> isAlive c"
  have "\<not> isAlive c \<longrightarrow> energy c = 0"
    by (rule applyCalls_keeps_dead_at_zero [OF _ run]) (simp add: newCreature_alive)
  with dead show "energy c = 0" by simp
  then show "corpseStep w acc c = acc" by (simp add: corpseStep_skips)
next
  assume "isAlive c0 \<and> \<not> isAlive (fst (applyCall cfg call c0 g1))"
  then show "energy (fst (applyCall cfg call c0 g1)) = 0"
    by (simp add: applyCall_death_leaves_zero)
next
  assume "i < length (creatures w)"
  from emigrationStep_creature [OF this, of cfg dt g2]
  show "creatures (fst (emigrationStep cfg dt (w, g2) i)) ! i = creatures w ! i
          \<or> (\<not> isAlive (creatures (fst (emigrationStep cfg dt (w, g2) i)) ! i)
              \<and> energy (creatures (fst (emigrationStep cfg dt (w, g2) i)) ! i) = 0)"
    by (auto simp: die_result)
qed

theorem dead_creature_has_no_energy_witness:
  "applyCalls DEFAULT_CONFIG [CallEat 10, CallTakeDamage 120, CallTakeDamage 3, CallUpdate 1 0]
       (fst (newCreature DEFAULT_CONFIG 0 0 (Some exampleOmnivore) 0
               (initialGlobals (constantSource 0))))
       (snd (newCreature DEFAULT_CONFIG 0 0 (Some exampleOmnivore) 0
               (initialGlobals (constantSource 0)))) \<noteq> None
   \<and> \<not> isAlive (fst (the (applyCalls DEFAULT_CONFIG
         [CallEat 10, CallTakeDamage 120, CallTakeDamage 3, CallUpdate 1 0]
         (fst (newCreature DEFAULT_CONFIG 0 0 (Some exampleOmnivore) 0
                 (initialGlobals (constantSource 0))))
         (snd (newCreature DEFAULT_CONFIG 0 0 (Some exampleOmnivore) 0
                 (initialGlobals (constantSource 0)))))))
   \<and> energy (fst (the (applyCalls DEFAULT_CONFIG
         [CallEat 10, CallTakeDamage 120, CallTakeDamage 3, CallUpdate 1 0]
         (fst (newCreature DEFAULT_CONFIG 0 0 (Some exampleOmnivore) 0
                 (initialGlobals (constantSource 0))))
         (snd (newCreature DEFAULT_CONFIG 0 0 (Some exampleOmnivore) 0
                 (initialGlobals (constantSource 0))))))) = 0
   \<and> isAlive agedCreature
   \<and> \<not> isAlive (fst (applyCall DEFAULT_CONFIG (CallUpdate 0.1 0) agedCreature
                         (initialGlobals (constantSource 0))))
   \<and> energy (fst (applyCall DEFAULT_CONFIG (CallUpdate 0.1 0) agedCreature
                     (initialGlobals (constantSource 0)))) = 0
   \<and> 0 < length (creatures (fst starvingAtEdge))
   \<and> isAlive (creatures (fst starvingAtEdge) ! 0)
   \<and> \<not> isAlive (creatures (fst (emigrationStep DEFAULT_CONFIG 1
                                   (fst starvingAtEdge, snd starvingAtEdge) 0)) ! 0)
   \<and> energy (creatures (fst (emigrationStep DEFAULT_CONFIG 1
                                (fst starvingAtEdge, snd starvingAtEdge) 0)) ! 0) = 0"
proof -
  let ?nc = "newCreature DEFAULT_CONFIG 0 0 (Some exampleOmnivore) 0
               (initialGlobals (constantSource 0))"
  let ?calls = "[CallEat 10, CallTakeDamage 120, CallTakeDamage 3, CallUpdate 1 0]"
  let ?r = "applyCalls DEFAULT_CONFIG ?calls (fst ?nc) (snd ?nc)"
  have run: "?r \<noteq> None" and dead: "\<not> isAlive (fst (the ?r))"
    by (simp_all add: callInSimulation_def eat_def takeDamage_def die_def update_def Let_def
        newCreature_fields maxEnergy_def exampleOmnivore_values DEFAULT_CONFIG_simps)
  then have some: "?r = Some (fst (the ?r), snd (the ?r))" by auto
  have aged: "\<not> isAlive (fst (applyCall DEFAULT_CONFIG (CallUpdate 0.1 0) agedCreature
                         (initialGlobals (constantSource 0))))"
    by (simp add: update_death_by_age agedCreature_fields die_result)
  have emig: "isAlive (creatures (fst starvingAtEdge) ! 0)"
    "\<not> isAlive (creatures (fst (emigrationStep DEFAULT_CONFIG 1
                                   (fst starvingAtEdge, snd starvingAtEdge) 0)) ! 0)"
    by (simp_all add: starving_step starvingAtEdge_fields starvingCreature_fields die_result)
  have len: "0 < length (creatures (fst starvingAtEdge))"
    by (simp add: starvingAtEdge_fields)
  note T = dead_creature_has_no_energy [where cfg = DEFAULT_CONFIG and calls = ?calls
      and x = 0 and y = 0 and topt = "Some exampleOmnivore" and gen = 0
      and ?g0.0 = "initialGlobals (constantSource 0)" and c = "fst (the ?r)"
      and g = "snd (the ?r)" and ?c0.0 = agedCreature and call = "CallUpdate 0.1 0"
      and ?g1.0 = "initialGlobals (constantSource 0)" and i = 0
      and w = "fst starvingAtEdge" and ?g2.0 = "snd starvingAtEdge" and dt = 1]
  from T some dead have e1: "energy (fst (the ?r)) = 0" by blast
  from T aged agedCreature_fields(1)
  have e2: "energy (fst (applyCall DEFAULT_CONFIG (CallUpdate 0.1 0) agedCreature
                     (initialGlobals (constantSource 0)))) = 0" by blast
  from T len emig
  have e3: "energy (creatures (fst (emigrationStep DEFAULT_CONFIG 1
                                (fst starvingAtEdge, snd starvingAtEdge) 0)) ! 0) = 0"
    by metis
  show ?thesis
    using run dead e1 agedCreature_fields(1) aged e2 len emig e3 by blast
qed


section \<open>Properties: species accounting\<close>

subsection \<open>Registry\<close>

lemma speciesGet_Some_mem: "speciesGet ss i = Some s \<Longrightarrow> s \<in> set ss \<and> sp_id s = i"
  unfolding speciesGet_def by (induction ss) (auto split: if_splits)

lemma speciesGet_None: "i \<notin> set (map sp_id ss) \<Longrightarrow> speciesGet ss i = None"
  unfolding speciesGet_def by (induction ss) auto

lemma speciesGet_mem:
  "distinct (map sp_id ss) \<Longrightarrow> s \<in> set ss \<Longrightarrow> speciesGet ss (sp_id s) = Some s"
  unfolding speciesGet_def by (induction ss) (auto simp: image_iff)

lemma speciesGet_in_ids: "i \<in> set (map sp_id ss) \<Longrightarrow> \<exists>s. speciesGet ss i = Some s"
  unfolding speciesGet_def by (induction ss) auto

lemma speciesSet_ids:
  "map sp_id (speciesSet ss s)
     = (if sp_id s \<in> set (map sp_id ss) then map sp_id ss else map sp_id ss @ [sp_id s])"
  by (auto simp: speciesSet_def)

lemma speciesGet_speciesSet:
  "speciesGet (speciesSet ss s) i = (if i = sp_id s then Some s else speciesGet ss i)"
proof -
  have a: "find (\<lambda>x. sp_id x = i) (map (\<lambda>s'. if sp_id s' = sp_id s then s else s') ss)
             = (if i = sp_id s then (if sp_id s \<in> set (map sp_id ss) then Some s else None)
                else find (\<lambda>x. sp_id x = i) ss)"
    by (induction ss) auto
  have b: "find (\<lambda>x. sp_id x = i) (ss @ [s])
             = (case find (\<lambda>x. sp_id x = i) ss of Some x \<Rightarrow> Some x
                | None \<Rightarrow> if i = sp_id s then Some s else None)"
    by (induction ss) auto
  show ?thesis
  proof (cases "sp_id s \<in> set (map sp_id ss)")
    case True
    then show ?thesis by (simp add: speciesSet_def speciesGet_def a)
  next
    case False
    then have "find (\<lambda>x. sp_id x = sp_id s) ss = None"
      using speciesGet_None [of "sp_id s" ss] by (simp add: speciesGet_def)
    then show ?thesis
      using False by (simp add: speciesSet_def speciesGet_def b split: option.splits)
  qed
qed

lemma popOf_species_update:
  "popOf (reg\<lparr> species := speciesSet (species reg) s \<rparr>) i
     = (if i = sp_id s then population s else popOf reg i)"
  by (simp add: popOf_def speciesGet_speciesSet)

lemma findMatchingLoop_mem:
  "findMatchingLoop t ss best = Some (s, d) \<Longrightarrow> best = Some (s, d) \<or> s \<in> set ss"
  by (induction t ss best rule: findMatchingLoop.induct) (auto simp: Let_def split: if_splits)

lemma findMatchingSpecies_mem:
  "findMatchingSpecies reg t = Some s \<Longrightarrow> s \<in> set (species reg)"
  using findMatchingLoop_mem [of t "species reg" None s]
  by (auto simp: findMatchingSpecies_def)

lemma createSpecies_shape:
  assumes "createSpecies t now reg = (s0, reg1)"
  shows "sp_id s0 = nextSpeciesId reg" and "population s0 = 0"
    and "reg1 = reg\<lparr> nextSpeciesId := Suc (nextSpeciesId reg),
                       species := speciesSet (species reg) s0 \<rparr>"
  using assms by (auto simp: createSpecies_def Let_def)

lemma assignSpecies_shape:
  obtains s0 reg1 s3 where
    "(case findMatchingSpecies reg t of Some s \<Rightarrow> (s, reg)
      | None \<Rightarrow> createSpecies t now reg) = (s0, reg1)"
    and "sp_id s3 = sp_id s0" and "population s3 = population s0 + 1"
    and "assignSpecies c t gen now reg
           = (s3, reg1\<lparr> species := speciesSet (species reg1) s3,
                         creatureSpecies := (creatureSpecies reg1)(c \<mapsto> sp_id s3) \<rparr>)"
proof -
  obtain s0 reg1 where a:
    "(case findMatchingSpecies reg t of Some s \<Rightarrow> (s, reg)
      | None \<Rightarrow> createSpecies t now reg) = (s0, reg1)"
    by (cases "case findMatchingSpecies reg t of Some s \<Rightarrow> (s, reg)
      | None \<Rightarrow> createSpecies t now reg") auto
  obtain s3 reg' where b: "assignSpecies c t gen now reg = (s3, reg')"
    by (cases "assignSpecies c t gen now reg") auto
  have "sp_id s3 = sp_id s0 \<and> population s3 = population s0 + 1
        \<and> reg' = reg1\<lparr> species := speciesSet (species reg1) s3,
                         creatureSpecies := (creatureSpecies reg1)(c \<mapsto> sp_id s3) \<rparr>"
    using b unfolding assignSpecies_def a Let_def split_def
    by (auto split: if_splits)
  with b have "sp_id s3 = sp_id s0" "population s3 = population s0 + 1"
    "assignSpecies c t gen now reg
           = (s3, reg1\<lparr> species := speciesSet (species reg1) s3,
                         creatureSpecies := (creatureSpecies reg1)(c \<mapsto> sp_id s3) \<rparr>)"
    by simp_all
  with a show thesis by (rule that)
qed

lemma assignSpecies_effect:
  assumes d: "distinct (speciesIds reg)"
    and lt: "list_all (\<lambda>i. i < nextSpeciesId reg) (speciesIds reg)"
    and r: "assignSpecies c t gen now reg = (sp, reg')"
  shows "speciesIds reg'
           = (if sp_id sp \<in> set (speciesIds reg) then speciesIds reg
              else speciesIds reg @ [sp_id sp])"
    and "popOf reg' i = (if i = sp_id sp then popOf reg i + 1 else popOf reg i)"
    and "creatureSpecies reg' = (creatureSpecies reg)(c \<mapsto> sp_id sp)"
    and "sp_id sp < nextSpeciesId reg'"
    and "nextSpeciesId reg \<le> nextSpeciesId reg'"
proof -
  obtain s0 reg1 s3 where a:
    "(case findMatchingSpecies reg t of Some s \<Rightarrow> (s, reg)
      | None \<Rightarrow> createSpecies t now reg) = (s0, reg1)"
    and i3: "sp_id s3 = sp_id s0" and p3: "population s3 = population s0 + 1"
    and e: "assignSpecies c t gen now reg
           = (s3, reg1\<lparr> species := speciesSet (species reg1) s3,
                         creatureSpecies := (creatureSpecies reg1)(c \<mapsto> sp_id s3) \<rparr>)"
    by (rule assignSpecies_shape)
  from e r have sp: "sp = s3"
    and reg': "reg' = reg1\<lparr> species := speciesSet (species reg1) s3,
                         creatureSpecies := (creatureSpecies reg1)(c \<mapsto> sp_id s3) \<rparr>"
    by simp_all
  have fresh: "nextSpeciesId reg \<notin> set (speciesIds reg)"
    using lt by (auto simp: list_all_iff)
  have all:
    "speciesIds reg1 = (if sp_id s0 \<in> set (speciesIds reg) then speciesIds reg
                         else speciesIds reg @ [sp_id s0])
     \<and> sp_id s0 \<in> set (speciesIds reg1)
     \<and> popOf reg1 (sp_id s0) = population s0
     \<and> population s0 = popOf reg (sp_id s0)
     \<and> (\<forall>j. j \<noteq> sp_id s0 \<longrightarrow> popOf reg1 j = popOf reg j)
     \<and> creatureSpecies reg1 = creatureSpecies reg
     \<and> sp_id s0 < nextSpeciesId reg1 \<and> nextSpeciesId reg \<le> nextSpeciesId reg1"
  proof (cases "findMatchingSpecies reg t")
    case None
    with a have c: "createSpecies t now reg = (s0, reg1)" by simp
    note sh = createSpecies_shape [OF c]
    have "popOf reg (nextSpeciesId reg) = 0"
      using fresh speciesGet_None [of "nextSpeciesId reg" "species reg"]
      by (simp add: popOf_def speciesIds_def)
    then show ?thesis
      using fresh sh(1,2)
      by (simp add: sh(3) speciesIds_def speciesSet_ids popOf_def speciesGet_speciesSet)
  next
    case (Some s)
    with a have eq: "s0 = s" "reg1 = reg" by simp_all
    have m: "s \<in> set (species reg)" by (rule findMatchingSpecies_mem [OF Some])
    have "speciesGet (species reg) (sp_id s) = Some s"
      using m d by (simp add: speciesGet_mem speciesIds_def)
    then show ?thesis
      using m lt by (auto simp: eq popOf_def speciesIds_def list_all_iff)
  qed
  show "speciesIds reg'
           = (if sp_id sp \<in> set (speciesIds reg) then speciesIds reg
              else speciesIds reg @ [sp_id sp])"
    using all by (simp add: sp reg' i3 speciesIds_def speciesSet_ids)
  show "popOf reg' i = (if i = sp_id sp then popOf reg i + 1 else popOf reg i)"
    using all by (simp add: sp reg' i3 p3 popOf_def speciesGet_speciesSet)
  show "creatureSpecies reg' = (creatureSpecies reg)(c \<mapsto> sp_id sp)"
    using all by (simp add: sp reg' i3)
  show "sp_id sp < nextSpeciesId reg'"
    using all by (simp add: sp reg' i3)
  show "nextSpeciesId reg \<le> nextSpeciesId reg'"
    using all by (simp add: sp reg' i3)
qed

lemma recordDeath_unmapped: "creatureSpecies reg c = None \<Longrightarrow> recordDeath c reg = reg"
  by (simp add: recordDeath_def)

lemma recordDeath_effect:
  assumes "creatureSpecies reg c = Some i"
  shows "speciesIds (recordDeath c reg) = speciesIds reg"
    and "popOf (recordDeath c reg) j
           = (if j = i \<and> i \<in> set (speciesIds reg) then popOf reg j - 1 else popOf reg j)"
    and "creatureSpecies (recordDeath c reg) = (creatureSpecies reg)(c := None)"
    and "nextSpeciesId (recordDeath c reg) = nextSpeciesId reg"
proof -
  show "speciesIds (recordDeath c reg) = speciesIds reg"
    using assms
    by (auto simp: recordDeath_def speciesIds_def speciesSet_ids
        dest!: speciesGet_Some_mem split: option.splits)
  show "popOf (recordDeath c reg) j
           = (if j = i \<and> i \<in> set (speciesIds reg) then popOf reg j - 1 else popOf reg j)"
  proof (cases "speciesGet (species reg) i")
    case None
    then have "i \<notin> set (speciesIds reg)"
      using speciesGet_in_ids [of i "species reg"] by (auto simp: speciesIds_def)
    then show ?thesis using assms None by (simp add: recordDeath_def popOf_def)
  next
    case (Some s)
    then have "i \<in> set (speciesIds reg)" "sp_id s = i"
      using speciesGet_Some_mem [OF Some] by (auto simp: speciesIds_def)
    then show ?thesis
      using assms Some by (simp add: recordDeath_def popOf_def speciesGet_speciesSet)
  qed
  show "creatureSpecies (recordDeath c reg) = (creatureSpecies reg)(c := None)"
    using assms by (simp add: recordDeath_def)
  show "nextSpeciesId (recordDeath c reg) = nextSpeciesId reg"
    using assms by (simp add: recordDeath_def)
qed

subsection \<open>Counting the members of a species\<close>

lemma filter_update_count:
  "k < length xs \<Longrightarrow>
     int (length (filter P (xs[k := y])))
       = int (length (filter P xs)) - (if P (xs ! k) then 1 else 0) + (if P y then 1 else 0)"
proof (induction xs arbitrary: k)
  case Nil
  then show ?case by simp
next
  case (Cons a xs)
  show ?case
  proof (cases k)
    case 0
    then show ?thesis by simp
  next
    case (Suc n)
    then show ?thesis using Cons.IH [of n] Cons.prems by (auto split: if_splits)
  qed
qed

lemma membersOf_append:
  "membersOf (cs @ [c]) i
     = membersOf cs i + (if isAlive c \<and> speciesId c = Some i then 1 else 0)"
  by (simp add: membersOf_def)

lemma membersOf_update:
  "k < length cs \<Longrightarrow>
     int (membersOf (cs[k := c']) i)
       = int (membersOf cs i)
           - (if isAlive (cs ! k) \<and> speciesId (cs ! k) = Some i then 1 else 0)
           + (if isAlive c' \<and> speciesId c' = Some i then 1 else 0)"
  unfolding membersOf_def by (rule filter_update_count)

lemma membersOf_filter_alive: "membersOf (filter isAlive cs) i = membersOf cs i"
  by (simp add: membersOf_def conj_commute cong: conj_cong)

subsection \<open>The invariant\<close>

lemma accInv_iff:
  "accInv cs reg n \<longleftrightarrow>
     distinct (map cid cs) \<and> (\<forall>c \<in> set cs. cid c < n)
     \<and> distinct (speciesIds reg) \<and> (\<forall>i \<in> set (speciesIds reg). i < nextSpeciesId reg)
     \<and> (\<forall>c \<in> set cs.
           (isAlive c \<longrightarrow> speciesId c = creatureSpecies reg (cid c)
                          \<and> (\<exists>i \<in> set (speciesIds reg). speciesId c = Some i))
           \<and> (\<not> isAlive c \<longrightarrow> creatureSpecies reg (cid c) = None))
     \<and> (\<forall>i \<in> set (speciesIds reg). popOf reg i = int (membersOf cs i))"
  by (auto simp: accInv_def list_all_iff list_ex_iff)

lemma accInvI:
  assumes "distinct (map cid cs)" and "\<And>c. c \<in> set cs \<Longrightarrow> cid c < n"
    and "distinct (speciesIds reg)"
    and "\<And>i. i \<in> set (speciesIds reg) \<Longrightarrow> i < nextSpeciesId reg"
    and "\<And>c. c \<in> set cs \<Longrightarrow> isAlive c \<Longrightarrow> speciesId c = creatureSpecies reg (cid c)"
    and "\<And>c. c \<in> set cs \<Longrightarrow> isAlive c \<Longrightarrow> \<exists>i \<in> set (speciesIds reg). speciesId c = Some i"
    and "\<And>c. c \<in> set cs \<Longrightarrow> \<not> isAlive c \<Longrightarrow> creatureSpecies reg (cid c) = None"
    and "\<And>i. i \<in> set (speciesIds reg) \<Longrightarrow> popOf reg i = int (membersOf cs i)"
  shows "accInv cs reg n"
  unfolding accInv_iff using assms by blast

lemma accInvD:
  assumes "accInv cs reg n"
  shows "distinct (map cid cs)" and "\<And>c. c \<in> set cs \<Longrightarrow> cid c < n"
    and "distinct (speciesIds reg)"
    and "\<And>i. i \<in> set (speciesIds reg) \<Longrightarrow> i < nextSpeciesId reg"
    and "\<And>c. c \<in> set cs \<Longrightarrow> isAlive c \<Longrightarrow> speciesId c = creatureSpecies reg (cid c)"
    and "\<And>c. c \<in> set cs \<Longrightarrow> isAlive c \<Longrightarrow> \<exists>i \<in> set (speciesIds reg). speciesId c = Some i"
    and "\<And>c. c \<in> set cs \<Longrightarrow> \<not> isAlive c \<Longrightarrow> creatureSpecies reg (cid c) = None"
    and "\<And>i. i \<in> set (speciesIds reg) \<Longrightarrow> popOf reg i = int (membersOf cs i)"
  using assms unfolding accInv_iff by blast+

lemma accInv_empty: "accInv [] (registryReset reg) n"
  by (simp add: accInv_iff registryReset_def speciesIds_def)

lemma accInv_new: "accInv [] newSpeciesRegistry n"
  by (simp add: accInv_iff newSpeciesRegistry_def speciesIds_def)

lemma accInv_mono:
  assumes "accInv cs reg n" and "n \<le> n'"
  shows "accInv cs reg n'"
proof (rule accInvI)
  note D = accInvD [OF assms(1)]
  show "cid c < n'" if "c \<in> set cs" for c using D(2) [OF that] assms(2) by simp
qed (use accInvD [OF assms(1)] in blast)+

lemma accInv_filter:
  assumes "accInv cs reg n"
  shows "accInv (filter isAlive cs) reg n"
proof (rule accInvI)
  note D = accInvD [OF assms]
  show "distinct (map cid (filter isAlive cs))" using D(1) by (rule distinct_map_filter)
  show "popOf reg i = int (membersOf (filter isAlive cs) i)" if "i \<in> set (speciesIds reg)" for i
    using D(8) [OF that] by (simp add: membersOf_filter_alive)
qed (use accInvD [OF assms] in auto)

lemma in_set_update:
  assumes "c \<in> set (cs[k := c'])"
  shows "c = c' \<or> (\<exists>j < length cs. j \<noteq> k \<and> c = cs ! j)"
proof -
  from assms obtain j where j: "j < length cs" "c = cs[k := c'] ! j"
    by (auto simp: in_set_conv_nth)
  show ?thesis
  proof (cases "j = k")
    case True
    then show ?thesis using j by simp
  next
    case False
    then show ?thesis using j by auto
  qed
qed

lemma distinct_cid_nth:
  "distinct (map cid cs) \<Longrightarrow> j < length cs \<Longrightarrow> k < length cs \<Longrightarrow> j \<noteq> k \<Longrightarrow>
     cid (cs ! j) \<noteq> cid (cs ! k)"
  using nth_eq_iff_index_eq [of "map cid cs" j k] by simp

lemma map_cid_update:
  "k < length cs \<Longrightarrow> cid c' = cid (cs ! k) \<Longrightarrow> map cid (cs[k := c']) = map cid cs"
  by (simp add: map_update list_update_same_conv)

lemma accInv_frame:
  assumes inv: "accInv cs reg n" and k: "k < length cs"
    and key: "cid c' = cid (cs ! k)" "isAlive c' = isAlive (cs ! k)"
      "speciesId c' = speciesId (cs ! k)"
  shows "accInv (cs[k := c']) reg n"
proof (rule accInvI)
  note D = accInvD [OF inv]
  have mem: "cs ! k \<in> set cs" using k by simp
  have sub: "c = c' \<or> c \<in> set cs" if "c \<in> set (cs[k := c'])" for c
    using in_set_update [OF that] by auto
  show "distinct (map cid (cs[k := c']))"
    using D(1) by (simp add: map_cid_update [OF k key(1)])
  show "cid c < n" if "c \<in> set (cs[k := c'])" for c
    using sub [OF that] D(2) mem key(1) by auto
  show "distinct (speciesIds reg)" by (rule D(3))
  show "i < nextSpeciesId reg" if "i \<in> set (speciesIds reg)" for i
    using that by (rule D(4))
  show "speciesId c = creatureSpecies reg (cid c)"
    if "c \<in> set (cs[k := c'])" "isAlive c" for c
    using sub [OF that(1)] that(2) D(5) [OF mem] D(5) [of c] key by auto
  show "\<exists>i \<in> set (speciesIds reg). speciesId c = Some i"
    if "c \<in> set (cs[k := c'])" "isAlive c" for c
    using sub [OF that(1)] that(2) D(6) [OF mem] D(6) [of c] key by auto
  show "creatureSpecies reg (cid c) = None"
    if "c \<in> set (cs[k := c'])" "\<not> isAlive c" for c
    using sub [OF that(1)] that(2) D(7) [OF mem] D(7) [of c] key by auto
  show "popOf reg i = int (membersOf (cs[k := c']) i)" if "i \<in> set (speciesIds reg)" for i
    using D(8) [OF that] membersOf_update [OF k, of c' i] key by simp
qed

lemma accInv_die:
  assumes inv: "accInv cs reg n" and k: "k < length cs"
    and key: "cid c' = cid (cs ! k)" "speciesId c' = speciesId (cs ! k)" and dead: "\<not> isAlive c'"
  shows "accInv (cs[k := c']) (recordDeath (cid (cs ! k)) reg) n"
proof (cases "isAlive (cs ! k)")
  case False
  note D = accInvD [OF inv]
  have mem: "cs ! k \<in> set cs" using k by simp
  have "creatureSpecies reg (cid (cs ! k)) = None"
    using D(7) [OF mem False] .
  then have "recordDeath (cid (cs ! k)) reg = reg" by (rule recordDeath_unmapped)
  then show ?thesis using accInv_frame [OF inv k key(1) _ key(2)] dead False by simp
next
  case True
  note D = accInvD [OF inv]
  have mem: "cs ! k \<in> set cs" using k by simp
  from D(5) [OF mem True] D(6) [OF mem True] obtain i where
    i: "speciesId (cs ! k) = Some i" "creatureSpecies reg (cid (cs ! k)) = Some i"
      "i \<in> set (speciesIds reg)"
    by auto
  note rd = recordDeath_effect [OF i(2)]
  have other: "c \<in> set cs \<and> cid c \<noteq> cid (cs ! k)"
    if "c \<in> set (cs[k := c'])" "c \<noteq> c'" for c
  proof -
    from in_set_update [OF that(1)] that(2)
    obtain j where j: "j < length cs" "j \<noteq> k" "c = cs ! j" by blast
    show ?thesis using distinct_cid_nth [OF D(1) j(1) k j(2)] j by simp
  qed
  show ?thesis
  proof (rule accInvI)
    show "distinct (map cid (cs[k := c']))"
      using D(1) by (simp add: map_cid_update [OF k key(1)])
    show "cid c < n" if "c \<in> set (cs[k := c'])" for c
      using other [OF that] D(2) [OF mem] D(2) [of c] key(1) by (cases "c = c'") auto
    show "distinct (speciesIds (recordDeath (cid (cs ! k)) reg))"
      using D(3) by (simp add: rd(1))
    show "j < nextSpeciesId (recordDeath (cid (cs ! k)) reg)"
      if "j \<in> set (speciesIds (recordDeath (cid (cs ! k)) reg))" for j
      using that D(4) [of j] by (simp add: rd(1) rd(4))
    show "speciesId c = creatureSpecies (recordDeath (cid (cs ! k)) reg) (cid c)"
      if "c \<in> set (cs[k := c'])" "isAlive c" for c
      using other [OF that(1)] that(2) dead D(5) [of c] by (cases "c = c'") (auto simp: rd(3))
    show "\<exists>i \<in> set (speciesIds (recordDeath (cid (cs ! k)) reg)). speciesId c = Some i"
      if "c \<in> set (cs[k := c'])" "isAlive c" for c
      using other [OF that(1)] that(2) dead D(6) [of c] by (cases "c = c'") (auto simp: rd(1))
    show "creatureSpecies (recordDeath (cid (cs ! k)) reg) (cid c) = None"
      if "c \<in> set (cs[k := c'])" "\<not> isAlive c" for c
      using other [OF that(1)] that(2) key(1) D(7) [of c] by (cases "c = c'") (auto simp: rd(3))
    show "popOf (recordDeath (cid (cs ! k)) reg) j = int (membersOf (cs[k := c']) j)"
      if "j \<in> set (speciesIds (recordDeath (cid (cs ! k)) reg))" for j
    proof -
      have "popOf reg j = int (membersOf cs j)" using that D(8) [of j] by (simp add: rd(1))
      then show ?thesis
        using membersOf_update [OF k, of c' j] True dead i by (auto simp: rd(2))
    qed
  qed
qed

lemma accInv_add_any:
  assumes inv: "accInv cs reg n" and alive: "isAlive c"
    and fresh: "cid c \<notin> set (map cid cs)" and le: "n \<le> n'" and n': "cid c < n'"
    and r: "assignSpecies (cid c) t gen now reg = (sp, reg')"
  shows "accInv (cs @ [c\<lparr> speciesId := Some (sp_id sp) \<rparr>]) reg' n'"
proof -
  note D = accInvD [OF inv]
  have lt: "list_all (\<lambda>i. i < nextSpeciesId reg) (speciesIds reg)"
    using D(4) by (simp add: list_all_iff)
  note e = assignSpecies_effect [OF D(3) lt r]
  have new: "cid x \<noteq> cid c" if "x \<in> set cs" for x
  proof
    assume e: "cid x = cid c"
    have "cid x \<in> set (map cid cs)" using that by simp
    with fresh e show False by simp
  qed
  have ids: "set (speciesIds reg') = insert (sp_id sp) (set (speciesIds reg))"
    by (auto simp: e(1))
  have zero: "popOf reg i = int (membersOf cs i)" if "i \<in> set (speciesIds reg')" for i
  proof (cases "i \<in> set (speciesIds reg)")
    case True
    then show ?thesis by (rule D(8))
  next
    case False
    have "popOf reg i = 0"
      using False speciesGet_None [of i "species reg"] by (simp add: popOf_def speciesIds_def)
    moreover have "\<not> (isAlive x \<and> speciesId x = Some i)" if "x \<in> set cs" for x
      using D(6) [OF that] False by auto
    then have "filter (\<lambda>c. isAlive c \<and> speciesId c = Some i) cs = []"
      unfolding filter_empty_conv by blast
    ultimately show ?thesis by (simp add: membersOf_def)
  qed
  have split: "x \<in> set cs \<or> x = c\<lparr> speciesId := Some (sp_id sp) \<rparr>"
    if "x \<in> set (cs @ [c\<lparr> speciesId := Some (sp_id sp) \<rparr>])" for x
    using that by auto
  show ?thesis
  proof (rule accInvI)
    have "cid c \<notin> cid ` set cs"
    proof
      assume "cid c \<in> cid ` set cs"
      then obtain x where "x \<in> set cs" "cid c = cid x" by auto
      then show False using new [of x] by simp
    qed
    then show "distinct (map cid (cs @ [c\<lparr> speciesId := Some (sp_id sp) \<rparr>]))"
      using D(1) by simp
    show "cid x < n'" if "x \<in> set (cs @ [c\<lparr> speciesId := Some (sp_id sp) \<rparr>])" for x
      using split [OF that] D(2) [of x] le n' by auto
    show "distinct (speciesIds reg')" using D(3) by (simp add: e(1))
    show "i < nextSpeciesId reg'" if "i \<in> set (speciesIds reg')" for i
      using that D(4) [of i] e(4) e(5) unfolding ids by auto
    show "speciesId x = creatureSpecies reg' (cid x)"
      if "x \<in> set (cs @ [c\<lparr> speciesId := Some (sp_id sp) \<rparr>])" "isAlive x" for x
      using split [OF that(1)] that(2) D(5) [of x] new [of x] by (auto simp: e(3))
    show "\<exists>i \<in> set (speciesIds reg'). speciesId x = Some i"
      if "x \<in> set (cs @ [c\<lparr> speciesId := Some (sp_id sp) \<rparr>])" "isAlive x" for x
      using split [OF that(1)] that(2) D(6) [of x] unfolding ids by auto
    show "creatureSpecies reg' (cid x) = None"
      if "x \<in> set (cs @ [c\<lparr> speciesId := Some (sp_id sp) \<rparr>])" "\<not> isAlive x" for x
      using split [OF that(1)] that(2) D(7) [of x] new [of x] alive by (auto simp: e(3))
    show "popOf reg' i = int (membersOf (cs @ [c\<lparr> speciesId := Some (sp_id sp) \<rparr>]) i)"
      if "i \<in> set (speciesIds reg')" for i
      using zero [OF that] alive by (auto simp: e(2) membersOf_append)
  qed
qed

lemma accInv_add:
  assumes inv: "accInv cs reg n" and alive: "isAlive c" and fresh: "n \<le> cid c"
    and n': "cid c < n'"
    and r: "assignSpecies (cid c) t gen now reg = (sp, reg')"
  shows "accInv (cs @ [c\<lparr> speciesId := Some (sp_id sp) \<rparr>]) reg' n'"
proof (rule accInv_add_any [OF inv alive _ _ n' r])
  show "cid c \<notin> set (map cid cs)"
  proof
    assume "cid c \<in> set (map cid cs)"
    then obtain x where "x \<in> set cs" "cid c = cid x" by auto
    then show False using accInvD(2) [OF inv, of x] fresh by simp
  qed
  show "n \<le> n'" using fresh n' by simp
qed

subsection \<open>From the invariant to the accounting\<close>

lemma sum_list_positive_part:
  fixes f :: "'a \<Rightarrow> int"
  shows "(\<forall>x \<in> set xs. 0 \<le> f x) \<Longrightarrow>
     sum_list (map f (filter (\<lambda>x. f x > 0) xs)) = sum_list (map f xs)"
  by (induction xs) (auto simp: order.order_iff_strict)

lemma count_by_species:
  "distinct ids \<Longrightarrow>
     (\<Sum>i\<leftarrow>ids. int (length (filter (\<lambda>c. P c \<and> f c = Some i) cs)))
       = int (length (filter (\<lambda>c. P c \<and> (\<exists>i \<in> set ids. f c = Some i)) cs))"
proof (induction ids)
  case Nil
  then show ?case by simp
next
  case (Cons a ids)
  have "length (filter (\<lambda>c. P c \<and> (\<exists>i \<in> set (a # ids). f c = Some i)) cs)
          = length (filter (\<lambda>c. P c \<and> f c = Some a) cs)
            + length (filter (\<lambda>c. P c \<and> (\<exists>i \<in> set ids. f c = Some i)) cs)"
    using Cons.prems by (induction cs) auto
  then show ?case using Cons by simp
qed

lemma accInv_accounting:
  assumes "accInv cs reg n"
  shows "activePopulation reg
           = int (length (filter (\<lambda>c. isAlive c \<and> speciesId c \<noteq> None) cs))"
proof -
  have d: "distinct (map sp_id (species reg))"
    using assms by (simp add: accInv_iff speciesIds_def)
  have pop: "population s = int (membersOf cs (sp_id s))" if "s \<in> set (species reg)" for s
  proof -
    have "popOf reg (sp_id s) = population s"
      using speciesGet_mem [OF d that] by (simp add: popOf_def)
    moreover have "sp_id s \<in> set (speciesIds reg)" using that by (simp add: speciesIds_def)
    ultimately show ?thesis using assms unfolding accInv_iff by metis
  qed
  have "activePopulation reg = sum_list (map population (species reg))"
    unfolding activePopulation_def getActiveSpecies_def
    by (rule sum_list_positive_part) (simp add: pop)
  also have "\<dots> = (\<Sum>i\<leftarrow>speciesIds reg. int (membersOf cs i))"
    unfolding speciesIds_def map_map comp_def
    by (rule arg_cong [where f = sum_list], rule map_cong) (simp_all add: pop)
  also have "\<dots> = int (length (filter (\<lambda>c. isAlive c
                      \<and> (\<exists>i \<in> set (speciesIds reg). speciesId c = Some i)) cs))"
    unfolding membersOf_def using assms by (intro count_by_species) (simp add: accInv_iff)
  also have "filter (\<lambda>c. isAlive c \<and> (\<exists>i \<in> set (speciesIds reg). speciesId c = Some i)) cs
               = filter (\<lambda>c. isAlive c \<and> speciesId c \<noteq> None) cs"
    using assms unfolding accInv_iff by (intro filter_cong) auto
  finally show ?thesis .
qed

subsection \<open>What the calls do to the registry and to the ids\<close>

lemma sameRegistry_refl: "sameRegistry g g"
  by (simp add: sameRegistry_def)

lemma sameRegistry_trans: "sameRegistry g g1 \<Longrightarrow> sameRegistry g1 g2 \<Longrightarrow> sameRegistry g g2"
  by (simp add: sameRegistry_def)

lemma sameRegistry_randoms: "sameRegistry g (g\<lparr> randoms := r \<rparr>)"
  by (simp add: sameRegistry_def)

lemma draw_same: "sameRegistry g (snd (draw g))"
  by (simp add: draw_def Let_def split_def sameRegistry_def)

lemma newCreature_key:
  "cid (fst (newCreature cfg x y topt gen g)) = nextCreatureId g"
  "speciesRegistry (snd (newCreature cfg x y topt gen g)) = speciesRegistry g"
  "nextCreatureId (snd (newCreature cfg x y topt gen g)) = Suc (nextCreatureId g)"
  by (simp_all add: newCreature_def Let_def split_def draw_def split: option.splits)

lemma newCreature_same: "sameRegistry g (snd (newCreature cfg x y topt gen g))"
  by (simp add: sameRegistry_def newCreature_key)

lemma makeChildren_same:
  "sameRegistry g (snd (makeChildren cfg c p now rate stress mx my gen n is g))"
proof (induction "is" arbitrary: g)
  case Nil
  then show ?case by (simp add: sameRegistry_refl)
next
  case (Cons i rest)
  show ?case
    unfolding makeChildren.simps Let_def split_def snd_conv
    by (rule sameRegistry_trans [OF _ Cons.IH],
        rule sameRegistry_trans [OF _ newCreature_same],
        rule sameRegistry_trans [OF _ draw_same],
        rule sameRegistry_randoms)
qed

lemma movement_key:
  "cid (seekTarget tgt dt c) = cid c" "speciesId (seekTarget tgt dt c) = speciesId c"
  "cid (huntTarget tgt dt c) = cid c" "speciesId (huntTarget tgt dt c) = speciesId c"
  "cid (fleeFrom tgt dt c) = cid c" "speciesId (fleeFrom tgt dt c) = speciesId c"
  "cid (fst (wander dt c g)) = cid c" "speciesId (fst (wander dt c g)) = speciesId c"
  "cid (eat cfg a c) = cid c" "speciesId (eat cfg a c) = speciesId c"
  "isAlive (eat cfg a c) = isAlive c"
  by (simp_all add: seekTarget_def huntTarget_def fleeFrom_def wander_def eat_def Let_def
      split_def)

lemma wander_same: "sameRegistry g (snd (wander dt c g))"
  by (simp add: wander_def Let_def split_def draw_def sameRegistry_def)

lemma reproduceAsexual_key:
  "cid (fst (reproduceAsexual cfg t rate c g)) = cid c"
  "speciesId (fst (reproduceAsexual cfg t rate c g)) = speciesId c"
  by (simp_all add: reproduceAsexual_def Let_def split_def)

lemma reproduceAsexual_same:
  "sameRegistry g (snd (snd (reproduceAsexual cfg t rate c g)))"
proof (cases "canReproduce cfg t c")
  case False
  then show ?thesis by (simp add: reproduceAsexual_def sameRegistry_refl)
next
  case True
  show ?thesis
    unfolding reproduceAsexual_def Let_def split_def snd_conv using True
    by (simp only: not_True_eq_False if_False snd_conv)
       (rule sameRegistry_trans [OF _ newCreature_same],
        rule sameRegistry_trans [OF _ draw_same],
        rule sameRegistry_randoms)
qed

lemma reproduceSexual_key:
  "cid (fst (reproduceSexual cfg t rate c p g)) = cid c"
  "speciesId (fst (reproduceSexual cfg t rate c p g)) = speciesId c"
  "cid (fst (snd (reproduceSexual cfg t rate c p g))) = cid p"
  "speciesId (fst (snd (reproduceSexual cfg t rate c p g))) = speciesId p"
  by (simp_all add: reproduceSexual_def Let_def split_def)

lemma reproduceSexual_same:
  "sameRegistry g (snd (snd (snd (reproduceSexual cfg t rate c p g))))"
proof (cases "\<not> canReproduce cfg t c \<or> \<not> canReproduce cfg t p")
  case True
  then show ?thesis by (simp add: reproduceSexual_def sameRegistry_refl)
next
  case False
  show ?thesis
    unfolding reproduceSexual_def Let_def split_def using False
    by (simp only: if_False snd_conv)
       (rule sameRegistry_trans [OF _ makeChildren_same], rule draw_same)
qed

lemma die_key:
  "cid (fst (die c g)) = cid c" "speciesId (fst (die c g)) = speciesId c"
  "\<not> isAlive (fst (die c g))"
  "speciesRegistry (snd (die c g)) = recordDeath (cid c) (speciesRegistry g)"
  "nextCreatureId (snd (die c g)) = nextCreatureId g"
  by (simp_all add: die_def)

text \<open>
  A call on a creature keeps its id and its species id; the next creature id does not
  decrease; and either the creature is as alive as before and the registry is unchanged,
  or the creature is dead and the registry has recorded the death of its id.
\<close>

lemma applyCall_effect:
  "cid (fst (applyCall cfg call c g)) = cid c
   \<and> speciesId (fst (applyCall cfg call c g)) = speciesId c
   \<and> nextCreatureId g \<le> nextCreatureId (snd (applyCall cfg call c g))
   \<and> (isAlive (fst (applyCall cfg call c g)) = isAlive c
        \<and> speciesRegistry (snd (applyCall cfg call c g)) = speciesRegistry g
      \<or> \<not> isAlive (fst (applyCall cfg call c g))
        \<and> speciesRegistry (snd (applyCall cfg call c g))
            = recordDeath (cid c) (speciesRegistry g))"
proof (cases call)
  case (CallUpdate dt t)
  then show ?thesis
    using update_cases [where cfg = cfg and dt = dt and t = t and c = c and g = g]
    by (auto simp: die_key updatePosition_frame updateEnergy_frame)
next
  case (CallSeekTarget tgt dt)
  then show ?thesis by (simp add: movement_key movement_frame)
next
  case (CallHuntTarget tgt dt)
  then show ?thesis by (simp add: movement_key movement_frame)
next
  case (CallWander dt)
  then show ?thesis
    using wander_same [of g dt c] by (simp add: movement_key movement_frame sameRegistry_def)
next
  case (CallFleeFrom tgt dt)
  then show ?thesis by (simp add: movement_key movement_frame)
next
  case (CallEat a)
  then show ?thesis by (simp add: movement_key)
next
  case (CallTakeDamage a)
  then show ?thesis
    using takeDamage_cases [where a = a and c = c and g = g]
    by (auto simp: die_key)
next
  case (CallReproduceAsexual t rate)
  then show ?thesis
    using reproduceAsexual_same [of g cfg t rate c]
    by (simp add: Let_def split_def reproduceAsexual_key reproduceAsexual_frame sameRegistry_def)
next
  case (CallReproduceSexual t rate p)
  then show ?thesis
    using reproduceSexual_same [of g cfg t rate c p]
    by (simp add: Let_def split_def reproduceSexual_key reproduceSexual_frame sameRegistry_def)
next
  case (CalledAsPartner t rate other)
  then show ?thesis
    using reproduceSexual_same [of g cfg t rate other c]
    by (simp add: Let_def split_def reproduceSexual_key reproduceSexual_frame sameRegistry_def)
next
  case CallDie
  then show ?thesis by (simp add: die_key)
qed

subsection \<open>The operations keep the invariant\<close>

lemma accInv_same:
  "accInv cs (speciesRegistry g) (nextCreatureId g) \<Longrightarrow> sameRegistry g g' \<Longrightarrow>
     accInv cs (speciesRegistry g') (nextCreatureId g')"
  using accInv_mono [of cs "speciesRegistry g" "nextCreatureId g" "nextCreatureId g'"]
  by (simp add: sameRegistry_def)

text \<open>
  A creature that the constructor has just made, with the species that \<open>assignSpecies\<close>
  gives to its id, at the end of the list.
\<close>

lemma add_new_inv:
  assumes inv: "accInv cs (speciesRegistry g) (nextCreatureId g)" and same: "sameRegistry g g5"
    and c: "c = fst (newCreature cfg x y topt gen g5)"
    and g6: "g6 = snd (newCreature cfg x y topt gen g5)"
    and r: "r = assignSpecies (cid c) t gn now (speciesRegistry g6)"
  shows "accInv (cs @ [c\<lparr> speciesId := Some (sp_id (fst r)) \<rparr>]) (snd r) (nextCreatureId g6)"
proof (rule accInv_add)
  show "accInv cs (speciesRegistry g6) (nextCreatureId g5)"
    using accInv_same [OF inv same] by (simp add: g6 newCreature_key)
  show "isAlive c" by (simp add: c newCreature_alive)
  show "nextCreatureId g5 \<le> cid c" by (simp add: c newCreature_key)
  show "cid c < nextCreatureId g6" by (simp add: c g6 newCreature_key)
  show "assignSpecies (cid c) t gn now (speciesRegistry g6) = (fst r, snd r)"
    by (simp add: r)
qed

lemma jitterEach_same: "sameRegistry g (snd (jitterEach vs g))"
proof (induction vs arbitrary: g)
  case Nil
  then show ?case by (simp add: sameRegistry_refl)
next
  case (Cons v vs)
  show ?case
    unfolding jitterEach.simps Let_def split_def snd_conv
    by (rule sameRegistry_trans [OF draw_same Cons.IH])
qed

lemma spawnFounder_inv:
  assumes "accountingInv wg"
  shows "accountingInv (spawnFounder cfg wg)"
proof -
  obtain w g where wg: "wg = (w, g)" by (cases wg)
  define g2 where "g2 = snd (draw (snd (draw g)))"
  define g3 where "g3 = g2\<lparr> randoms := snd (generateHerbivoreTraits (randoms g2)) \<rparr>"
  define g4 where
    "g4 = snd (jitterEach (traitValues (fst (generateHerbivoreTraits (randoms g2)))) g3)"
  define g5 where "g5 = snd (draw g4)"
  have same: "sameRegistry g g5"
    unfolding g5_def g4_def g3_def g2_def
    by (intro sameRegistry_trans [OF _ draw_same] sameRegistry_trans [OF _ jitterEach_same]
        sameRegistry_trans [OF _ sameRegistry_randoms] draw_same)
  have inv: "accInv (creatures w) (speciesRegistry g) (nextCreatureId g)"
    using assms by (simp add: wg accountingInv_def)
  show ?thesis
    unfolding wg spawnFounder_def accountingInv_def Let_def split_def
    by (simp add: g2_def [symmetric] g3_def [symmetric] g4_def [symmetric] g5_def [symmetric])
       (rule add_new_inv [OF inv same refl refl refl])
qed

lemma spawnFounders_inv: "accountingInv wg \<Longrightarrow> accountingInv ((spawnFounder cfg ^^ n) wg)"
  by (induction n) (simp_all add: spawnFounder_inv)

lemma newFood_same: "sameRegistry g (snd (newFood x y fs g))"
  by (simp add: newFood_def getRandomFoodSize_def draw_def Let_def split_def sameRegistry_def
      split: option.splits)

lemma spawnRandomFood_same: "sameRegistry g (snd (spawnRandomFood cfg g))"
  unfolding spawnRandomFood_def Let_def split_def
  by (intro sameRegistry_trans [OF _ newFood_same] sameRegistry_trans [OF _ draw_same] draw_same)

lemma spawnInitialFood_inv:
  assumes "accountingInv wg"
  shows "accountingInv (spawnInitialFood cfg wg)"
proof -
  obtain w g where wg: "wg = (w, g)" by (cases wg)
  show ?thesis
    using assms accInv_same [OF _ spawnRandomFood_same, of "creatures w" g cfg]
    by (simp add: wg spawnInitialFood_def accountingInv_def Let_def split_def)
qed

lemma spawnInitialFoods_inv:
  "accountingInv wg \<Longrightarrow> accountingInv ((spawnInitialFood cfg ^^ n) wg)"
  by (induction n) (simp_all add: spawnInitialFood_inv)

lemma initialize_inv: "accountingInv (initialize cfg countOpt w g)"
  unfolding initialize_def Let_def
  by (intro spawnInitialFoods_inv spawnFounders_inv) (simp add: accountingInv_def accInv_empty)

lemma addNew_inv:
  assumes "accountingInv (w, g)"
  shows "accountingInv (applyWorldOp cfg (OpAddNew x y topt gen) (w, g))"
proof -
  have inv: "accInv (creatures w) (speciesRegistry g) (nextCreatureId g)"
    using assms by (simp add: accountingInv_def)
  show ?thesis
  proof (cases "length (creatures w) < MAX_CREATURES cfg")
    case True
    then show ?thesis
      by (simp add: addCreature_def accountingInv_def Let_def split_def)
         (rule add_new_inv [OF inv sameRegistry_refl refl refl refl])
  next
    case False
    then show ?thesis
      using accInv_same [OF inv newCreature_same]
      by (simp add: addCreature_def accountingInv_def Let_def split_def)
  qed
qed

lemma call_inv:
  assumes "accountingInv (w, g)"
  shows "accountingInv (applyWorldOp cfg (OpCall i call) (w, g))"
proof (cases "i < length (creatures w)")
  case False
  then show ?thesis using assms by simp
next
  case True
  define c' where "c' = fst (applyCall cfg call (creatures w ! i) g)"
  define g' where "g' = snd (applyCall cfg call (creatures w ! i) g)"
  have inv: "accInv (creatures w) (speciesRegistry g) (nextCreatureId g)"
    using assms by (simp add: accountingInv_def)
  note e = applyCall_effect [of cfg call "creatures w ! i" g, folded c'_def g'_def]
  have "accInv ((creatures w)[i := c']) (speciesRegistry g') (nextCreatureId g)"
  proof (cases "isAlive c' = isAlive (creatures w ! i)
                  \<and> speciesRegistry g' = speciesRegistry g")
    case True
    then show ?thesis using accInv_frame [OF inv \<open>i < length (creatures w)\<close>, of c'] e by simp
  next
    case False
    with e have "\<not> isAlive c'"
      "speciesRegistry g' = recordDeath (cid (creatures w ! i)) (speciesRegistry g)"
      by auto
    then show ?thesis using accInv_die [OF inv \<open>i < length (creatures w)\<close>, of c'] e by simp
  qed
  then have "accInv ((creatures w)[i := c']) (speciesRegistry g') (nextCreatureId g')"
    using e by (auto intro: accInv_mono)
  then show ?thesis
    using True by (simp add: accountingInv_def Let_def split_def c'_def g'_def)
qed

lemma emigrationStep_inv:
  assumes "accountingInv (w, g)" and "i < length (creatures w)"
  shows "accountingInv (emigrationStep cfg dt (w, g) i)
         \<and> length (creatures (fst (emigrationStep cfg dt (w, g) i))) = length (creatures w)"
proof -
  have inv: "accInv (creatures w) (speciesRegistry g) (nextCreatureId g)"
    using assms by (simp add: accountingInv_def)
  have drawn: "accInv (creatures w) (speciesRegistry (snd (draw g))) (nextCreatureId (snd (draw g)))"
    by (rule accInv_same [OF inv draw_same])
  have died: "accInv ((creatures w)[i := fst (die (creatures w ! i) (snd (draw g)))])
                (speciesRegistry (snd (die (creatures w ! i) (snd (draw g)))))
                (nextCreatureId (snd (die (creatures w ! i) (snd (draw g)))))"
    using accInv_die [OF drawn assms(2), of "fst (die (creatures w ! i) (snd (draw g)))"]
    by (simp add: die_key)
  show ?thesis
    using emigrationStep_cases [of cfg dt w g i] assms(1) drawn died
    by (auto simp: accountingInv_def)
qed

lemma emigration_fold_inv:
  "accountingInv wg \<Longrightarrow> \<forall>i \<in> set is. i < length (creatures (fst wg)) \<Longrightarrow>
     accountingInv (foldl (emigrationStep cfg dt) wg is)"
proof (induction "is" arbitrary: wg)
  case Nil
  then show ?case by simp
next
  case (Cons i rest)
  obtain w g where wg: "wg = (w, g)" by (cases wg)
  have step: "accountingInv (emigrationStep cfg dt (w, g) i)
         \<and> length (creatures (fst (emigrationStep cfg dt (w, g) i))) = length (creatures w)"
    using Cons.prems by (intro emigrationStep_inv) (simp_all add: wg)
  show ?case
    using Cons.prems step by (simp add: wg Cons.IH)
qed

lemma processEmigration_inv:
  "accountingInv (w, g) \<Longrightarrow> accountingInv (processEmigration cfg dt w g)"
  unfolding processEmigration_def by (rule emigration_fold_inv) simp_all

lemma corpseStep_same: "sameRegistry (snd acc) (snd (corpseStep w acc c))"
  by (simp add: corpseStep_def createCorpse_def newCorpse_def Let_def split_def
      sameRegistry_def)

lemma corpse_fold_same: "sameRegistry (snd acc) (snd (foldl (corpseStep w) acc cs))"
proof (induction cs arbitrary: acc)
  case Nil
  then show ?case by (simp add: sameRegistry_refl)
next
  case (Cons c cs)
  show ?case
    using sameRegistry_trans [OF corpseStep_same Cons.IH] by simp
qed

lemma cleanup_inv:
  assumes "accountingInv (w, g)"
  shows "accountingInv (cleanup w g)"
proof -
  have "accInv (filter isAlive (creatures w)) (speciesRegistry g) (nextCreatureId g)"
    using assms by (simp add: accountingInv_def accInv_filter)
  then show ?thesis
    using accInv_same [OF _ corpse_fold_same [of "(corpses w, g)" w "creatures w"]]
    by (simp add: cleanup_def accountingInv_def Let_def split_def)
qed

subsection \<open>Births\<close>

lemma draw_key:
  "nextCreatureId (snd (draw g)) = nextCreatureId g"
  "speciesRegistry (snd (draw g)) = speciesRegistry g"
  by (simp_all add: draw_def Let_def split_def)

lemma reproduceAsexual_offspring:
  assumes "fst (snd (reproduceAsexual cfg t rate c g)) = Some child"
  shows "isAlive child" and "nextCreatureId g \<le> cid child"
    and "cid child < nextCreatureId (snd (snd (reproduceAsexual cfg t rate c g)))"
proof -
  have can: "canReproduce cfg t c"
    using assms by (auto simp: reproduceAsexual_def split: if_splits)
  show "isAlive child"
    using assms can by (auto simp: reproduceAsexual_def Let_def split_def newCreature_alive)
  show "nextCreatureId g \<le> cid child"
    using assms can
    by (auto simp: reproduceAsexual_def Let_def split_def newCreature_key draw_key)
  show "cid child < nextCreatureId (snd (snd (reproduceAsexual cfg t rate c g)))"
    using assms can
    by (auto simp: reproduceAsexual_def Let_def split_def newCreature_key draw_key)
qed

lemma makeChildren_step:
  "\<exists>x y ts g2.
     makeChildren cfg c p now rate stress mx my gen n (i # rest) g
       = ((fst (newCreature cfg x y ts gen g2))\<lparr> lastReproduction := now \<rparr>
            # fst (makeChildren cfg c p now rate stress mx my gen n rest
                     (snd (newCreature cfg x y ts gen g2))),
          snd (makeChildren cfg c p now rate stress mx my gen n rest
                 (snd (newCreature cfg x y ts gen g2))))
     \<and> nextCreatureId g2 = nextCreatureId g"
  unfolding makeChildren.simps Let_def split_def
  by (intro exI conjI, rule refl) (simp add: draw_key)

lemma makeChildren_offspring:
  "sorted_wrt (<) (map cid (fst (makeChildren cfg c p now rate stress mx my gen n is g)))
   \<and> (\<forall>child \<in> set (fst (makeChildren cfg c p now rate stress mx my gen n is g)).
         isAlive child \<and> nextCreatureId g \<le> cid child
         \<and> cid child < nextCreatureId (snd (makeChildren cfg c p now rate stress mx my gen n is g)))"
proof (induction "is" arbitrary: g)
  case Nil
  then show ?case by simp
next
  case (Cons i rest)
  from makeChildren_step [of cfg c p now rate stress mx my gen n i rest g]
  obtain x y ts g2 where
    eq: "makeChildren cfg c p now rate stress mx my gen n (i # rest) g
          = ((fst (newCreature cfg x y ts gen g2))\<lparr> lastReproduction := now \<rparr>
               # fst (makeChildren cfg c p now rate stress mx my gen n rest
                        (snd (newCreature cfg x y ts gen g2))),
             snd (makeChildren cfg c p now rate stress mx my gen n rest
                    (snd (newCreature cfg x y ts gen g2))))"
    and le: "nextCreatureId g2 = nextCreatureId g"
    by blast
  define g3 where "g3 = snd (newCreature cfg x y ts gen g2)"
  note IH = Cons.IH [of g3]
  have n3: "nextCreatureId g3 = Suc (nextCreatureId g2)" by (simp add: g3_def newCreature_key)
  have mono: "nextCreatureId g3
                \<le> nextCreatureId (snd (makeChildren cfg c p now rate stress mx my gen n rest g3))"
    using makeChildren_same [of g3 cfg c p now rate stress mx my gen n rest]
    by (simp add: sameRegistry_def)
  show ?case
    unfolding eq g3_def [symmetric] fst_conv snd_conv
    using IH n3 le mono by (auto simp: newCreature_key newCreature_alive)
qed

lemma reproduceSexual_children:
  assumes "canReproduce cfg t c" and "canReproduce cfg t p"
  shows "\<exists>c1 p1 stress mx my gen n is.
     fst (snd (snd (reproduceSexual cfg t rate c p g)))
       = fst (makeChildren cfg c1 p1 t rate stress mx my gen n is (snd (draw g)))
     \<and> snd (snd (snd (reproduceSexual cfg t rate c p g)))
       = snd (makeChildren cfg c1 p1 t rate stress mx my gen n is (snd (draw g)))"
proof -
  have no: "(\<not> canReproduce cfg t c \<or> \<not> canReproduce cfg t p) = False"
    using assms by simp
  show ?thesis
    unfolding reproduceSexual_def no if_False Let_def split_def fst_conv snd_conv
    by (intro exI conjI) (rule refl)+
qed

lemma reproduceSexual_offspring:
  "sorted_wrt (<) (map cid (fst (snd (snd (reproduceSexual cfg t rate c p g)))))
   \<and> (\<forall>child \<in> set (fst (snd (snd (reproduceSexual cfg t rate c p g)))).
         isAlive child \<and> nextCreatureId g \<le> cid child
         \<and> cid child < nextCreatureId (snd (snd (snd (reproduceSexual cfg t rate c p g)))))"
proof (cases "\<not> canReproduce cfg t c \<or> \<not> canReproduce cfg t p")
  case True
  then show ?thesis by (simp add: reproduceSexual_def)
next
  case False
  then have "canReproduce cfg t c" "canReproduce cfg t p" by simp_all
  from reproduceSexual_children [OF this, of rate g]
  obtain c1 p1 stress mx my gen n "is" where
    eq: "fst (snd (snd (reproduceSexual cfg t rate c p g)))
       = fst (makeChildren cfg c1 p1 t rate stress mx my gen n is (snd (draw g)))"
      "snd (snd (snd (reproduceSexual cfg t rate c p g)))
       = snd (makeChildren cfg c1 p1 t rate stress mx my gen n is (snd (draw g)))"
    by blast
  show ?thesis
    unfolding eq
    using makeChildren_offspring [of cfg c1 p1 t rate stress mx my gen n "is" "snd (draw g)"]
    by (simp add: draw_key)
qed

lemma addCreature_inv:
  assumes inv: "accInv (creatures w) (speciesRegistry g) m"
    and alive: "isAlive child" and fresh: "m \<le> cid child"
  shows "accInv (creatures (fst (addCreature cfg child w g)))
           (speciesRegistry (snd (addCreature cfg child w g))) (Suc (cid child))"
    and "nextCreatureId (snd (addCreature cfg child w g)) = nextCreatureId g"
proof -
  show "accInv (creatures (fst (addCreature cfg child w g)))
           (speciesRegistry (snd (addCreature cfg child w g))) (Suc (cid child))"
  proof (cases "length (creatures w) < MAX_CREATURES cfg")
    case True
    have "accInv (creatures w @ [child\<lparr> speciesId := Some (sp_id (fst
              (assignSpecies (cid child) (traits child) (generation child) (simulationTime w)
                 (speciesRegistry g)))) \<rparr>])
            (snd (assignSpecies (cid child) (traits child) (generation child) (simulationTime w)
                 (speciesRegistry g)))
            (Suc (cid child))"
      by (rule accInv_add [OF inv alive fresh]) simp_all
    then show ?thesis using True by (simp add: addCreature_def Let_def split_def)
  next
    case False
    then show ?thesis
      using accInv_mono [OF inv, of "Suc (cid child)"] fresh by (simp add: addCreature_def)
  qed
  show "nextCreatureId (snd (addCreature cfg child w g)) = nextCreatureId g"
    by (simp add: addCreature_def Let_def split_def)
qed

lemma addCreatures_inv:
  assumes "accInv (creatures w) (speciesRegistry g) m"
    and "sorted_wrt (<) (map cid children)"
    and "\<forall>child \<in> set children. isAlive child \<and> m \<le> cid child \<and> cid child < N"
    and "m \<le> N"
  shows "accInv (creatures (fst (addCreatures cfg children (w, g))))
           (speciesRegistry (snd (addCreatures cfg children (w, g)))) N
         \<and> nextCreatureId (snd (addCreatures cfg children (w, g))) = nextCreatureId g"
  using assms
proof (induction children arbitrary: w g m)
  case Nil
  then show ?case by (simp add: addCreatures_def accInv_mono)
next
  case (Cons child rest)
  let ?w1 = "fst (addCreature cfg child w g)"
  let ?g1 = "snd (addCreature cfg child w g)"
  have a: "accInv (creatures ?w1) (speciesRegistry ?g1) (Suc (cid child))"
    and b: "nextCreatureId ?g1 = nextCreatureId g"
    using Cons.prems by (simp_all add: addCreature_inv)
  have step: "accInv (creatures (fst (addCreatures cfg rest (?w1, ?g1))))
           (speciesRegistry (snd (addCreatures cfg rest (?w1, ?g1)))) N
         \<and> nextCreatureId (snd (addCreatures cfg rest (?w1, ?g1))) = nextCreatureId ?g1"
    using Cons.prems by (intro Cons.IH [OF a]) auto
  have "addCreatures cfg (child # rest) (w, g) = addCreatures cfg rest (?w1, ?g1)"
    by (simp add: addCreatures_def)
  then show ?case using step b by simp
qed

lemma reproduceAsexual_inv:
  assumes "accountingInv (w, g)"
  shows "accountingInv (applyWorldOp cfg (OpReproduceAsexual i t rate) (w, g))"
proof (cases "i < length (creatures w)")
  case False
  then show ?thesis using assms by simp
next
  case True
  define r where "r = reproduceAsexual cfg t rate (creatures w ! i) g"
  define w1 where "w1 = w\<lparr> creatures := (creatures w)[i := fst r] \<rparr>"
  have inv: "accInv (creatures w) (speciesRegistry g) (nextCreatureId g)"
    using assms by (simp add: accountingInv_def)
  have same: "sameRegistry g (snd (snd r))"
    unfolding r_def by (rule reproduceAsexual_same)
  have inv1: "accInv (creatures w1) (speciesRegistry (snd (snd r))) (nextCreatureId g)"
    using accInv_frame [OF inv True, of "fst r"] same
    by (simp add: w1_def r_def reproduceAsexual_key reproduceAsexual_frame sameRegistry_def)
  have res: "applyWorldOp cfg (OpReproduceAsexual i t rate) (w, g)
               = (case fst (snd r) of None \<Rightarrow> (w1, snd (snd r))
                  | Some child \<Rightarrow> addCreature cfg child w1 (snd (snd r)))"
    using True by (simp add: Let_def split_def r_def w1_def split: option.splits)
  show ?thesis
  proof (cases "fst (snd r)")
    case None
    then show ?thesis
      unfolding res using accInv_mono [OF inv1] same
      by (simp add: accountingInv_def sameRegistry_def)
  next
    case (Some child)
    note o = reproduceAsexual_offspring [OF Some [unfolded r_def], folded r_def]
    have "accInv (creatures (fst (addCreature cfg child w1 (snd (snd r)))))
            (speciesRegistry (snd (addCreature cfg child w1 (snd (snd r)))))
            (Suc (cid child))"
      by (rule addCreature_inv [OF inv1 o(1) o(2)])
    then have "accInv (creatures (fst (addCreature cfg child w1 (snd (snd r)))))
            (speciesRegistry (snd (addCreature cfg child w1 (snd (snd r)))))
            (nextCreatureId (snd (snd r)))"
      using o(3) by (auto intro: accInv_mono)
    then show ?thesis
      unfolding res
      by (simp add: Some accountingInv_def addCreature_inv [OF inv1 o(1) o(2)])
  qed
qed

lemma reproduceSexual_inv:
  assumes "accountingInv (w, g)"
  shows "accountingInv (applyWorldOp cfg (OpReproduceSexual i j t rate) (w, g))"
proof (cases "i < length (creatures w) \<and> j < length (creatures w) \<and> i \<noteq> j")
  case False
  then show ?thesis using assms by auto
next
  case True
  define r where "r = reproduceSexual cfg t rate (creatures w ! i) (creatures w ! j) g"
  define g' where "g' = snd (snd (snd r))"
  define w1 where "w1 = w\<lparr> creatures := (creatures w)[i := fst r, j := fst (snd r)] \<rparr>"
  have inv: "accInv (creatures w) (speciesRegistry g) (nextCreatureId g)"
    using assms by (simp add: accountingInv_def)
  have same: "sameRegistry g g'"
    unfolding r_def g'_def by (rule reproduceSexual_same)
  have i: "i < length (creatures w)" and j: "j < length ((creatures w)[i := fst r])"
    and ji: "(creatures w)[i := fst r] ! j = creatures w ! j"
    using True by simp_all
  have inv0: "accInv ((creatures w)[i := fst r]) (speciesRegistry g) (nextCreatureId g)"
    using accInv_frame [OF inv i, of "fst r"]
    by (simp add: r_def reproduceSexual_key reproduceSexual_frame)
  have key: "cid (fst (snd r)) = cid ((creatures w)[i := fst r] ! j)"
    "isAlive (fst (snd r)) = isAlive ((creatures w)[i := fst r] ! j)"
    "speciesId (fst (snd r)) = speciesId ((creatures w)[i := fst r] ! j)"
    unfolding ji by (simp_all add: r_def reproduceSexual_key reproduceSexual_frame)
  have inv1: "accInv (creatures w1) (speciesRegistry g') (nextCreatureId g)"
    using accInv_frame [OF inv0 j key] same by (simp add: w1_def sameRegistry_def)
  have res: "applyWorldOp cfg (OpReproduceSexual i j t rate) (w, g)
               = addCreatures cfg (fst (snd (snd r))) (w1, g')"
    using True by (simp add: Let_def split_def r_def w1_def g'_def)
  note o = reproduceSexual_offspring [of cfg t rate "creatures w ! i" "creatures w ! j" g,
      folded r_def, folded g'_def]
  have le: "nextCreatureId g \<le> nextCreatureId g'" using same by (simp add: sameRegistry_def)
  have "accInv (creatures (fst (addCreatures cfg (fst (snd (snd r))) (w1, g'))))
           (speciesRegistry (snd (addCreatures cfg (fst (snd (snd r))) (w1, g'))))
           (nextCreatureId g')
         \<and> nextCreatureId (snd (addCreatures cfg (fst (snd (snd r))) (w1, g')))
             = nextCreatureId g'"
    using o le by (intro addCreatures_inv [OF inv1]) auto
  then show ?thesis unfolding res by (simp add: accountingInv_def)
qed

lemma addCreature_any_inv:
  assumes "accountingInv (w, g)" and "opInSimulation (w, g) (OpAddCreature c)"
  shows "accountingInv (applyWorldOp cfg (OpAddCreature c) (w, g))"
proof -
  have inv: "accInv (creatures w) (speciesRegistry g) (nextCreatureId g)"
    using assms(1) by (simp add: accountingInv_def)
  have c: "isAlive c" "cid c < nextCreatureId g" "cid c \<notin> set (map cid (creatures w))"
    using assms(2) by (simp_all add: opInSimulation_def)
  show ?thesis
  proof (cases "length (creatures w) < MAX_CREATURES cfg")
    case True
    have "accInv (creatures w @ [c\<lparr> speciesId := Some (sp_id (fst
              (assignSpecies (cid c) (traits c) (generation c) (simulationTime w)
                 (speciesRegistry g)))) \<rparr>])
            (snd (assignSpecies (cid c) (traits c) (generation c) (simulationTime w)
                 (speciesRegistry g)))
            (nextCreatureId g)"
      by (rule accInv_add_any [OF inv c(1) c(3) _ c(2)]) simp_all
    then show ?thesis using True by (simp add: addCreature_def accountingInv_def Let_def split_def)
  next
    case False
    then show ?thesis using inv by (simp add: addCreature_def accountingInv_def)
  qed
qed

lemma applyWorldOp_inv:
  assumes "accountingInv wg" and "opInSimulation wg op"
  shows "accountingInv (applyWorldOp cfg op wg)"
proof -
  obtain w g where wg: "wg = (w, g)" by (cases wg)
  show ?thesis
  proof (cases op)
    case (OpInitialize countOpt)
    then show ?thesis by (simp add: wg initialize_inv)
  next
    case (OpAddCreature c)
    then show ?thesis using assms addCreature_any_inv unfolding wg by blast
  next
    case (OpAddNew x y topt gen)
    then show ?thesis using assms addNew_inv unfolding wg by blast
  next
    case (OpCall i call)
    then show ?thesis using assms call_inv unfolding wg by blast
  next
    case (OpReproduceAsexual i t rate)
    then show ?thesis using assms reproduceAsexual_inv unfolding wg by blast
  next
    case (OpReproduceSexual i j t rate)
    then show ?thesis using assms reproduceSexual_inv unfolding wg by blast
  next
    case (OpProcessEmigration dt)
    then show ?thesis using assms by (simp add: wg processEmigration_inv)
  next
    case OpCleanup
    then show ?thesis using assms by (simp add: wg cleanup_inv)
  next
    case OpUpdateSpatialHashes
    then show ?thesis using assms by (simp add: wg accountingInv_def updateSpatialHashes_def)
  next
    case (OpUpdateTime dt)
    then show ?thesis using assms by (simp add: wg accountingInv_def updateTime_def)
  next
    case OpNewWorld
    then show ?thesis using assms(2) by (simp add: opInSimulation_def)
  qed
qed

lemma runSimulation_inv:
  "accountingInv wg \<Longrightarrow> runSimulation cfg ops wg = Some wg' \<Longrightarrow> accountingInv wg'"
proof (induction ops arbitrary: wg)
  case Nil
  then show ?case by simp
next
  case (Cons op rest)
  from Cons.prems(2) have ok: "opInSimulation wg op"
    and run: "runSimulation cfg rest (applyWorldOp cfg op wg) = Some wg'"
    by (simp_all split: if_splits)
  show ?case by (rule Cons.IH [OF applyWorldOp_inv [OF Cons.prems(1) ok] run])
qed

lemma initial_inv: "accountingInv (newWorld cfg, initialGlobals rnd)"
  by (simp add: accountingInv_def newWorld_def initialGlobals_def accInv_new)

subsection \<open>Example runs\<close>

lemma assignSpecies_first_population:
  "species reg = [] \<Longrightarrow> activePopulation (snd (assignSpecies i t gen now reg)) = 1"
  by (simp add: assignSpecies_def findMatchingSpecies_def createSpecies_def Let_def
      split_def speciesSet_def activePopulation_def getActiveSpecies_def)

lemma spawnRandomFood_key:
  "nextCreatureId (snd (spawnRandomFood cfg g)) = nextCreatureId g"
  using spawnRandomFood_same [of g cfg]
  by (simp add: spawnRandomFood_def newFood_def getRandomFoodSize_def draw_def Let_def
      split_def)

lemma spawnInitialFoods_key:
  "creatures (fst ((spawnInitialFood cfg ^^ n) wg)) = creatures (fst wg)
   \<and> nextCreatureId (snd ((spawnInitialFood cfg ^^ n) wg)) = nextCreatureId (snd wg)"
  by (induction n) (simp_all add: spawnInitialFood_def Let_def split_def spawnRandomFood_key)

lemma initialize_empty:
  "creatures (fst (initialize cfg (Some 0) w g)) = []"
  "nextCreatureId (snd (initialize cfg (Some 0) w g)) = nextCreatureId g"
  by (simp_all add: initialize_def Let_def spawnInitialFoods_key)

text \<open>
  C5, as stated, fails.  \<open>addCreature\<close> takes any creature and registers it: after
  \<open>c.die()\<close>, \<open>addCreature(c)\<close> on a new world counts a population of 1 for a world with no
  living creature.  And the registry is one object for the whole process, which
  \<open>new World()\<close> does not reset: after the addition of a new creature, the replacement of
  the world (the engine's \<open>stop()\<close>) leaves a population of 1 beside an empty world.
\<close>

theorem species_accounting_fails_outside_simulation:
  "activePopulation (speciesRegistry (snd (runWorld DEFAULT_CONFIG
       [OpAddCreature
          (fst (die (fst (newCreature DEFAULT_CONFIG 100 100 (Some exampleOmnivore) 0
                            (initialGlobals (constantSource 0))))
                  (snd (newCreature DEFAULT_CONFIG 100 100 (Some exampleOmnivore) 0
                          (initialGlobals (constantSource 0))))))]
       (newWorld DEFAULT_CONFIG,
        snd (die (fst (newCreature DEFAULT_CONFIG 100 100 (Some exampleOmnivore) 0
                         (initialGlobals (constantSource 0))))
               (snd (newCreature DEFAULT_CONFIG 100 100 (Some exampleOmnivore) 0
                       (initialGlobals (constantSource 0))))))))) = 1
   \<and> aliveWithSpecies (fst (runWorld DEFAULT_CONFIG
       [OpAddCreature
          (fst (die (fst (newCreature DEFAULT_CONFIG 100 100 (Some exampleOmnivore) 0
                            (initialGlobals (constantSource 0))))
                  (snd (newCreature DEFAULT_CONFIG 100 100 (Some exampleOmnivore) 0
                          (initialGlobals (constantSource 0))))))]
       (newWorld DEFAULT_CONFIG,
        snd (die (fst (newCreature DEFAULT_CONFIG 100 100 (Some exampleOmnivore) 0
                         (initialGlobals (constantSource 0))))
               (snd (newCreature DEFAULT_CONFIG 100 100 (Some exampleOmnivore) 0
                       (initialGlobals (constantSource 0)))))))) = 0
   \<and> activePopulation (speciesRegistry (snd (runWorld DEFAULT_CONFIG
       [OpAddNew 100 100 (Some exampleOmnivore) 0, OpNewWorld]
       (newWorld DEFAULT_CONFIG, initialGlobals (constantSource 0))))) = 1
   \<and> aliveWithSpecies (fst (runWorld DEFAULT_CONFIG
       [OpAddNew 100 100 (Some exampleOmnivore) 0, OpNewWorld]
       (newWorld DEFAULT_CONFIG, initialGlobals (constantSource 0)))) = 0"
proof -
  let ?nc = "newCreature DEFAULT_CONFIG 100 100 (Some exampleOmnivore) 0
               (initialGlobals (constantSource 0))"
  have empty: "species (speciesRegistry (snd ?nc)) = []"
    by (simp add: newCreature_globals initialGlobals_def newSpeciesRegistry_def)
  have unmapped: "creatureSpecies (speciesRegistry (snd ?nc)) (cid (fst ?nc)) = None"
    by (simp add: newCreature_globals initialGlobals_def newSpeciesRegistry_def)
  have died: "speciesRegistry (snd (die (fst ?nc) (snd ?nc))) = speciesRegistry (snd ?nc)"
    by (simp add: die_def recordDeath_unmapped [OF unmapped])
  have max: "0 < MAX_CREATURES DEFAULT_CONFIG" by (simp add: DEFAULT_CONFIG_simps)
  show ?thesis
    using max
    by (simp add: runWorld_def addCreature_def Let_def split_def newWorld_def died empty
        assignSpecies_first_population aliveWithSpecies_def die_result)
qed

text \<open>
  C5, amended.  A run starts at the start of the process (a new world beside the empty
  registry) or at a call of \<open>initialize\<close>, on whatever world and registry.  In every state
  that it reaches from there by operations as the simulation makes them (\<open>initialize\<close>;
  \<open>addCreature\<close> of a living creature that the constructor has made and that is not in
  the list of the world, as the offspring of a reproduction is; the calls on a creature
  with its deaths by \<open>update\<close>, \<open>takeDamage\<close> and \<open>die\<close>; the reproductions;
  \<open>processEmigration\<close>; \<open>cleanup\<close>; the rebuild of the hashes and the update of the time;
  not the replacement of the world by a new one), the sum of \<open>population\<close> over the
  species with \<open>population > 0\<close> equals the number of creatures of the world that are alive
  and have a species id.  The configuration and the random source are arbitrary.
\<close>

theorem species_accounting:
  assumes "start = (newWorld cfg, initialGlobals rnd) \<or> start = initialize cfg countOpt w0 g0"
    and "runSimulation cfg ops start = Some (w, g)"
  shows "activePopulation (speciesRegistry g) = int (aliveWithSpecies w)"
proof -
  have "accountingInv start"
    using assms(1) initial_inv [of cfg rnd] initialize_inv [of cfg countOpt w0 g0] by auto
  then have "accountingInv (w, g)"
    using assms(2) by (rule runSimulation_inv)
  then show ?thesis
    unfolding accountingInv_def aliveWithSpecies_def fst_conv snd_conv
    by (rule accInv_accounting)
qed

theorem species_accounting_witness:
  "runSimulation DEFAULT_CONFIG [OpAddNew 100 100 (Some exampleOmnivore) 0]
       (newWorld DEFAULT_CONFIG, initialGlobals (constantSource 0))
     = Some (runWorld DEFAULT_CONFIG [OpAddNew 100 100 (Some exampleOmnivore) 0]
               (newWorld DEFAULT_CONFIG, initialGlobals (constantSource 0)))
   \<and> aliveWithSpecies
       (fst (runWorld DEFAULT_CONFIG [OpAddNew 100 100 (Some exampleOmnivore) 0]
               (newWorld DEFAULT_CONFIG, initialGlobals (constantSource 0)))) = 1
   \<and> activePopulation
       (speciesRegistry
         (snd (runWorld DEFAULT_CONFIG [OpAddNew 100 100 (Some exampleOmnivore) 0]
                 (newWorld DEFAULT_CONFIG, initialGlobals (constantSource 0))))) = 1
   \<and> runSimulation DEFAULT_CONFIG
         [OpAddNew 100 100 (Some exampleOmnivore) 0, OpCall 0 CallDie]
         (newWorld DEFAULT_CONFIG, initialGlobals (constantSource 0))
     = Some (runWorld DEFAULT_CONFIG
               [OpAddNew 100 100 (Some exampleOmnivore) 0, OpCall 0 CallDie]
               (newWorld DEFAULT_CONFIG, initialGlobals (constantSource 0)))
   \<and> aliveWithSpecies
       (fst (runWorld DEFAULT_CONFIG [OpAddNew 100 100 (Some exampleOmnivore) 0, OpCall 0 CallDie]
               (newWorld DEFAULT_CONFIG, initialGlobals (constantSource 0)))) = 0
   \<and> activePopulation
       (speciesRegistry
         (snd (runWorld DEFAULT_CONFIG
                 [OpAddNew 100 100 (Some exampleOmnivore) 0, OpCall 0 CallDie]
                 (newWorld DEFAULT_CONFIG, initialGlobals (constantSource 0))))) = 0
   \<and> runSimulation DEFAULT_CONFIG
         [OpAddCreature (fst (newCreature DEFAULT_CONFIG 100 100 (Some exampleOmnivore) 0
                                (initialGlobals (constantSource 0))))]
         (initialize DEFAULT_CONFIG (Some 0) (newWorld DEFAULT_CONFIG)
            (snd (newCreature DEFAULT_CONFIG 100 100 (Some exampleOmnivore) 0
                    (initialGlobals (constantSource 0)))))
     = Some (runWorld DEFAULT_CONFIG
         [OpAddCreature (fst (newCreature DEFAULT_CONFIG 100 100 (Some exampleOmnivore) 0
                                (initialGlobals (constantSource 0))))]
         (initialize DEFAULT_CONFIG (Some 0) (newWorld DEFAULT_CONFIG)
            (snd (newCreature DEFAULT_CONFIG 100 100 (Some exampleOmnivore) 0
                    (initialGlobals (constantSource 0))))))
   \<and> aliveWithSpecies
       (fst (runWorld DEFAULT_CONFIG
         [OpAddCreature (fst (newCreature DEFAULT_CONFIG 100 100 (Some exampleOmnivore) 0
                                (initialGlobals (constantSource 0))))]
         (initialize DEFAULT_CONFIG (Some 0) (newWorld DEFAULT_CONFIG)
            (snd (newCreature DEFAULT_CONFIG 100 100 (Some exampleOmnivore) 0
                    (initialGlobals (constantSource 0))))))) = 1
   \<and> activePopulation
       (speciesRegistry
         (snd (runWorld DEFAULT_CONFIG
         [OpAddCreature (fst (newCreature DEFAULT_CONFIG 100 100 (Some exampleOmnivore) 0
                                (initialGlobals (constantSource 0))))]
         (initialize DEFAULT_CONFIG (Some 0) (newWorld DEFAULT_CONFIG)
            (snd (newCreature DEFAULT_CONFIG 100 100 (Some exampleOmnivore) 0
                    (initialGlobals (constantSource 0)))))))) = 1"
proof -
  let ?nc = "newCreature DEFAULT_CONFIG 100 100 (Some exampleOmnivore) 0
               (initialGlobals (constantSource 0))"
  let ?s0 = "(newWorld DEFAULT_CONFIG, initialGlobals (constantSource 0))"
  let ?ops1 = "[OpAddNew 100 100 (Some exampleOmnivore) 0]"
  let ?ops2 = "[OpAddNew 100 100 (Some exampleOmnivore) 0, OpCall 0 CallDie]"
  let ?r1 = "runWorld DEFAULT_CONFIG ?ops1 ?s0"
  let ?r2 = "runWorld DEFAULT_CONFIG ?ops2 ?s0"
  let ?s3 = "initialize DEFAULT_CONFIG (Some 0) (newWorld DEFAULT_CONFIG) (snd ?nc)"
  let ?ops3 = "[OpAddCreature (fst ?nc)]"
  let ?r3 = "runWorld DEFAULT_CONFIG ?ops3 ?s3"
  have max: "0 < MAX_CREATURES DEFAULT_CONFIG" by (simp add: DEFAULT_CONFIG_simps)
  have empty: "species (speciesRegistry (snd ?nc)) = []"
    by (simp add: newCreature_globals initialGlobals_def newSpeciesRegistry_def)
  have cs: "creatures (fst ?r1)
              = [(fst ?nc)\<lparr> speciesId := Some (nextSpeciesId (speciesRegistry (snd ?nc))) \<rparr>]"
    using addCreature_new_world [OF empty, of DEFAULT_CONFIG "fst ?nc"]
    by (simp add: runWorld_def Let_def split_def DEFAULT_CONFIG_simps)
  have a1: "aliveWithSpecies (fst ?r1) = 1"
    by (simp add: aliveWithSpecies_def cs newCreature_fields)
  have r2: "?r2 = applyWorldOp DEFAULT_CONFIG (OpCall 0 CallDie) (fst ?r1, snd ?r1)"
    by (simp add: runWorld_def)
  have a2: "aliveWithSpecies (fst ?r2) = 0"
    unfolding r2 applyWorldOp.simps
    by (simp add: aliveWithSpecies_def cs Let_def split_def die_def)
  have run1: "runSimulation DEFAULT_CONFIG ?ops1 ?s0 = Some ?r1"
    and run2: "runSimulation DEFAULT_CONFIG ?ops2 ?s0 = Some ?r2"
    by (simp_all add: opInSimulation_def runWorld_def)
  obtain w3 g3 where s3: "?s3 = (w3, g3)" by (cases ?s3)
  have w3: "creatures w3 = []"
    using initialize_empty(1) [of DEFAULT_CONFIG "newWorld DEFAULT_CONFIG" "snd ?nc"]
    unfolding s3 by simp
  have g3: "nextCreatureId g3 = 1"
    using initialize_empty(2) [of DEFAULT_CONFIG "newWorld DEFAULT_CONFIG" "snd ?nc"]
    unfolding s3 by (simp add: newCreature_globals initialGlobals_def)
  have c0: "cid (fst ?nc) = 0" "isAlive (fst ?nc)"
    by (simp_all add: newCreature_fields initialGlobals_def)
  have run3: "runSimulation DEFAULT_CONFIG ?ops3 ?s3 = Some ?r3"
    unfolding s3 by (simp add: opInSimulation_def runWorld_def w3 g3 c0)
  have a3: "aliveWithSpecies (fst ?r3) = 1"
    unfolding s3 using max
    by (simp add: runWorld_def addCreature_def w3 Let_def split_def aliveWithSpecies_def c0)
  show ?thesis
    using species_accounting [where start = ?s0 and cfg = DEFAULT_CONFIG
        and rnd = "constantSource 0" and ops = ?ops1 and w = "fst ?r1" and g = "snd ?r1"]
      species_accounting [where start = ?s0 and cfg = DEFAULT_CONFIG
        and rnd = "constantSource 0" and ops = ?ops2 and w = "fst ?r2" and g = "snd ?r2"]
      species_accounting [where start = ?s3 and cfg = DEFAULT_CONFIG
        and countOpt = "Some 0" and ?w0.0 = "newWorld DEFAULT_CONFIG" and ?g0.0 = "snd ?nc"
        and ops = ?ops3 and w = "fst ?r3" and g = "snd ?r3"]
      a1 a2 a3 run1 run2 run3
    by simp
qed

end
